theory Spec2Isabelle
  imports Complex_Main
begin

section \<open>Conventions\<close>

text \<open>
  The calculator works on Python floats. They are modelled as \<^typ>\<open>real\<close>: exact
  arithmetic, no rounding and no NaN. The replay of one ticker is given a second time with
  every arithmetic result rounded, for what depends on the rounding. Where the source tests a value with
  \<^verbatim>\<open>pd.isna\<close>, the value is an \<^typ>\<open>'a option\<close> and \<open>None\<close> stands for NaN or
  a missing cell. A \<^verbatim>\<open>raise\<close> is the left injection of a sum.
\<close>

datatype error = ValueError string | KeyError string

section \<open>tax_calculations.py\<close>

subsection \<open>apply_cgt_with_loss_carry_forward\<close>

text \<open>
  The function updates \<^verbatim>\<open>after_exemption\<close> and \<^verbatim>\<open>accumulated_losses\<close> in place;
  the steps below are the four steps of the source, each binding the updated value under a
  new name. The result is the tuple
  \<^verbatim>\<open>(taxable_gains, cgt_liability, carry_forward_used, accumulated_losses)\<close>.
\<close>

definition apply_cgt_with_loss_carry_forward ::
  "real \<Rightarrow> real \<Rightarrow> real \<Rightarrow> real \<times> real \<times> real \<times> real" where
  "apply_cgt_with_loss_carry_forward stock_realized accumulated_losses cgt_exemption =
    (let after_exemption =
           (if stock_realized > 0 then stock_realized - min stock_realized cgt_exemption
            else stock_realized);
         (carry_forward_used, accumulated_losses1, after_exemption1) =
           (if after_exemption > 0 \<and> accumulated_losses > 0
            then (min after_exemption accumulated_losses,
                  accumulated_losses - min after_exemption accumulated_losses,
                  after_exemption - min after_exemption accumulated_losses)
            else (0, accumulated_losses, after_exemption));
         taxable_gains = max 0 after_exemption1;
         cgt_liability = taxable_gains * (33 / 100);
         accumulated_losses2 =
           (if after_exemption1 < 0 then accumulated_losses1 + \<bar>after_exemption1\<bar>
            else accumulated_losses1)
     in (taxable_gains, cgt_liability, carry_forward_used, accumulated_losses2))"

subsection \<open>calculate_etf_exit_tax\<close>

definition calculate_etf_exit_tax :: "real \<Rightarrow> real \<Rightarrow> real \<Rightarrow> real \<times> real" where
  "calculate_etf_exit_tax etf_realized etf_dividends etf_deemed =
    (let total_taxable = etf_realized + etf_dividends + etf_deemed;
         exit_tax_liability = total_taxable * (41 / 100)
     in (total_taxable, exit_tax_liability))"

subsection \<open>calculate_dividend_income_tax\<close>

text \<open>The dictionary the function returns, one field per key.\<close>

record dividend_tax =
  gross_dividend_income :: real
  irish_dividends :: real
  foreign_dividends :: real
  irish_dwt_credit :: real
  foreign_withholding_credit :: real
  total_credits :: real
  income_tax_due :: real
  net_tax_due :: real
  refund_due :: real
  margin_rate :: int

text \<open>
  The body shared by \<^verbatim>\<open>calculate_dividend_income_tax\<close> and the per-year block of
  \<^verbatim>\<open>calculate_dividend_taxes\<close>: both compute the same ten entries in the same way.
\<close>

definition dividend_breakdown :: "real \<Rightarrow> int \<Rightarrow> real \<Rightarrow> real \<Rightarrow> dividend_tax" where
  "dividend_breakdown dividend_income rate irish foreign =
    (let irish_credit = irish * (25 / 100);
         foreign_credit = foreign * (15 / 100);
         credits = irish_credit + foreign_credit;
         tax_due = dividend_income * (real_of_int rate / 100)
     in \<lparr> gross_dividend_income = dividend_income,
          irish_dividends = irish,
          foreign_dividends = foreign,
          irish_dwt_credit = irish_credit,
          foreign_withholding_credit = foreign_credit,
          total_credits = credits,
          income_tax_due = tax_due,
          net_tax_due = max 0 (tax_due - credits),
          refund_due = max 0 (credits - tax_due),
          margin_rate = rate \<rparr>)"

text \<open>Python's \<^verbatim>\<open>return None\<close> for a non-positive income is \<open>None\<close>.\<close>

definition calculate_dividend_income_tax ::
  "real \<Rightarrow> int \<Rightarrow> real \<Rightarrow> real \<Rightarrow> dividend_tax option" where
  "calculate_dividend_income_tax dividend_income rate irish foreign =
    (if dividend_income \<le> 0 then None
     else Some (dividend_breakdown dividend_income rate irish foreign))"

section \<open>improved_calculator.py: amounts and currencies\<close>

subsection \<open>convert_to_eur\<close>

text \<open>The FX rate is \<open>None\<close> when the cell is NaN.\<close>

definition convert_to_eur :: "real \<Rightarrow> string \<Rightarrow> real option \<Rightarrow> error + real" where
  "convert_to_eur amount currency fx_rate =
    (if currency = ''EUR'' then Inr amount
     else if currency = ''USD'' \<and> fx_rate \<noteq> None \<and> the fx_rate > 0
       then Inr (amount / the fx_rate)
     else Inl (ValueError (''Invalid FX rate for '' @ currency)))"

subsection \<open>parse_amount\<close>

text \<open>
  A Python \<^verbatim>\<open>str\<close> is a sequence of code points, and the patterns of \<^verbatim>\<open>parse_amount\<close>
  name code points beyond one byte, so the text of an amount cell is a list of code points.
  In a \<^verbatim>\<open>str\<close> pattern \<^verbatim>\<open>\d\<close> matches every Unicode decimal digit; the table of the
  Unicode database (\<^verbatim>\<open>unicodedata.decimal\<close>) is the parameter \<open>decimal\<close>, which
  gives the value of a decimal digit and \<open>None\<close> for any other code point.
\<close>

type_synonym ustring = "nat list"
type_synonym decimal_table = "nat \<Rightarrow> nat option"

definition ascii_decimal :: decimal_table where
  "ascii_decimal c = (if 48 \<le> c \<and> c \<le> 57 then Some (c - 48) else None)"

definition is_digit :: "decimal_table \<Rightarrow> nat \<Rightarrow> bool" where
  "is_digit decimal c = (decimal c \<noteq> None)"

definition is_hex :: "nat \<Rightarrow> bool" where
  "is_hex c = ((48 \<le> c \<and> c \<le> 57) \<or> (65 \<le> c \<and> c \<le> 70) \<or> (97 \<le> c \<and> c \<le> 102))"

text \<open>
  \<^verbatim>\<open>re.sub(r'[...]', '', s)\<close> with the five currency symbols: euro, dollar, pound, yen,
  rupee.
\<close>

definition sub_currency_symbols :: "ustring \<Rightarrow> ustring" where
  "sub_currency_symbols s = filter (\<lambda>c. c \<notin> set [8364, 36, 163, 165, 8377]) s"

text \<open>
  The second pattern is U+00E2, then \<^verbatim>\<open>[^\d]*\<close>, then U+00AC. The star is greedy and
  backtracks: from an U+00E2 the match runs to the last U+00AC inside the longest run of
  non-digits that follows. \<open>euro_match_length\<close> is the number of code points the match
  takes after the U+00E2, when there is a match.
\<close>

definition euro_match_length :: "decimal_table \<Rightarrow> ustring \<Rightarrow> nat option" where
  "euro_match_length decimal r =
    (let run = takeWhile (\<lambda>c. \<not> is_digit decimal c) r
     in if 172 \<in> set run
        then Some (length (rev (dropWhile (\<lambda>c. c \<noteq> 172) (rev run))))
        else None)"

function sub_euro_encodings :: "decimal_table \<Rightarrow> ustring \<Rightarrow> ustring" where
  "sub_euro_encodings decimal [] = []"
| "sub_euro_encodings decimal (c # r) =
    (if c = 226 then
       (case euro_match_length decimal r of
          Some n \<Rightarrow> sub_euro_encodings decimal (drop n r)
        | None \<Rightarrow> c # sub_euro_encodings decimal r)
     else c # sub_euro_encodings decimal r)"
  by pat_completeness auto
termination
  by (relation "measure (\<lambda>(decimal, s). length s)") auto

text \<open>
  The third pattern is \<^verbatim>\<open>_x\<close>, one or more hexadecimal digits, \<^verbatim>\<open>_\<close>. The underscore is
  no hexadecimal digit, so the only candidate is the longest run of them.
  \<open>hex_match_length\<close> is the number of code points the match takes after its first
  underscore.
\<close>

definition hex_match_length :: "ustring \<Rightarrow> nat option" where
  "hex_match_length r =
    (case r of
       x # r1 \<Rightarrow>
         (if x = 120 \<and> takeWhile is_hex r1 \<noteq> [] then
            (case dropWhile is_hex r1 of
               u # r2 \<Rightarrow> if u = 95 then Some (length (takeWhile is_hex r1) + 2) else None
             | [] \<Rightarrow> None)
          else None)
     | [] \<Rightarrow> None)"

function sub_hex_encodings :: "ustring \<Rightarrow> ustring" where
  "sub_hex_encodings [] = []"
| "sub_hex_encodings (c # r) =
    (if c = 95 then
       (case hex_match_length r of
          Some n \<Rightarrow> sub_hex_encodings (drop n r)
        | None \<Rightarrow> c # sub_hex_encodings r)
     else c # sub_hex_encodings r)"
  by pat_completeness auto
termination
  by (relation "measure length") auto

text \<open>
  \<^verbatim>\<open>re.findall(r'-?\d+\.?\d*', s)\<close>: only the first match is used. \<open>number_at\<close> is the
  text the pattern takes from a position where a digit stands: the digits, then a dot if
  there is one, then the digits after it.
\<close>

definition number_at :: "decimal_table \<Rightarrow> ustring \<Rightarrow> ustring" where
  "number_at decimal s =
    (let digits = takeWhile (is_digit decimal) s
     in case dropWhile (is_digit decimal) s of
          d # r \<Rightarrow> if d = 46 then digits @ [46] @ takeWhile (is_digit decimal) r else digits
        | [] \<Rightarrow> digits)"

fun first_match :: "decimal_table \<Rightarrow> ustring \<Rightarrow> ustring option" where
  "first_match decimal [] = None"
| "first_match decimal (c # r) =
    (if c = 45 \<and> (case r of d # _ \<Rightarrow> is_digit decimal d | [] \<Rightarrow> False)
       then Some (c # number_at decimal r)
     else if is_digit decimal c then Some (number_at decimal (c # r))
     else first_match decimal r)"

text \<open>
  \<^verbatim>\<open>float(text)\<close> on the decimal literals: an optional minus sign, digits, and optionally a
  dot and more digits. On any other text the model raises \<open>ValueError\<close>; Python accepts
  more (exponents, blanks, \<^verbatim>\<open>inf\<close>), none of which the pattern above can produce.
\<close>

definition digits_value :: "decimal_table \<Rightarrow> ustring \<Rightarrow> nat" where
  "digits_value decimal ds = foldl (\<lambda>acc c. 10 * acc + (case decimal c of Some v \<Rightarrow> v | None \<Rightarrow> 0)) 0 ds"

definition unsigned_float :: "decimal_table \<Rightarrow> ustring \<Rightarrow> error + real" where
  "unsigned_float decimal s =
    (let whole = takeWhile (is_digit decimal) s
     in if whole = [] then Inl (ValueError ''could not convert string to float'')
        else (case dropWhile (is_digit decimal) s of
                [] \<Rightarrow> Inr (real (digits_value decimal whole))
              | d # after_dot \<Rightarrow>
                  if d = 46 \<and> list_all (is_digit decimal) after_dot
                  then Inr (real (digits_value decimal whole)
                            + real (digits_value decimal after_dot) / 10 ^ length after_dot)
                  else Inl (ValueError ''could not convert string to float'')))"

definition py_float :: "decimal_table \<Rightarrow> ustring \<Rightarrow> error + real" where
  "py_float decimal s =
    (case s of
       c # r \<Rightarrow>
         (if c = 45 then
            (case unsigned_float decimal r of Inr x \<Rightarrow> Inr (- x) | Inl e \<Rightarrow> Inl e)
          else unsigned_float decimal s)
     | [] \<Rightarrow> Inl (ValueError ''could not convert string to float''))"

text \<open>
  The argument is \<open>None\<close> for a missing cell (\<^verbatim>\<open>pd.isna\<close>) and otherwise the text
  \<^verbatim>\<open>str(amount_str)\<close>. The \<^verbatim>\<open>except ValueError\<close> catches that error and no other.
\<close>

definition parse_amount :: "decimal_table \<Rightarrow> ustring option \<Rightarrow> error + real" where
  "parse_amount decimal amount_str =
    (case amount_str of
       None \<Rightarrow> Inr 0
     | Some s0 \<Rightarrow>
         (let s1 = sub_currency_symbols s0;
              s2 = sub_euro_encodings decimal s1;
              s3 = sub_hex_encodings s2
          in case first_match decimal s3 of
               Some m \<Rightarrow>
                 (case py_float decimal m of
                    Inr x \<Rightarrow> Inr x
                  | Inl (ValueError _) \<Rightarrow> Inr 0
                  | Inl e \<Rightarrow> Inl e)
             | None \<Rightarrow> Inr 0))"

section \<open>improved_calculator.py: the ticker cache\<close>

text \<open>
  Ticker symbols, type strings and currency codes are ASCII texts, modelled as
  \<^typ>\<open>string\<close>; \<open>upper\<close> is \<^verbatim>\<open>str.upper\<close> on ASCII letters.
\<close>

definition upper :: "string \<Rightarrow> string" where
  "upper s = map (\<lambda>c. let n = (of_char c :: nat) in
                        if 97 \<le> n \<and> n \<le> 122 then char_of (n - 32) else c) s"

text \<open>
  An entry of the ticker cache is a JSON object read with \<^verbatim>\<open>.get\<close>: a field is \<open>None\<close>
  when the key is absent (or \<^verbatim>\<open>null\<close>), and each reader applies its own default.
\<close>

record ticker_info =
  info_type :: "string option"
  info_currency :: "string option"
  info_active :: "bool option"
  info_merged_into :: "string option"
  info_conversion_ratio :: "real option"
  info_withholding_tax_deducted :: "bool option"
  info_domicile :: "string option"

text \<open>What \<^verbatim>\<open>yfinance\<close> answers for a ticker: the three keys the code reads.\<close>

record yf_info =
  quoteType :: "string option"
  yf_currency :: "string option"
  yf_country :: "string option"

text \<open>
  The mutable state a run can touch: the calculator's \<^verbatim>\<open>self.ticker_cache\<close> and the
  JSON file behind it. A method is a function from this state to a result, or an error, and
  the state it leaves; a raised exception keeps the changes made before it.
\<close>

record world =
  ticker_cache :: "string \<rightharpoonup> ticker_info"
  cache_file :: "string \<rightharpoonup> ticker_info"

type_synonym 'a run = "world \<Rightarrow> (error + 'a) \<times> world"

definition ret :: "'a \<Rightarrow> 'a run" where
  "ret x = (\<lambda>w. (Inr x, w))"

definition raise :: "error \<Rightarrow> 'a run" where
  "raise e = (\<lambda>w. (Inl e, w))"

definition lift :: "error + 'a \<Rightarrow> 'a run" where
  "lift r = (\<lambda>w. (r, w))"

definition bind :: "'a run \<Rightarrow> ('a \<Rightarrow> 'b run) \<Rightarrow> 'b run" where
  "bind m f = (\<lambda>w. case m w of (Inl e, w') \<Rightarrow> (Inl e, w') | (Inr x, w') \<Rightarrow> f x w')"

text \<open>
  \<^verbatim>\<open>df.apply(f)\<close> and a \<^verbatim>\<open>for\<close> loop that updates a value: both go through the rows
  in order and stop at the first exception.
\<close>

fun mapM :: "('a \<Rightarrow> 'b run) \<Rightarrow> 'a list \<Rightarrow> 'b list run" where
  "mapM f [] = ret []"
| "mapM f (x # xs) = bind (f x) (\<lambda>y. bind (mapM f xs) (\<lambda>ys. ret (y # ys)))"

fun foldM :: "('a \<Rightarrow> 's \<Rightarrow> 's run) \<Rightarrow> 'a list \<Rightarrow> 's \<Rightarrow> 's run" where
  "foldM f [] s = ret s"
| "foldM f (x # xs) s = bind (f x s) (\<lambda>s'. foldM f xs s')"

subsection \<open>ticker_utils.add_missing_ticker_to_cache\<close>

definition domicile_map :: "string \<rightharpoonup> string" where
  "domicile_map = map_of
     [(''Ireland'', ''IE''), (''United States'', ''US''), (''Germany'', ''DE''),
      (''United Kingdom'', ''GB''), (''Netherlands'', ''NL''), (''France'', ''FR''),
      (''Switzerland'', ''CH'')]"

definition ticker_from_yfinance :: "yf_info \<Rightarrow> ticker_info" where
  "ticker_from_yfinance info =
    (let quote_type = upper (case quoteType info of Some q \<Rightarrow> q | None \<Rightarrow> []);
         etf = (quote_type = ''ETF'');
         currency = (case yf_currency info of Some c \<Rightarrow> c | None \<Rightarrow> ''USD'');
         country = (case yf_country info of Some c \<Rightarrow> c | None \<Rightarrow> ''United States'');
         domicile = (case domicile_map country of Some d \<Rightarrow> d | None \<Rightarrow> ''US'')
     in \<lparr> info_type = Some (if etf then ''etf'' else ''stock''),
          info_currency = Some currency,
          info_active = Some True,
          info_merged_into = None,
          info_conversion_ratio = Some 1,
          info_withholding_tax_deducted = Some False,
          info_domicile = Some domicile \<rparr>)"

text \<open>
  The function reads the cache file, answers from it when the ticker is there, and
  otherwise asks \<^verbatim>\<open>yfinance\<close> (the parameter \<open>yf\<close>) and writes the file back.
\<close>

definition add_missing_ticker_to_cache :: "(string \<Rightarrow> yf_info) \<Rightarrow> string \<Rightarrow> ticker_info run" where
  "add_missing_ticker_to_cache yf ticker =
    (\<lambda>w. case cache_file w ticker of
            Some info \<Rightarrow> (Inr info, w)
          | None \<Rightarrow>
              (let info = ticker_from_yfinance (yf ticker)
               in (Inr info, w\<lparr>cache_file := (cache_file w)(ticker \<mapsto> info)\<rparr>)))"

subsection \<open>get_ticker_info and the readers of an entry\<close>

text \<open>A ticker cell is \<open>None\<close> when it is NaN or \<^verbatim>\<open>None\<close>.\<close>

definition get_ticker_info :: "(string \<Rightarrow> yf_info) \<Rightarrow> string option \<Rightarrow> ticker_info option run" where
  "get_ticker_info yf ticker =
    (case ticker of
       None \<Rightarrow> ret None
     | Some t \<Rightarrow>
         if t = [] then ret None
         else (let ticker_str = upper t
               in if ticker_str \<in> set [''NONE'', ''NAN''] then ret None
                  else (\<lambda>w. case ticker_cache w ticker_str of
                               Some info \<Rightarrow> (Inr (Some info), w)
                             | None \<Rightarrow>
                                 bind (add_missing_ticker_to_cache yf ticker_str)
                                   (\<lambda>info w'. (Inr (Some info),
                                      w'\<lparr>ticker_cache := (ticker_cache w')(ticker_str \<mapsto> info)\<rparr>))
                                   w)))"

definition normalize_ticker :: "(string \<Rightarrow> yf_info) \<Rightarrow> string option \<Rightarrow> string option run" where
  "normalize_ticker yf ticker =
    (case ticker of
       None \<Rightarrow> ret None
     | Some t \<Rightarrow>
         if t = [] \<or> upper t = ''NAN'' then ret None
         else bind (get_ticker_info yf (Some (upper t)))
                (\<lambda>ticker_info.
                   case ticker_info of
                     None \<Rightarrow> ret None
                   | Some info \<Rightarrow>
                       (case info_merged_into info of
                          Some target \<Rightarrow> if target \<noteq> [] then ret (Some target) else ret (Some (upper t))
                        | None \<Rightarrow> ret (Some (upper t)))))"

definition not_found :: error where
  "not_found = ValueError ''Ticker not found in cache''"

definition get_conversion_ratio :: "(string \<Rightarrow> yf_info) \<Rightarrow> string option \<Rightarrow> real run" where
  "get_conversion_ratio yf ticker =
    bind (get_ticker_info yf ticker)
      (\<lambda>ticker_info.
         case ticker_info of
           None \<Rightarrow> raise not_found
         | Some info \<Rightarrow> ret (case info_conversion_ratio info of Some r \<Rightarrow> r | None \<Rightarrow> 1))"

definition is_etf :: "(string \<Rightarrow> yf_info) \<Rightarrow> string option \<Rightarrow> bool run" where
  "is_etf yf ticker =
    bind (get_ticker_info yf ticker)
      (\<lambda>ticker_info.
         case ticker_info of
           None \<Rightarrow> raise not_found
         | Some info \<Rightarrow>
             (case info_type info of
                None \<Rightarrow> raise (KeyError ''type'')
              | Some ty \<Rightarrow> ret (ty = ''etf'')))"

definition is_active :: "(string \<Rightarrow> yf_info) \<Rightarrow> string option \<Rightarrow> bool run" where
  "is_active yf ticker =
    bind (get_ticker_info yf ticker)
      (\<lambda>ticker_info.
         case ticker_info of
           None \<Rightarrow> raise not_found
         | Some info \<Rightarrow> ret (case info_active info of Some a \<Rightarrow> a | None \<Rightarrow> True))"

definition get_domicile :: "(string \<Rightarrow> yf_info) \<Rightarrow> string option \<Rightarrow> string run" where
  "get_domicile yf ticker =
    bind (get_ticker_info yf ticker)
      (\<lambda>ticker_info.
         case ticker_info of
           None \<Rightarrow> raise not_found
         | Some info \<Rightarrow> ret (case info_domicile info of Some d \<Rightarrow> d | None \<Rightarrow> ''Unknown''))"

section \<open>improved_calculator.py: classification\<close>

text \<open>The strings \<^verbatim>\<open>'buy'\<close>, \<^verbatim>\<open>'sell'\<close>, ... that the code uses as an enumeration.\<close>

datatype trans_type =
  Buy | Sell | Dividend | MergerStock | MergerCash | Merger
  | TransferBroker | TransferMerger | Ignore

text \<open>\<^verbatim>\<open>p in s\<close> on strings.\<close>

fun contains :: "string \<Rightarrow> string \<Rightarrow> bool" where
  "contains [] p = (p = [])"
| "contains (c # s) p = (take (length p) (c # s) = p \<or> contains s p)"

definition classify_transaction_type :: "string option \<Rightarrow> trans_type" where
  "classify_transaction_type type_str =
    (case type_str of
       None \<Rightarrow> Ignore
     | Some t \<Rightarrow>
         (let s = upper t
          in if contains s ''BUY'' then Buy
             else if contains s ''SELL'' then Sell
             else if contains s ''DIVIDEND'' then Dividend
             else if contains s ''MERGER'' then
               (if contains s ''STOCK'' then MergerStock
                else if contains s ''CASH'' then MergerCash
                else Merger)
             else if contains s ''TRANSFER''
                     \<and> contains s ''REVOLUT TRADING LTD TO REVOLUT SECURITIES EUROPE UAB''
               then TransferBroker
             else if contains s ''TRANSFER'' then Ignore
             else if list_ex (contains s)
                       [''TRANSFER'', ''CASH TOP-UP'', ''CASH WITHDRAWAL'', ''CUSTODY FEE'']
               then Ignore
             else Ignore))"

section \<open>improved_calculator.py: the transaction frame and the results\<close>

text \<open>
  A row of the input frame, after \<^verbatim>\<open>pd.to_datetime\<close>: the date is a timestamp in
  nanoseconds, the two amount cells are texts (\<open>None\<close> when missing), the FX rate is
  \<open>None\<close> when NaN.
\<close>

type_synonym timestamp = int

record raw_row =
  Date :: timestamp
  Ticker :: "string option"
  Type :: "string option"
  Quantity :: real
  Price_per_share :: "ustring option"
  Total_Amount :: "ustring option"
  Currency :: string
  FX_Rate :: "real option"

text \<open>The columns \<^verbatim>\<open>process_transactions\<close> adds to the frame.\<close>

record row = raw_row +
  Year :: int
  TransactionType :: trans_type
  NormalizedTicker :: "string option"
  IsETF :: bool
  IsActive :: bool
  TotalAmountFloat :: real
  PricePerShareFloat :: real
  TotalAmountEUR :: real
  PricePerShareEUR :: real
  FeesEUR :: real

text \<open>
  A \<^verbatim>\<open>defaultdict(float)\<close> keyed by year: a missing key reads as 0, and \<^verbatim>\<open>d[k] += v\<close>
  stores the sum.
\<close>

type_synonym year_map = "int \<rightharpoonup> real"

definition dd_get :: "year_map \<Rightarrow> int \<Rightarrow> real" where
  "dd_get d k = (case d k of Some v \<Rightarrow> v | None \<Rightarrow> 0)"

definition dd_add :: "year_map \<Rightarrow> int \<Rightarrow> real \<Rightarrow> year_map" where
  "dd_add d k v = d(k \<mapsto> dd_get d k + v)"

text \<open>
  The five per-year dictionaries that \<^verbatim>\<open>results['summary']['stocks']\<close>,
  \<^verbatim>\<open>results['summary']['etfs']\<close> and every entry of \<^verbatim>\<open>results['ticker_detail']\<close>
  share; the ETF summary and the ticker detail extend them.
\<close>

record gains =
  realized_gains :: year_map
  unrealized_gains :: year_map
  dividends :: year_map
  dividends_irish :: year_map
  dividends_foreign :: year_map

record etf_gains = gains +
  deemed_disposal_gains :: year_map

datatype asset_type = Stocks | Etfs

record ticker_detail = gains +
  asset_type :: "asset_type option"
  current_holdings :: real
  avg_cost_basis :: real
  deemed_disposal_liability :: real
  buy_transactions :: "row list"
  detail_currency :: "string option"

record summary =
  stocks :: gains
  etfs :: etf_gains

record results =
  summary :: summary
  ticker_detail :: "string \<rightharpoonup> ticker_detail"

definition empty_results :: results where
  "empty_results =
    \<lparr> summary =
        \<lparr> stocks = \<lparr> realized_gains = Map.empty, unrealized_gains = Map.empty,
                     dividends = Map.empty, dividends_irish = Map.empty,
                     dividends_foreign = Map.empty \<rparr>,
          etfs = \<lparr> realized_gains = Map.empty, unrealized_gains = Map.empty,
                   dividends = Map.empty, dividends_irish = Map.empty,
                   dividends_foreign = Map.empty, deemed_disposal_gains = Map.empty \<rparr> \<rparr>,
      ticker_detail = Map.empty \<rparr>"

text \<open>The default entry of the \<^verbatim>\<open>defaultdict\<close> behind \<^verbatim>\<open>results['ticker_detail']\<close>.\<close>

definition default_detail :: ticker_detail where
  "default_detail =
    \<lparr> realized_gains = Map.empty, unrealized_gains = Map.empty, dividends = Map.empty,
      dividends_irish = Map.empty, dividends_foreign = Map.empty,
      asset_type = None, current_holdings = 0, avg_cost_basis = 0,
      deemed_disposal_liability = 0, buy_transactions = [], detail_currency = None \<rparr>"

definition detail_of :: "results \<Rightarrow> string \<Rightarrow> ticker_detail" where
  "detail_of rs ticker = (case ticker_detail rs ticker of Some d \<Rightarrow> d | None \<Rightarrow> default_detail)"

definition update_detail :: "string \<Rightarrow> (ticker_detail \<Rightarrow> ticker_detail) \<Rightarrow> results \<Rightarrow> results" where
  "update_detail ticker f rs = rs\<lparr>ticker_detail := (ticker_detail rs)(ticker \<mapsto> f (detail_of rs ticker))\<rparr>"

text \<open>
  \<^verbatim>\<open>results['summary'][asset_type][key][year] += amount\<close> and
  \<^verbatim>\<open>results['ticker_detail'][ticker][key][year] += amount\<close>, for the four keys the replay
  writes.
\<close>

datatype gain_key = RealizedGains | Dividends | DividendsIrish | DividendsForeign

definition add_gain :: "gain_key \<Rightarrow> int \<Rightarrow> real \<Rightarrow> 'a gains_scheme \<Rightarrow> 'a gains_scheme" where
  "add_gain key yr amount g =
    (case key of
       RealizedGains \<Rightarrow> g\<lparr>realized_gains := dd_add (realized_gains g) yr amount\<rparr>
     | Dividends \<Rightarrow> g\<lparr>dividends := dd_add (dividends g) yr amount\<rparr>
     | DividendsIrish \<Rightarrow> g\<lparr>dividends_irish := dd_add (dividends_irish g) yr amount\<rparr>
     | DividendsForeign \<Rightarrow> g\<lparr>dividends_foreign := dd_add (dividends_foreign g) yr amount\<rparr>)"

definition summary_add :: "asset_type \<Rightarrow> gain_key \<Rightarrow> int \<Rightarrow> real \<Rightarrow> results \<Rightarrow> results" where
  "summary_add atype key yr amount rs =
    (case atype of
       Stocks \<Rightarrow> rs\<lparr>summary := (summary rs)\<lparr>stocks := add_gain key yr amount (stocks (summary rs))\<rparr>\<rparr>
     | Etfs \<Rightarrow> rs\<lparr>summary := (summary rs)\<lparr>etfs := add_gain key yr amount (etfs (summary rs))\<rparr>\<rparr>)"

definition detail_add :: "string \<Rightarrow> gain_key \<Rightarrow> int \<Rightarrow> real \<Rightarrow> results \<Rightarrow> results" where
  "detail_add ticker key yr amount rs = update_detail ticker (add_gain key yr amount) rs"

text \<open>Both writes of one amount, the summary first, as everywhere in the replay.\<close>

definition book :: "string \<Rightarrow> asset_type \<Rightarrow> gain_key \<Rightarrow> int \<Rightarrow> real \<Rightarrow> results \<Rightarrow> results" where
  "book ticker atype key yr amount rs =
    detail_add ticker key yr amount (summary_add atype key yr amount rs)"

section \<open>improved_calculator.py: the FIFO replay of one ticker\<close>

text \<open>An entry of \<^verbatim>\<open>buy_queue\<close>.\<close>

record lot =
  quantity :: real
  price_per_share_eur :: real
  year :: int

text \<open>
  The state of the replay loop of one ticker: the three local variables \<^verbatim>\<open>buy_queue\<close>,
  \<^verbatim>\<open>total_shares\<close>, \<^verbatim>\<open>total_cost\<close>, and the \<^verbatim>\<open>results\<close> being filled.
\<close>

record replay_state =
  buy_queue :: "lot list"
  total_shares :: real
  total_cost :: real
  results :: results

text \<open>
  The \<^verbatim>\<open>while remaining_to_sell > 0 and buy_queue\<close> loop of a sell. Its variables are
  \<^verbatim>\<open>remaining_to_sell\<close>, \<^verbatim>\<open>total_cost_basis\<close>, the queue and the two running totals; the
  result is their values when the loop ends. After a partial consumption the loop tests
  its condition once more, with \<^verbatim>\<open>remaining_to_sell = 0\<close>.
\<close>

function sell_loop ::
  "real \<Rightarrow> real \<Rightarrow> lot list \<Rightarrow> real \<Rightarrow> real \<Rightarrow> real \<times> real \<times> lot list \<times> real \<times> real" where
  "sell_loop remaining_to_sell total_cost_basis queue shares cost =
    (if remaining_to_sell > 0 \<and> queue \<noteq> [] then
       (let buy_transaction = hd queue
        in if quantity buy_transaction \<le> remaining_to_sell then
             (let sold_quantity = quantity buy_transaction;
                  cost_basis = sold_quantity * price_per_share_eur buy_transaction
              in sell_loop (remaining_to_sell - sold_quantity) (total_cost_basis + cost_basis)
                   (tl queue) (shares - sold_quantity) (cost - cost_basis))
           else
             (let sold_quantity = remaining_to_sell;
                  cost_basis = sold_quantity * price_per_share_eur buy_transaction
              in sell_loop 0 (total_cost_basis + cost_basis)
                   (buy_transaction\<lparr>quantity := quantity buy_transaction - sold_quantity\<rparr> # tl queue)
                   (shares - sold_quantity) (cost - cost_basis)))
     else (remaining_to_sell, total_cost_basis, queue, shares, cost))"
  by pat_completeness auto
termination
  by (relation "measure (\<lambda>(remaining_to_sell, total_cost_basis, queue, shares, cost).
        2 * length queue + (if remaining_to_sell > 0 then 1 else 0))")
     (auto simp: neq_Nil_conv)

declare sell_loop.simps [simp del]

text \<open>The same loop in the merger branch, which keeps no cost basis.\<close>

function remove_loop ::
  "real \<Rightarrow> lot list \<Rightarrow> real \<Rightarrow> real \<Rightarrow> real \<times> lot list \<times> real \<times> real" where
  "remove_loop remaining_to_remove queue shares cost =
    (if remaining_to_remove > 0 \<and> queue \<noteq> [] then
       (let buy_transaction = hd queue
        in if quantity buy_transaction \<le> remaining_to_remove then
             (let removed_quantity = quantity buy_transaction;
                  cost_basis = removed_quantity * price_per_share_eur buy_transaction
              in remove_loop (remaining_to_remove - removed_quantity)
                   (tl queue) (shares - removed_quantity) (cost - cost_basis))
           else
             (let removed_quantity = remaining_to_remove;
                  cost_basis = removed_quantity * price_per_share_eur buy_transaction
              in remove_loop 0
                   (buy_transaction\<lparr>quantity := quantity buy_transaction - removed_quantity\<rparr> # tl queue)
                   (shares - removed_quantity) (cost - cost_basis)))
     else (remaining_to_remove, queue, shares, cost))"
  by pat_completeness auto
termination
  by (relation "measure (\<lambda>(remaining_to_remove, queue, shares, cost).
        2 * length queue + (if remaining_to_remove > 0 then 1 else 0))")
     (auto simp: neq_Nil_conv)

declare remove_loop.simps [simp del]

subsection \<open>The branches of the loop body\<close>

text \<open>
  Each branch of the \<^verbatim>\<open>if trans_type == ...\<close> chain, as a function of the state. The
  calls into the ticker cache are made by \<open>replay_transaction\<close> below, which hands their
  results to the branch. In the dividend branch the source calls \<^verbatim>\<open>get_domicile\<close> between
  the second and the third write; if it raises, \<^verbatim>\<open>process_transactions\<close> is left and its
  results are lost with it.
\<close>

definition process_dividend :: "string \<Rightarrow> asset_type \<Rightarrow> string \<Rightarrow> row \<Rightarrow> replay_state \<Rightarrow> replay_state" where
  "process_dividend ticker atype domicile txn st =
    (let yr = Year txn;
         amount_eur = TotalAmountEUR txn;
         rs = book ticker atype Dividends yr amount_eur (results st)
     in if domicile = ''IE''
        then st\<lparr>results := book ticker atype DividendsIrish yr amount_eur rs\<rparr>
        else st\<lparr>results := book ticker atype DividendsForeign yr amount_eur rs\<rparr>)"

definition process_buy :: "string \<Rightarrow> bool \<Rightarrow> real \<Rightarrow> row \<Rightarrow> replay_state \<Rightarrow> replay_state" where
  "process_buy ticker etf conversion_ratio txn st =
    (let price = PricePerShareEUR txn;
         converted_quantity = Quantity txn * conversion_ratio;
         converted_price = (if conversion_ratio > 0 then price / conversion_ratio else price);
         buy_transaction = \<lparr> quantity = converted_quantity,
                             price_per_share_eur = converted_price,
                             year = Year txn \<rparr>;
         rs = (if etf
               then update_detail ticker
                      (\<lambda>d. d\<lparr>buy_transactions := buy_transactions d @ [txn]\<rparr>) (results st)
               else results st);
         share_cost = price * Quantity txn
     in st\<lparr> buy_queue := buy_queue st @ [buy_transaction],
            total_shares := total_shares st + converted_quantity,
            total_cost := total_cost st + share_cost,
            results := rs \<rparr>)"

definition process_sell :: "string \<Rightarrow> asset_type \<Rightarrow> real \<Rightarrow> row \<Rightarrow> replay_state \<Rightarrow> replay_state" where
  "process_sell ticker atype conversion_ratio txn st =
    (let converted_quantity = Quantity txn * conversion_ratio;
         (remaining_to_sell, total_cost_basis, queue, shares, cost) =
            sell_loop converted_quantity 0 (buy_queue st) (total_shares st) (total_cost st);
         share_proceeds = PricePerShareEUR txn * Quantity txn;
         realized_gain = share_proceeds - total_cost_basis
     in st\<lparr> buy_queue := queue,
            total_shares := shares,
            total_cost := cost,
            results := book ticker atype RealizedGains (Year txn) realized_gain (results st) \<rparr>)"

definition process_merger :: "row \<Rightarrow> replay_state \<Rightarrow> replay_state" where
  "process_merger txn st =
    (if Quantity txn < 0 then
       (let shares_to_remove = \<bar>Quantity txn\<bar>;
            (remaining_to_remove, queue, shares, cost) =
               remove_loop shares_to_remove (buy_queue st) (total_shares st) (total_cost st)
        in st\<lparr> buy_queue := queue, total_shares := shares, total_cost := cost \<rparr>)
     else st)"

definition process_merger_cash :: "string \<Rightarrow> asset_type \<Rightarrow> row \<Rightarrow> replay_state \<Rightarrow> replay_state" where
  "process_merger_cash ticker atype txn st =
    (let yr = Year txn; amount_eur = TotalAmountEUR txn
     in if amount_eur > 0
        then st\<lparr>results := book ticker atype DividendsForeign yr amount_eur
                              (book ticker atype Dividends yr amount_eur (results st))\<rparr>
        else st)"

definition process_transfer_merger :: "string \<Rightarrow> bool \<Rightarrow> row \<Rightarrow> replay_state \<Rightarrow> replay_state" where
  "process_transfer_merger ticker etf txn st =
    (if Quantity txn > 0 then
       (let buy_transaction = \<lparr> quantity = Quantity txn,
                                price_per_share_eur = 0,
                                year = Year txn \<rparr>;
            rs = (if etf
                  then update_detail ticker
                         (\<lambda>d. d\<lparr>buy_transactions := buy_transactions d @ [txn]\<rparr>) (results st)
                  else results st)
        in st\<lparr> buy_queue := buy_queue st @ [buy_transaction],
               total_shares := total_shares st + Quantity txn,
               results := rs \<rparr>)
     else st)"

text \<open>One turn of \<^verbatim>\<open>for _, transaction in ticker_data.iterrows()\<close>.\<close>

definition replay_transaction ::
  "(string \<Rightarrow> yf_info) \<Rightarrow> string \<Rightarrow> bool \<Rightarrow> asset_type \<Rightarrow> row \<Rightarrow> replay_state \<Rightarrow> replay_state run" where
  "replay_transaction yf ticker etf atype txn st =
    (case TransactionType txn of
       Dividend \<Rightarrow>
         bind (get_domicile yf (Some ticker))
           (\<lambda>domicile. ret (process_dividend ticker atype domicile txn st))
     | Buy \<Rightarrow>
         bind (get_conversion_ratio yf (Ticker txn))
           (\<lambda>conversion_ratio. ret (process_buy ticker etf conversion_ratio txn st))
     | Sell \<Rightarrow>
         bind (get_conversion_ratio yf (Ticker txn))
           (\<lambda>conversion_ratio. ret (process_sell ticker atype conversion_ratio txn st))
     | MergerStock \<Rightarrow> ret (process_merger txn st)
     | Merger \<Rightarrow> ret (process_merger txn st)
     | MergerCash \<Rightarrow> ret (process_merger_cash ticker atype txn st)
     | TransferMerger \<Rightarrow> ret (process_transfer_merger ticker etf txn st)
     | _ \<Rightarrow> ret st)"

definition replay ::
  "(string \<Rightarrow> yf_info) \<Rightarrow> string \<Rightarrow> bool \<Rightarrow> asset_type \<Rightarrow> row list \<Rightarrow> replay_state \<Rightarrow> replay_state run" where
  "replay yf ticker etf atype ticker_data st = foldM (replay_transaction yf ticker etf atype) ticker_data st"

subsection \<open>After the loop\<close>

text \<open>
  \<^verbatim>\<open>if not self.is_active(ticker) and total_shares > 0\<close>: the remaining cost is booked as a
  loss of the current year and the two totals are set to zero. The queue is not touched.
\<close>

definition write_off_inactive :: "string \<Rightarrow> asset_type \<Rightarrow> int \<Rightarrow> replay_state \<Rightarrow> replay_state" where
  "write_off_inactive ticker atype current_year st =
    (let loss_amount = total_cost st
     in st\<lparr> results := book ticker atype RealizedGains current_year (- loss_amount) (results st),
            total_shares := 0,
            total_cost := 0 \<rparr>)"

subsection \<open>calculate_deemed_disposal_liability\<close>

record deemed_disposal =
  dd_ticker :: string
  purchase_date :: timestamp
  years_held :: real
  cost_basis :: real
  estimated_value :: real
  taxable_gain :: real

text \<open>\<^verbatim>\<open>(current_date - purchase_date).days\<close>: whole days, rounded down.\<close>

definition days_between :: "timestamp \<Rightarrow> timestamp \<Rightarrow> int" where
  "days_between current_date purchase = (current_date - purchase) div 86400000000000"

definition deemed_step :: "string \<Rightarrow> timestamp \<Rightarrow> deemed_disposal list \<times> real \<Rightarrow> row \<Rightarrow> deemed_disposal list \<times> real" where
  "deemed_step ticker current_date acc tx =
    (let (deemed_disposals, total_taxable_gain) = acc;
         held = real_of_int (days_between current_date (Date tx)) / (36525 / 100)
     in if held \<ge> 8 then
          (let basis = PricePerShareEUR tx * Quantity tx;
               estimated_current_value = basis * (12 / 10);
               gain = estimated_current_value - basis
           in (deemed_disposals @
                 [\<lparr> dd_ticker = ticker, purchase_date = Date tx, years_held = held,
                     cost_basis = basis, estimated_value = estimated_current_value,
                     taxable_gain = gain \<rparr>],
               total_taxable_gain + gain))
        else acc)"

text \<open>
  \<open>current_date\<close> is the value of \<^verbatim>\<open>datetime.now()\<close>: \<^verbatim>\<open>process_transactions\<close> passes no
  date.
\<close>

definition calculate_deemed_disposal_liability ::
  "(string \<Rightarrow> yf_info) \<Rightarrow> timestamp \<Rightarrow> string \<Rightarrow> row list \<Rightarrow> (real \<times> real \<times> deemed_disposal list) run" where
  "calculate_deemed_disposal_liability yf current_date ticker txns =
    bind (is_etf yf (Some ticker))
      (\<lambda>etf.
         if \<not> etf then ret (0, 0, [])
         else (let (deemed_disposals, total_taxable_gain) =
                     foldl (deemed_step ticker current_date) ([], 0) txns;
                   tax_liability = total_taxable_gain * (41 / 100)
               in ret (total_taxable_gain, tax_liability, deemed_disposals)))"

subsection \<open>get_weighted_fx_rate\<close>

definition weighted_step :: "real \<times> real \<Rightarrow> row \<Rightarrow> real \<times> real" where
  "weighted_step acc tx =
    (let (total_amount_original, total_amount_eur) = acc
     in if TransactionType tx \<in> set [Buy, Sell] \<and> Currency tx \<noteq> ''EUR'' then
          (case FX_Rate tx of
             Some fx_rate \<Rightarrow>
               if fx_rate > 0
               then (total_amount_original + TotalAmountEUR tx * fx_rate,
                     total_amount_eur + TotalAmountEUR tx)
               else acc
           | None \<Rightarrow> acc)
        else acc)"

definition get_weighted_fx_rate :: "row list \<Rightarrow> error + real" where
  "get_weighted_fx_rate ticker_transactions =
    (let (total_amount_original, total_amount_eur) = foldl weighted_step (0, 0) ticker_transactions
     in if total_amount_eur > 0 then Inr (total_amount_original / total_amount_eur)
        else Inl (ValueError ''No valid FX rates found for ticker transactions''))"

subsection \<open>One ticker\<close>

text \<open>
  What the outside of the calculator gives a run: the answers of \<^verbatim>\<open>yfinance\<close>, the value
  of \<^verbatim>\<open>datetime.now()\<close>, and three functions of pandas and Python that the source calls
  and does not define: the year of a timestamp, \<^verbatim>\<open>sort_values('Date')\<close> on the rows of
  one ticker (the order of rows of one date is pandas' own), and the table of decimal
  digits.
\<close>

record env =
  yfinance :: "string \<Rightarrow> yf_info"
  now :: timestamp
  dt_year :: "timestamp \<Rightarrow> int"
  sort_values :: "row list \<Rightarrow> row list"
  unicode_decimal :: decimal_table

text \<open>
  The last block of the loop over tickers: the average cost basis, in the currency of the
  ticker. The \<^verbatim>\<open>currency\<close> key set in the \<^verbatim>\<open>except\<close> branch is overwritten by the
  assignment that ends the \<^verbatim>\<open>else\<close> branch.
\<close>

definition store_cost_basis :: "string \<Rightarrow> ticker_info \<Rightarrow> row list \<Rightarrow> replay_state \<Rightarrow> error + results" where
  "store_cost_basis ticker info ticker_data st =
    (let original_currency = (case info_currency info of Some c \<Rightarrow> c | None \<Rightarrow> ''USD'');
         rs = results st
     in if original_currency = ''EUR'' then
          Inr (update_detail ticker
                 (\<lambda>d. d\<lparr> avg_cost_basis :=
                            (if total_shares st > 0 then total_cost st / total_shares st else 0),
                          detail_currency := Some ''EUR'' \<rparr>) rs)
        else if total_shares st > 0 then
          (case get_weighted_fx_rate ticker_data of
             Inr avg_fx_rate \<Rightarrow>
               Inr (update_detail ticker
                      (\<lambda>d. d\<lparr> avg_cost_basis := (total_cost st * avg_fx_rate) / total_shares st,
                               detail_currency := Some original_currency \<rparr>) rs)
           | Inl (ValueError _) \<Rightarrow>
               Inr (update_detail ticker
                      (\<lambda>d. d\<lparr> avg_cost_basis := total_cost st / total_shares st,
                               detail_currency := Some original_currency \<rparr>) rs)
           | Inl e \<Rightarrow> Inl e)
        else
          Inr (update_detail ticker
                 (\<lambda>d. d\<lparr> avg_cost_basis := 0, detail_currency := Some original_currency \<rparr>) rs))"

text \<open>The body of \<^verbatim>\<open>for ticker in relevant_df['NormalizedTicker'].unique()\<close>.\<close>

definition process_ticker :: "env \<Rightarrow> row list \<Rightarrow> string \<Rightarrow> results \<Rightarrow> results run" where
  "process_ticker e relevant_df ticker rs0 =
    (let ticker_data = sort_values e (filter (\<lambda>r. NormalizedTicker r = Some ticker) relevant_df)
     in bind (is_etf (yfinance e) (Some ticker))
       (\<lambda>etf.
          let atype = (if etf then Etfs else Stocks);
              rs1 = update_detail ticker (\<lambda>d. d\<lparr>asset_type := Some atype\<rparr>) rs0;
              st0 = \<lparr> buy_queue = [], total_shares = 0, total_cost = 0, results = rs1 \<rparr>
          in bind (replay (yfinance e) ticker etf atype ticker_data st0)
            (\<lambda>st1.
               bind (is_active (yfinance e) (Some ticker))
                 (\<lambda>active.
                    let st2 = (if \<not> active \<and> total_shares st1 > 0
                               then write_off_inactive ticker atype (dt_year e (now e)) st1
                               else st1)
                    in bind (if etf \<and> buy_transactions (detail_of (results st2) ticker) \<noteq> []
                             then bind (calculate_deemed_disposal_liability (yfinance e) (now e) ticker
                                          (buy_transactions (detail_of (results st2) ticker)))
                                    (\<lambda>(gain, tax_liability, deemed_disposals).
                                       let rs3 = update_detail ticker
                                                   (\<lambda>d. d\<lparr>deemed_disposal_liability := tax_liability\<rparr>)
                                                   (results st2)
                                       in ret (if gain > 0
                                               then rs3\<lparr>summary := (summary rs3)
                                                      \<lparr>etfs := (etfs (summary rs3))
                                                         \<lparr>deemed_disposal_gains :=
                                                            dd_add (deemed_disposal_gains (etfs (summary rs3)))
                                                              (dt_year e (now e)) gain\<rparr>\<rparr>\<rparr>
                                               else rs3))
                             else ret (results st2))
                      (\<lambda>rs4.
                         let rs5 = update_detail ticker
                                     (\<lambda>d. d\<lparr>current_holdings := total_shares st2\<rparr>) rs4
                         in bind (get_ticker_info (yfinance e) (Some ticker))
                              (\<lambda>ticker_info.
                                 case ticker_info of
                                   None \<Rightarrow> raise not_found
                                 | Some info \<Rightarrow>
                                     lift (store_cost_basis ticker info ticker_data
                                             (st2\<lparr>results := rs5\<rparr>))))))))"

section \<open>improved_calculator.py: process_transactions\<close>

text \<open>\<^verbatim>\<open>Series.unique()\<close>: the values in the order of their first appearance.\<close>

fun unique :: "'a list \<Rightarrow> 'a list" where
  "unique [] = []"
| "unique (x # xs) = x # unique (filter (\<lambda>y. y \<noteq> x) xs)"

definition relevant_types :: "trans_type list" where
  "relevant_types = [Buy, Sell, Dividend, MergerStock, MergerCash, Merger, TransferMerger]"

text \<open>The first pass over the frame: the tickers that had a merger.\<close>

definition merger_step :: "(string \<Rightarrow> yf_info) \<Rightarrow> raw_row \<times> trans_type \<Rightarrow> string set \<Rightarrow> string set run" where
  "merger_step yf rt merger_tickers =
    (let (r, ty) = rt
     in if ty \<in> set [MergerStock, MergerCash, Merger] then
          bind (normalize_ticker yf (Ticker r))
            (\<lambda>ticker. ret (case ticker of
                              Some s \<Rightarrow> if s \<noteq> [] then insert s merger_tickers else merger_tickers
                            | None \<Rightarrow> merger_tickers))
        else ret merger_tickers)"

definition classify_transfer :: "(string \<Rightarrow> yf_info) \<Rightarrow> string set \<Rightarrow> raw_row \<times> trans_type \<Rightarrow> trans_type run" where
  "classify_transfer yf merger_tickers rt =
    (let (r, ty) = rt
     in if ty = TransferBroker then
          bind (normalize_ticker yf (Ticker r))
            (\<lambda>ticker. ret (case ticker of
                              Some s \<Rightarrow> if s \<in> merger_tickers then TransferMerger else Ignore
                            | None \<Rightarrow> Ignore))
        else ret ty)"

text \<open>A row of the frame once every column is computed.\<close>

definition build_row ::
  "raw_row \<Rightarrow> int \<Rightarrow> trans_type \<Rightarrow> string option \<Rightarrow> bool \<Rightarrow> bool \<Rightarrow> real \<Rightarrow> real \<Rightarrow> real \<Rightarrow> real \<Rightarrow> row" where
  "build_row r yr ty normalized etf active total_float price_float total_eur price_eur =
    \<lparr> Date = Date r, Ticker = Ticker r, Type = Type r, Quantity = Quantity r,
      Price_per_share = Price_per_share r, Total_Amount = Total_Amount r,
      Currency = Currency r, FX_Rate = FX_Rate r,
      Year = yr, TransactionType = ty, NormalizedTicker = normalized,
      IsETF = etf, IsActive = active,
      TotalAmountFloat = total_float, PricePerShareFloat = price_float,
      TotalAmountEUR = total_eur, PricePerShareEUR = price_eur,
      FeesEUR = (if ty \<in> set [Buy, Sell] \<and> Quantity r > 0
                 then total_eur - price_eur * Quantity r else 0) \<rparr>"

text \<open>
  The columns are computed one after the other, each over all rows, as the source does;
  the rows are put together at the end. \<^verbatim>\<open>store_transactions\<close> only keeps the frame on
  \<^verbatim>\<open>self\<close> for the detail report and is left out.
\<close>

definition process_transactions :: "env \<Rightarrow> raw_row list \<Rightarrow> results run" where
  "process_transactions e df =
    (let years = map (\<lambda>r. dt_year e (Date r)) df;
        types0 = map (\<lambda>r. classify_transaction_type (Type r)) df
     in bind (foldM (merger_step (yfinance e)) (zip df types0) {})
       (\<lambda>merger_tickers.
     bind (mapM (classify_transfer (yfinance e) merger_tickers) (zip df types0))
       (\<lambda>types.
     bind (mapM (\<lambda>(r, ty). if ty \<in> set relevant_types then normalize_ticker (yfinance e) (Ticker r)
                           else ret None) (zip df types))
       (\<lambda>normalized.
     bind (mapM (\<lambda>x. case x of Some t \<Rightarrow> is_etf (yfinance e) (Some t) | None \<Rightarrow> ret False) normalized)
       (\<lambda>etfs_col.
     bind (mapM (\<lambda>x. case x of Some t \<Rightarrow> is_active (yfinance e) (Some t) | None \<Rightarrow> ret True) normalized)
       (\<lambda>actives.
     bind (mapM (\<lambda>r. lift (parse_amount (unicode_decimal e) (Total_Amount r))) df)
       (\<lambda>total_floats.
     bind (mapM (\<lambda>r. lift (parse_amount (unicode_decimal e) (Price_per_share r))) df)
       (\<lambda>price_floats.
     bind (mapM (\<lambda>(r, x). lift (convert_to_eur x (Currency r) (FX_Rate r))) (zip df total_floats))
       (\<lambda>totals_eur.
     bind (mapM (\<lambda>(r, x). lift (convert_to_eur x (Currency r) (FX_Rate r))) (zip df price_floats))
       (\<lambda>prices_eur.
          let rows = map (\<lambda>i. build_row (df ! i) (years ! i) (types ! i) (normalized ! i)
                                 (etfs_col ! i) (actives ! i) (total_floats ! i) (price_floats ! i)
                                 (totals_eur ! i) (prices_eur ! i))
                       [0 ..< length df];
              relevant_df = filter (\<lambda>r. TransactionType r \<in> set relevant_types
                                         \<and> NormalizedTicker r \<noteq> None
                                         \<and> NormalizedTicker r \<noteq> Some ''None'') rows;
              tickers = unique (map (\<lambda>r. the (NormalizedTicker r)) relevant_df)
          in foldM (process_ticker e relevant_df) tickers empty_results))))))))))"

subsection \<open>calculate_dividend_taxes\<close>

text \<open>
  The dictionary \<^verbatim>\<open>dividend_tax_summary\<close>: a year has an entry when it is a key of one of
  the two \<^verbatim>\<open>dividends\<close> dictionaries and the stock dividends of the year are positive.
\<close>

definition calculate_dividend_taxes :: "results \<Rightarrow> int \<Rightarrow> (int \<rightharpoonup> dividend_tax)" where
  "calculate_dividend_taxes rs rate =
    (\<lambda>yr. if dividends (stocks (summary rs)) yr \<noteq> None \<or> dividends (etfs (summary rs)) yr \<noteq> None
           then (let stock_dividends_irish = dd_get (dividends_irish (stocks (summary rs))) yr;
                     stock_dividends_foreign = dd_get (dividends_foreign (stocks (summary rs))) yr;
                     total_dividends = stock_dividends_irish + stock_dividends_foreign
                 in if total_dividends > 0
                    then Some (dividend_breakdown total_dividends rate
                                 stock_dividends_irish stock_dividends_foreign)
                    else None)
           else None)"

section \<open>improved_calculator.py: the replay in floating-point arithmetic\<close>

text \<open>
  The replay above computes in exact arithmetic. The program computes in binary floating
  point, where the result of every addition, subtraction, multiplication and division is
  rounded. The definitions of this section are the same loops and branches, line by line,
  with every such result passed through \<open>rnd\<close>, the rounding of the number format; with
  the identity for \<open>rnd\<close> they are the definitions above. Comparisons, \<^verbatim>\<open>abs\<close> and the
  assignment \<^verbatim>\<open>remaining_to_sell = 0\<close> do not round.
\<close>

definition dd_add_fl :: "(real \<Rightarrow> real) \<Rightarrow> year_map \<Rightarrow> int \<Rightarrow> real \<Rightarrow> year_map" where
  "dd_add_fl rnd d k v = d(k \<mapsto> rnd (dd_get d k + v))"

definition add_gain_fl ::
  "(real \<Rightarrow> real) \<Rightarrow> gain_key \<Rightarrow> int \<Rightarrow> real \<Rightarrow> 'a gains_scheme \<Rightarrow> 'a gains_scheme" where
  "add_gain_fl rnd key yr amount g =
    (case key of
       RealizedGains \<Rightarrow> g\<lparr>realized_gains := dd_add_fl rnd (realized_gains g) yr amount\<rparr>
     | Dividends \<Rightarrow> g\<lparr>dividends := dd_add_fl rnd (dividends g) yr amount\<rparr>
     | DividendsIrish \<Rightarrow> g\<lparr>dividends_irish := dd_add_fl rnd (dividends_irish g) yr amount\<rparr>
     | DividendsForeign \<Rightarrow> g\<lparr>dividends_foreign := dd_add_fl rnd (dividends_foreign g) yr amount\<rparr>)"

definition book_fl ::
  "(real \<Rightarrow> real) \<Rightarrow> string \<Rightarrow> asset_type \<Rightarrow> gain_key \<Rightarrow> int \<Rightarrow> real \<Rightarrow> results \<Rightarrow> results" where
  "book_fl rnd ticker atype key yr amount rs =
    update_detail ticker (add_gain_fl rnd key yr amount)
      (case atype of
         Stocks \<Rightarrow> rs\<lparr>summary := (summary rs)\<lparr>stocks := add_gain_fl rnd key yr amount (stocks (summary rs))\<rparr>\<rparr>
       | Etfs \<Rightarrow> rs\<lparr>summary := (summary rs)\<lparr>etfs := add_gain_fl rnd key yr amount (etfs (summary rs))\<rparr>\<rparr>)"

function sell_loop_fl ::
  "(real \<Rightarrow> real) \<Rightarrow> real \<Rightarrow> real \<Rightarrow> lot list \<Rightarrow> real \<Rightarrow> real
     \<Rightarrow> real \<times> real \<times> lot list \<times> real \<times> real" where
  "sell_loop_fl rnd remaining_to_sell total_cost_basis queue shares cost =
    (if remaining_to_sell > 0 \<and> queue \<noteq> [] then
       (let buy_transaction = hd queue
        in if quantity buy_transaction \<le> remaining_to_sell then
             (let sold_quantity = quantity buy_transaction;
                  cost_basis = rnd (sold_quantity * price_per_share_eur buy_transaction)
              in sell_loop_fl rnd (rnd (remaining_to_sell - sold_quantity))
                   (rnd (total_cost_basis + cost_basis))
                   (tl queue) (rnd (shares - sold_quantity)) (rnd (cost - cost_basis)))
           else
             (let sold_quantity = remaining_to_sell;
                  cost_basis = rnd (sold_quantity * price_per_share_eur buy_transaction)
              in sell_loop_fl rnd 0 (rnd (total_cost_basis + cost_basis))
                   (buy_transaction\<lparr>quantity := rnd (quantity buy_transaction - sold_quantity)\<rparr>
                      # tl queue)
                   (rnd (shares - sold_quantity)) (rnd (cost - cost_basis))))
     else (remaining_to_sell, total_cost_basis, queue, shares, cost))"
  by pat_completeness auto
termination
  by (relation "measure (\<lambda>(rnd, remaining_to_sell, total_cost_basis, queue, shares, cost).
        2 * length queue + (if remaining_to_sell > 0 then 1 else 0))")
     (auto simp: neq_Nil_conv)

declare sell_loop_fl.simps [simp del]

function remove_loop_fl ::
  "(real \<Rightarrow> real) \<Rightarrow> real \<Rightarrow> lot list \<Rightarrow> real \<Rightarrow> real \<Rightarrow> real \<times> lot list \<times> real \<times> real" where
  "remove_loop_fl rnd remaining_to_remove queue shares cost =
    (if remaining_to_remove > 0 \<and> queue \<noteq> [] then
       (let buy_transaction = hd queue
        in if quantity buy_transaction \<le> remaining_to_remove then
             (let removed_quantity = quantity buy_transaction;
                  cost_basis = rnd (removed_quantity * price_per_share_eur buy_transaction)
              in remove_loop_fl rnd (rnd (remaining_to_remove - removed_quantity))
                   (tl queue) (rnd (shares - removed_quantity)) (rnd (cost - cost_basis)))
           else
             (let removed_quantity = remaining_to_remove;
                  cost_basis = rnd (removed_quantity * price_per_share_eur buy_transaction)
              in remove_loop_fl rnd 0
                   (buy_transaction\<lparr>quantity := rnd (quantity buy_transaction - removed_quantity)\<rparr>
                      # tl queue)
                   (rnd (shares - removed_quantity)) (rnd (cost - cost_basis))))
     else (remaining_to_remove, queue, shares, cost))"
  by pat_completeness auto
termination
  by (relation "measure (\<lambda>(rnd, remaining_to_remove, queue, shares, cost).
        2 * length queue + (if remaining_to_remove > 0 then 1 else 0))")
     (auto simp: neq_Nil_conv)

declare remove_loop_fl.simps [simp del]

definition process_dividend_fl ::
  "(real \<Rightarrow> real) \<Rightarrow> string \<Rightarrow> asset_type \<Rightarrow> string \<Rightarrow> row \<Rightarrow> replay_state \<Rightarrow> replay_state" where
  "process_dividend_fl rnd ticker atype domicile txn st =
    (let yr = Year txn;
         amount_eur = TotalAmountEUR txn;
         rs = book_fl rnd ticker atype Dividends yr amount_eur (results st)
     in if domicile = ''IE''
        then st\<lparr>results := book_fl rnd ticker atype DividendsIrish yr amount_eur rs\<rparr>
        else st\<lparr>results := book_fl rnd ticker atype DividendsForeign yr amount_eur rs\<rparr>)"

definition process_buy_fl ::
  "(real \<Rightarrow> real) \<Rightarrow> string \<Rightarrow> bool \<Rightarrow> real \<Rightarrow> row \<Rightarrow> replay_state \<Rightarrow> replay_state" where
  "process_buy_fl rnd ticker etf conversion_ratio txn st =
    (let price = PricePerShareEUR txn;
         converted_quantity = rnd (Quantity txn * conversion_ratio);
         converted_price = (if conversion_ratio > 0 then rnd (price / conversion_ratio) else price);
         buy_transaction = \<lparr> quantity = converted_quantity,
                             price_per_share_eur = converted_price,
                             year = Year txn \<rparr>;
         rs = (if etf
               then update_detail ticker
                      (\<lambda>d. d\<lparr>buy_transactions := buy_transactions d @ [txn]\<rparr>) (results st)
               else results st);
         share_cost = rnd (price * Quantity txn)
     in st\<lparr> buy_queue := buy_queue st @ [buy_transaction],
            total_shares := rnd (total_shares st + converted_quantity),
            total_cost := rnd (total_cost st + share_cost),
            results := rs \<rparr>)"

definition process_sell_fl ::
  "(real \<Rightarrow> real) \<Rightarrow> string \<Rightarrow> asset_type \<Rightarrow> real \<Rightarrow> row \<Rightarrow> replay_state \<Rightarrow> replay_state" where
  "process_sell_fl rnd ticker atype conversion_ratio txn st =
    (let converted_quantity = rnd (Quantity txn * conversion_ratio);
         (remaining_to_sell, total_cost_basis, queue, shares, cost) =
            sell_loop_fl rnd converted_quantity 0 (buy_queue st) (total_shares st) (total_cost st);
         share_proceeds = rnd (PricePerShareEUR txn * Quantity txn);
         realized_gain = rnd (share_proceeds - total_cost_basis)
     in st\<lparr> buy_queue := queue,
            total_shares := shares,
            total_cost := cost,
            results := book_fl rnd ticker atype RealizedGains (Year txn) realized_gain (results st) \<rparr>)"

definition process_merger_fl :: "(real \<Rightarrow> real) \<Rightarrow> row \<Rightarrow> replay_state \<Rightarrow> replay_state" where
  "process_merger_fl rnd txn st =
    (if Quantity txn < 0 then
       (let shares_to_remove = \<bar>Quantity txn\<bar>;
            (remaining_to_remove, queue, shares, cost) =
               remove_loop_fl rnd shares_to_remove (buy_queue st) (total_shares st) (total_cost st)
        in st\<lparr> buy_queue := queue, total_shares := shares, total_cost := cost \<rparr>)
     else st)"

definition process_merger_cash_fl ::
  "(real \<Rightarrow> real) \<Rightarrow> string \<Rightarrow> asset_type \<Rightarrow> row \<Rightarrow> replay_state \<Rightarrow> replay_state" where
  "process_merger_cash_fl rnd ticker atype txn st =
    (let yr = Year txn; amount_eur = TotalAmountEUR txn
     in if amount_eur > 0
        then st\<lparr>results := book_fl rnd ticker atype DividendsForeign yr amount_eur
                              (book_fl rnd ticker atype Dividends yr amount_eur (results st))\<rparr>
        else st)"

definition process_transfer_merger_fl ::
  "(real \<Rightarrow> real) \<Rightarrow> string \<Rightarrow> bool \<Rightarrow> row \<Rightarrow> replay_state \<Rightarrow> replay_state" where
  "process_transfer_merger_fl rnd ticker etf txn st =
    (if Quantity txn > 0 then
       (let buy_transaction = \<lparr> quantity = Quantity txn,
                                price_per_share_eur = 0,
                                year = Year txn \<rparr>;
            rs = (if etf
                  then update_detail ticker
                         (\<lambda>d. d\<lparr>buy_transactions := buy_transactions d @ [txn]\<rparr>) (results st)
                  else results st)
        in st\<lparr> buy_queue := buy_queue st @ [buy_transaction],
               total_shares := rnd (total_shares st + Quantity txn),
               results := rs \<rparr>)
     else st)"

definition replay_transaction_fl ::
  "(real \<Rightarrow> real) \<Rightarrow> (string \<Rightarrow> yf_info) \<Rightarrow> string \<Rightarrow> bool \<Rightarrow> asset_type \<Rightarrow> row
     \<Rightarrow> replay_state \<Rightarrow> replay_state run" where
  "replay_transaction_fl rnd yf ticker etf atype txn st =
    (case TransactionType txn of
       Dividend \<Rightarrow>
         bind (get_domicile yf (Some ticker))
           (\<lambda>domicile. ret (process_dividend_fl rnd ticker atype domicile txn st))
     | Buy \<Rightarrow>
         bind (get_conversion_ratio yf (Ticker txn))
           (\<lambda>conversion_ratio. ret (process_buy_fl rnd ticker etf conversion_ratio txn st))
     | Sell \<Rightarrow>
         bind (get_conversion_ratio yf (Ticker txn))
           (\<lambda>conversion_ratio. ret (process_sell_fl rnd ticker atype conversion_ratio txn st))
     | MergerStock \<Rightarrow> ret (process_merger_fl rnd txn st)
     | Merger \<Rightarrow> ret (process_merger_fl rnd txn st)
     | MergerCash \<Rightarrow> ret (process_merger_cash_fl rnd ticker atype txn st)
     | TransferMerger \<Rightarrow> ret (process_transfer_merger_fl rnd ticker etf txn st)
     | _ \<Rightarrow> ret st)"

definition replay_fl ::
  "(real \<Rightarrow> real) \<Rightarrow> (string \<Rightarrow> yf_info) \<Rightarrow> string \<Rightarrow> bool \<Rightarrow> asset_type \<Rightarrow> row list
     \<Rightarrow> replay_state \<Rightarrow> replay_state run" where
  "replay_fl rnd yf ticker etf atype ticker_data st =
     foldM (replay_transaction_fl rnd yf ticker etf atype) ticker_data st"

subsection \<open>The rounding of binary64\<close>

text \<open>
  Rounding to the nearest number with a significand of 53 bits, ties to the even
  significand: the rounding of a Python float, for results in the normal range (no
  overflow to infinity, no subnormal numbers, no NaN).
\<close>

definition round_half_even :: "real \<Rightarrow> int" where
  "round_half_even y =
    (let f = \<lfloor>y\<rfloor>
     in if y - of_int f < 1 / 2 then f
        else if 1 / 2 < y - of_int f then f + 1
        else if even f then f else f + 1)"

definition binary64 :: "real \<Rightarrow> real" where
  "binary64 x =
    (if x = 0 then 0
     else (let e = \<lfloor>log 2 \<bar>x\<bar>\<rfloor>
           in of_int (round_half_even (x / 2 powr (of_int e - 52))) * 2 powr (of_int e - 52)))"

section \<open>Notions used in the statements\<close>

subsection \<open>The ledger of one ticker\<close>

text \<open>The shares and the cost that the lots of a queue stand for.\<close>

definition queue_shares :: "lot list \<Rightarrow> real" where
  "queue_shares queue = sum_list (map quantity queue)"

definition queue_cost :: "lot list \<Rightarrow> real" where
  "queue_cost queue = sum_list (map (\<lambda>b. quantity b * price_per_share_eur b) queue)"

text \<open>The two running totals agree with the queue.\<close>

definition conserved :: "replay_state \<Rightarrow> bool" where
  "conserved st \<longleftrightarrow>
     total_shares st = queue_shares (buy_queue st) \<and> total_cost st = queue_cost (buy_queue st)"

text \<open>No lot of the queue is negative, and the share total agrees with the queue.\<close>

definition holdings_ok :: "replay_state \<Rightarrow> bool" where
  "holdings_ok st \<longleftrightarrow>
     list_all (\<lambda>b. 0 \<le> quantity b) (buy_queue st) \<and> total_shares st = queue_shares (buy_queue st)"

text \<open>
  The quantity of a buy or a sell after the conversion ratio that the ticker cache gives
  for the row's ticker in the state \<open>w\<close>.
\<close>

definition converted_quantity :: "(string \<Rightarrow> yf_info) \<Rightarrow> world \<Rightarrow> row \<Rightarrow> real" where
  "converted_quantity yf w txn =
    (case fst (get_conversion_ratio yf (Ticker txn) w) of
       Inr conversion_ratio \<Rightarrow> Quantity txn * conversion_ratio
     | Inl e \<Rightarrow> 0)"

definition positive_ratio :: "(string \<Rightarrow> yf_info) \<Rightarrow> world \<Rightarrow> row \<Rightarrow> bool" where
  "positive_ratio yf w txn =
    (case fst (get_conversion_ratio yf (Ticker txn) w) of
       Inr conversion_ratio \<Rightarrow> 0 < conversion_ratio
     | Inl e \<Rightarrow> True)"

text \<open>
  A sequence of buys and sells with no oversell: every sell is of a quantity that is not
  negative and not above what is held when it comes. \<open>cq\<close> gives the converted quantity
  of a row and \<open>held\<close> is the quantity held before the first row.
\<close>

fun no_oversell :: "(row \<Rightarrow> real) \<Rightarrow> real \<Rightarrow> row list \<Rightarrow> bool" where
  "no_oversell cq held [] = True"
| "no_oversell cq held (txn # txns) =
    (case TransactionType txn of
       Buy \<Rightarrow> no_oversell cq (held + cq txn) txns
     | Sell \<Rightarrow> 0 \<le> cq txn \<and> cq txn \<le> held \<and> no_oversell cq (held - cq txn) txns
     | _ \<Rightarrow> False)"

definition bought :: "(row \<Rightarrow> real) \<Rightarrow> row list \<Rightarrow> real" where
  "bought cq txns = sum_list (map cq (filter (\<lambda>txn. TransactionType txn = Buy) txns))"

definition sold :: "(row \<Rightarrow> real) \<Rightarrow> row list \<Rightarrow> real" where
  "sold cq txns = sum_list (map cq (filter (\<lambda>txn. TransactionType txn = Sell) txns))"

text \<open>
  What a sell loop has consumed when it took the first \<open>k\<close> lots of the queue in full
  and \<open>part\<close> of the lot after them.
\<close>

definition consumed_cost :: "nat \<Rightarrow> real \<Rightarrow> lot list \<Rightarrow> real" where
  "consumed_cost k part queue =
    queue_cost (take k queue)
      + (if k < length queue then part * price_per_share_eur (queue ! k) else 0)"

subsection \<open>What a run can learn about a ticker\<close>

text \<open>
  The entry a lookup of \<open>t\<close> ends with: the one in memory, else the one in the file, else
  the one built from the answer of \<^verbatim>\<open>yfinance\<close>. A method is \<open>stable\<close> when it leaves
  these entries as they are and its result depends on the state through them only.
\<close>

definition known_info :: "(string \<Rightarrow> yf_info) \<Rightarrow> world \<Rightarrow> string \<Rightarrow> ticker_info" where
  "known_info yf w t =
    (case ticker_cache w t of
       Some info \<Rightarrow> info
     | None \<Rightarrow> (case cache_file w t of Some info \<Rightarrow> info | None \<Rightarrow> ticker_from_yfinance (yf t)))"

definition stable :: "(string \<Rightarrow> yf_info) \<Rightarrow> 'a run \<Rightarrow> bool" where
  "stable yf m \<longleftrightarrow>
     (\<forall>w. known_info yf (snd (m w)) = known_info yf w)
     \<and> (\<forall>w1 w2. known_info yf w1 = known_info yf w2 \<longrightarrow> fst (m w1) = fst (m w2))"

subsection \<open>Example data\<close>

text \<open>
  A stock in the cache with no conversion ratio of its own, and rows of it that are
  already in EUR.
\<close>

definition example_info :: ticker_info where
  "example_info =
    \<lparr> info_type = Some ''stock'', info_currency = Some ''EUR'', info_active = Some True,
      info_merged_into = None, info_conversion_ratio = None,
      info_withholding_tax_deducted = None, info_domicile = Some ''IE'' \<rparr>"

definition example_world :: world where
  "example_world = \<lparr> ticker_cache = [''ACME'' \<mapsto> example_info], cache_file = Map.empty \<rparr>"

definition example_yf :: "string \<Rightarrow> yf_info" where
  "example_yf t = \<lparr> quoteType = None, yf_currency = None, yf_country = None \<rparr>"

definition example_row :: "trans_type \<Rightarrow> real \<Rightarrow> real \<Rightarrow> int \<Rightarrow> row" where
  "example_row ty qty price yr =
    \<lparr> Date = 0, Ticker = Some ''ACME'', Type = None, Quantity = qty,
      Price_per_share = None, Total_Amount = None, Currency = ''EUR'', FX_Rate = None,
      Year = yr, TransactionType = ty, NormalizedTicker = Some ''ACME'',
      IsETF = False, IsActive = True,
      TotalAmountFloat = price * qty, PricePerShareFloat = price,
      TotalAmountEUR = price * qty, PricePerShareEUR = price, FeesEUR = 0 \<rparr>"

definition example_start :: replay_state where
  "example_start = \<lparr> buy_queue = [], total_shares = 0, total_cost = 0, results = empty_results \<rparr>"

text \<open>Three buys of one share at 10, 20 and 30; the same followed by a sale of two.\<close>

definition example_buys :: "row list" where
  "example_buys = [example_row Buy 1 10 2020, example_row Buy 1 20 2021, example_row Buy 1 30 2022]"

definition example_trades :: "row list" where
  "example_trades = example_buys @ [example_row Sell 2 50 2023]"

text \<open>
  Buys of 0.2 and 0.5 and a sale of 1.7, and buys of 0.1 and 0.2 and a sale of 0.3: the
  quantities are the floats nearest to these decimals, which is what reading the file
  gives.
\<close>

definition example_float_oversell :: "row list" where
  "example_float_oversell =
     [example_row Buy (3602879701896397 / 2 ^ 54) 0 2020, example_row Buy (1 / 2) 0 2021,
      example_row Sell (7656119366529843 / 2 ^ 52) 0 2023]"

definition example_float_trades :: "row list" where
  "example_float_trades =
     [example_row Buy (3602879701896397 / 2 ^ 55) 1 2020,
      example_row Buy (3602879701896397 / 2 ^ 54) 1 2021,
      example_row Sell (5404319552844595 / 2 ^ 54) 1 2023]"

text \<open>
  A whole run: a frame of two rows for a ticker that no cache knows yet, which
  \<^verbatim>\<open>yfinance\<close> then describes as a stock in USD, and the results and the state the run
  ends with.
\<close>

definition example_env :: env where
  "example_env = \<lparr> yfinance = example_yf, now = 3, dt_year = (\<lambda>t. 2024),
                    sort_values = (\<lambda>rows. rows), unicode_decimal = ascii_decimal \<rparr>"

definition example_frame :: "raw_row list" where
  "example_frame =
    [\<lparr> Date = 1, Ticker = Some ''newco'', Type = Some ''BUY - MARKET'', Quantity = 1,
       Price_per_share = Some [8364, 49, 48], Total_Amount = Some [8364, 49, 48],
       Currency = ''EUR'', FX_Rate = None \<rparr>,
     \<lparr> Date = 2, Ticker = Some ''newco'', Type = Some ''SELL - MARKET'', Quantity = 1,
       Price_per_share = Some [8364, 49, 53], Total_Amount = Some [8364, 49, 53],
       Currency = ''EUR'', FX_Rate = None \<rparr>]"

definition empty_world :: world where
  "empty_world = \<lparr> ticker_cache = Map.empty, cache_file = Map.empty \<rparr>"

definition example_new_info :: ticker_info where
  "example_new_info = ticker_from_yfinance (example_yf ''NEWCO'')"

definition example_world_after :: world where
  "example_world_after =
     \<lparr> ticker_cache = [''NEWCO'' \<mapsto> example_new_info],
       cache_file = [''NEWCO'' \<mapsto> example_new_info] \<rparr>"

definition example_results :: results where
  "example_results =
     update_detail ''NEWCO'' (\<lambda>d. d\<lparr>avg_cost_basis := 0, detail_currency := Some ''USD''\<rparr>)
       (update_detail ''NEWCO'' (\<lambda>d. d\<lparr>current_holdings := 0\<rparr>)
          (book ''NEWCO'' Stocks RealizedGains 2024 5
             (update_detail ''NEWCO'' (\<lambda>d. d\<lparr>asset_type := Some Stocks\<rparr>) empty_results)))"

section \<open>Stock capital gains tax\<close>

text \<open>
  C2. For a loss accumulator that is not negative, \<open>apply_cgt_with_loss_carry_forward\<close>
  uses the exemption only on a positive gain and only up to the gain, then uses the
  carried losses against what is left above zero and no more than that, taxes the rest at
  33 percent, and adds a loss of the year to the accumulator. A loss of 500 followed by a
  gain of 2000 gives taxable gains 230, a liability of 75.90 and an empty accumulator.
\<close>

theorem cgt_loss_carry_forward:
  assumes "0 \<le> accumulated_losses"
  shows "apply_cgt_with_loss_carry_forward gain accumulated_losses exemption =
           (let exemption_used = (if gain > 0 then min gain exemption else 0);
                after_exemption = gain - exemption_used;
                remainder = max 0 after_exemption;
                carry_forward_used = min remainder accumulated_losses;
                taxable_gains = remainder - carry_forward_used
            in (taxable_gains, taxable_gains * (33 / 100), carry_forward_used,
                accumulated_losses - carry_forward_used
                  + (if after_exemption < 0 then - after_exemption else 0)))
         \<and> 0 \<le> fst (apply_cgt_with_loss_carry_forward gain accumulated_losses exemption)
         \<and> apply_cgt_with_loss_carry_forward (- 500) 0 1270 = (0, 0, 0, 500)
         \<and> apply_cgt_with_loss_carry_forward 2000 500 1270 = (230, 759 / 10, 500, 0)"
  using assms by (auto simp: apply_cgt_with_loss_carry_forward_def Let_def min_def max_def)

theorem cgt_loss_carry_forward_witness:
  "(0::real) \<le> 500 \<and> apply_cgt_with_loss_carry_forward 2000 500 1270 = (230, 759 / 10, 500, 0)
   \<and> apply_cgt_with_loss_carry_forward (- 500) 0 1270 = (0, 0, 0, 500)"
  using cgt_loss_carry_forward [of 500 2000 1270] by simp

section \<open>Fund exit tax\<close>

text \<open>
  C4. \<open>calculate_etf_exit_tax\<close> returns the sum of the realized gains, the dividends and
  the deemed-disposal gains, and 41 percent of that sum as the liability, whatever the
  sign of the sum: no exemption and no loss relief. A gain of 100 alone gives 41.
\<close>

theorem etf_exit_tax:
  "calculate_etf_exit_tax etf_realized etf_dividends etf_deemed =
     (etf_realized + etf_dividends + etf_deemed,
      (etf_realized + etf_dividends + etf_deemed) * (41 / 100))
   \<and> calculate_etf_exit_tax 100 0 0 = (100, 41)"
  by (simp add: calculate_etf_exit_tax_def)

theorem etf_exit_tax_witness:
  "calculate_etf_exit_tax 100 0 0 = (100, 41) \<and> calculate_etf_exit_tax (- 100) 0 0 = (- 100, - 41)"
  using etf_exit_tax [of "- 100" 0 0] etf_exit_tax [of 100 0 0] by simp

section \<open>Dividend income tax\<close>

text \<open>
  C5. For a positive dividend income, \<open>calculate_dividend_income_tax\<close> returns a
  breakdown in which Irish dividends give a credit of 25 percent, foreign dividends one
  of 15 percent, the income is taxed at the marginal rate, the net tax due is the tax
  less the credits and never below zero, and a surplus of credits is the refund due, never
  below zero either. \<open>calculate_dividend_taxes\<close> computes the same breakdown from the
  stock dividends of every year that has dividends and a positive stock dividend income.
  Irish dividends of 1000 at 40 percent: tax 400, credit 250, net 150, refund 0.
\<close>

theorem dividend_income_tax:
  "(0 < dividend_income \<longrightarrow>
      (\<exists>d. calculate_dividend_income_tax dividend_income rate irish foreign = Some d
         \<and> gross_dividend_income d = dividend_income
         \<and> irish_dwt_credit d = irish * (25 / 100)
         \<and> foreign_withholding_credit d = foreign * (15 / 100)
         \<and> total_credits d = irish_dwt_credit d + foreign_withholding_credit d
         \<and> income_tax_due d = dividend_income * (real_of_int rate / 100)
         \<and> net_tax_due d = max 0 (income_tax_due d - total_credits d)
         \<and> refund_due d = max 0 (total_credits d - income_tax_due d)
         \<and> 0 \<le> net_tax_due d \<and> 0 \<le> refund_due d))
   \<and> ((dividends (stocks (summary rs)) yr \<noteq> None \<or> dividends (etfs (summary rs)) yr \<noteq> None)
        \<and> 0 < dd_get (dividends_irish (stocks (summary rs))) yr
              + dd_get (dividends_foreign (stocks (summary rs))) yr \<longrightarrow>
      calculate_dividend_taxes rs rate yr =
        calculate_dividend_income_tax
          (dd_get (dividends_irish (stocks (summary rs))) yr
             + dd_get (dividends_foreign (stocks (summary rs))) yr)
          rate
          (dd_get (dividends_irish (stocks (summary rs))) yr)
          (dd_get (dividends_foreign (stocks (summary rs))) yr))
   \<and> calculate_dividend_income_tax 1000 40 1000 0 =
        Some \<lparr> gross_dividend_income = 1000, irish_dividends = 1000, foreign_dividends = 0,
               irish_dwt_credit = 250, foreign_withholding_credit = 0, total_credits = 250,
               income_tax_due = 400, net_tax_due = 150, refund_due = 0, margin_rate = 40 \<rparr>"
  by (auto simp: calculate_dividend_income_tax_def calculate_dividend_taxes_def
                 dividend_breakdown_def Let_def)

theorem dividend_income_tax_witness:
  "(0::real) < 1000
   \<and> (\<exists>d. calculate_dividend_income_tax 1000 40 1000 0 = Some d
         \<and> income_tax_due d = 400 \<and> total_credits d = 250
         \<and> net_tax_due d = 150 \<and> refund_due d = 0)"
  using dividend_income_tax [of 1000 40 1000 0 empty_results 0] by auto

section \<open>Currency conversion\<close>

text \<open>
  C7, as the claim states it, fails: an amount in pounds with a valid rate is not
  converted, \<open>convert_to_eur\<close> raises.
\<close>

theorem convert_to_eur_counterexample:
  "convert_to_eur 100 ''GBP'' (Some (85 / 100)) = Inl (ValueError ''Invalid FX rate for GBP'')"
  by (simp add: convert_to_eur_def)

text \<open>
  C7, amended. \<open>convert_to_eur\<close> returns an amount in EUR unchanged; it divides an amount
  in USD by the FX rate when the rate is present and positive; it raises exactly when the
  currency is not EUR and either the currency is not USD or the rate is missing or not
  positive. For a currency other than EUR every value it returns is the amount divided
  by a positive rate: there is no 1:1 fallback.
\<close>

theorem convert_to_eur_cases:
  "convert_to_eur amount ''EUR'' fx_rate = Inr amount
   \<and> (0 < r \<longrightarrow> convert_to_eur amount ''USD'' (Some r) = Inr (amount / r))
   \<and> ((\<exists>e. convert_to_eur amount currency fx_rate = Inl e) \<longleftrightarrow>
        currency \<noteq> ''EUR'' \<and> (currency \<noteq> ''USD'' \<or> fx_rate = None \<or> the fx_rate \<le> 0))
   \<and> (currency \<noteq> ''EUR'' \<and> convert_to_eur amount currency fx_rate = Inr x \<longrightarrow>
        currency = ''USD'' \<and> (\<exists>r. fx_rate = Some r \<and> 0 < r \<and> x = amount / r))"
  by (auto simp: convert_to_eur_def)

theorem convert_to_eur_cases_witness:
  "(0::real) < 2 \<and> convert_to_eur 100 ''USD'' (Some 2) = Inr 50
   \<and> convert_to_eur 100 ''EUR'' None = Inr 100
   \<and> (\<exists>e. convert_to_eur 100 ''USD'' None = Inl e)
   \<and> (\<exists>e. convert_to_eur 100 ''GBP'' (Some 2) = Inl e)"
  using convert_to_eur_cases [of 100 None 2 "''USD''" 50]
        convert_to_eur_cases [of 100 "Some 2" 2 "''GBP''" 50]
  by simp

section \<open>parse_amount\<close>

text \<open>The three substitutions only delete code points.\<close>

lemma set_sub_currency_symbols: "set (sub_currency_symbols s) \<subseteq> set s"
  by (auto simp: sub_currency_symbols_def)

lemma set_sub_euro_encodings: "set (sub_euro_encodings decimal s) \<subseteq> set s"
proof (induction decimal s rule: sub_euro_encodings.induct)
  case (1 decimal)
  then show ?case by simp
next
  case (2 decimal c r)
  then show ?case
    by (auto split: option.splits dest!: subsetD dest: in_set_dropD)
qed

lemma set_sub_hex_encodings: "set (sub_hex_encodings s) \<subseteq> set s"
proof (induction s rule: sub_hex_encodings.induct)
  case 1
  then show ?case by simp
next
  case (2 c r)
  then show ?case
    by (auto split: option.splits dest!: subsetD dest: in_set_dropD)
qed

lemma first_match_None_iff:
  "first_match decimal s = None \<longleftrightarrow> (\<forall>c \<in> set s. \<not> is_digit decimal c)"
  by (induction s) (auto split: list.splits)

lemma unsigned_float_error:
  "unsigned_float decimal s = Inl e \<Longrightarrow> \<exists>m. e = ValueError m"
  by (auto simp: unsigned_float_def Let_def split: if_splits list.splits)

lemma py_float_error: "py_float decimal s = Inl e \<Longrightarrow> \<exists>m. e = ValueError m"
  by (auto simp: py_float_def split: list.splits if_splits sum.splits dest: unsigned_float_error)

text \<open>
  C9. \<open>parse_amount\<close> never raises: for a missing cell and for every text it returns a
  number. A missing cell gives 0, and so does every text in which no digit is left once
  the currency symbols and the two kinds of encoding noise are deleted; a text with no
  digit at all is such a text.
\<close>

theorem parse_amount_total:
  "(\<exists>x. parse_amount decimal v = Inr x)
   \<and> parse_amount decimal None = Inr 0
   \<and> ((\<forall>c \<in> set (sub_hex_encodings (sub_euro_encodings decimal (sub_currency_symbols s))).
          \<not> is_digit decimal c) \<longrightarrow> parse_amount decimal (Some s) = Inr 0)
   \<and> ((\<forall>c \<in> set s. \<not> is_digit decimal c) \<longrightarrow> parse_amount decimal (Some s) = Inr 0)"
proof -
  have total: "\<exists>x. parse_amount decimal v = Inr x"
  proof (cases v)
    case None
    then show ?thesis by (simp add: parse_amount_def)
  next
    case (Some s0)
    show ?thesis
    proof (cases "first_match decimal (sub_hex_encodings (sub_euro_encodings decimal (sub_currency_symbols s0)))")
      case None
      with Some show ?thesis by (simp add: parse_amount_def)
    next
      case m: (Some m)
      show ?thesis
      proof (cases "py_float decimal m")
        case (Inl e)
        with py_float_error obtain msg where "e = ValueError msg" by blast
        with Some m Inl show ?thesis by (simp add: parse_amount_def)
      next
        case (Inr x)
        with Some m show ?thesis by (simp add: parse_amount_def)
      qed
    qed
  qed
  have clean: "parse_amount decimal (Some s) = Inr 0"
    if "\<forall>c \<in> set (sub_hex_encodings (sub_euro_encodings decimal (sub_currency_symbols s))).
          \<not> is_digit decimal c" for s
    using that first_match_None_iff [of decimal "sub_hex_encodings (sub_euro_encodings decimal (sub_currency_symbols s))"]
    by (simp add: parse_amount_def)
  have raw: "parse_amount decimal (Some s) = Inr 0" if "\<forall>c \<in> set s. \<not> is_digit decimal c" for s
  proof (rule clean)
    from set_sub_hex_encodings set_sub_euro_encodings set_sub_currency_symbols
    have "set (sub_hex_encodings (sub_euro_encodings decimal (sub_currency_symbols s))) \<subseteq> set s"
      by blast
    with that show "\<forall>c \<in> set (sub_hex_encodings (sub_euro_encodings decimal (sub_currency_symbols s))).
          \<not> is_digit decimal c" by blast
  qed
  from total clean raw show ?thesis by (simp add: parse_amount_def)
qed

theorem parse_amount_total_witness:
  "(\<forall>c \<in> set [8364, 110, 47, 97]. \<not> is_digit ascii_decimal c)
   \<and> parse_amount ascii_decimal (Some [8364, 110, 47, 97]) = Inr 0
   \<and> parse_amount ascii_decimal None = Inr 0"
  using parse_amount_total [of ascii_decimal None "[8364, 110, 47, 97]"]
  by (simp add: is_digit_def ascii_decimal_def)

text \<open>A text with an amount: the euro sign followed by 12.50.\<close>

lemma parse_amount_example:
  "parse_amount ascii_decimal (Some [8364, 49, 50, 46, 53, 48]) = Inr (25 / 2)"
  by (simp add: parse_amount_def sub_currency_symbols_def euro_match_length_def hex_match_length_def
     number_at_def py_float_def unsigned_float_def digits_value_def is_digit_def ascii_decimal_def Let_def)

section \<open>The state of the ticker cache\<close>

text \<open>
  Every method that reads the ticker cache is stable: it may add entries, each of them the
  entry a lookup would have ended with anyway.
\<close>

lemma stableI:
  assumes "\<And>w. known_info yf (snd (m w)) = known_info yf w"
    and "\<And>w1 w2. known_info yf w1 = known_info yf w2 \<Longrightarrow> fst (m w1) = fst (m w2)"
  shows "stable yf m"
  unfolding stable_def using assms by blast

lemma stable_view: "stable yf m \<Longrightarrow> known_info yf (snd (m w)) = known_info yf w"
  unfolding stable_def by blast

lemma stable_value:
  "stable yf m \<Longrightarrow> known_info yf w1 = known_info yf w2 \<Longrightarrow> fst (m w1) = fst (m w2)"
  unfolding stable_def by blast

lemma stable_ret [intro!, simp]: "stable yf (ret x)"
  by (simp add: stable_def ret_def)

lemma stable_raise [intro!, simp]: "stable yf (raise e)"
  by (simp add: stable_def raise_def)

lemma stable_lift [intro!, simp]: "stable yf (lift r)"
  by (simp add: stable_def lift_def)

lemma stable_bind:
  assumes m: "stable yf m" and f: "\<And>x. stable yf (f x)"
  shows "stable yf (bind m f)"
proof (rule stableI)
  fix w
  show "known_info yf (snd (bind m f w)) = known_info yf w"
  proof (cases "m w")
    case (Pair r w')
    with stable_view [OF m, of w] have v: "known_info yf w' = known_info yf w" by simp
    show ?thesis
    proof (cases r)
      case (Inl e)
      with Pair v show ?thesis by (simp add: bind_def)
    next
      case (Inr x)
      with Pair v stable_view [OF f, of x w'] show ?thesis by (simp add: bind_def)
    qed
  qed
next
  fix w1 w2
  assume eq: "known_info yf w1 = known_info yf w2"
  obtain r1 v1 where m1: "m w1 = (r1, v1)" by (cases "m w1")
  obtain r2 v2 where m2: "m w2 = (r2, v2)" by (cases "m w2")
  from stable_value [OF m eq] m1 m2 have r: "r2 = r1" by simp
  from stable_view [OF m, of w1] stable_view [OF m, of w2] eq m1 m2
  have v: "known_info yf v1 = known_info yf v2" by simp
  show "fst (bind m f w1) = fst (bind m f w2)"
  proof (cases r1)
    case (Inl e)
    with m1 m2 r show ?thesis by (simp add: bind_def)
  next
    case (Inr x)
    with m1 m2 r stable_value [OF f v, of x] show ?thesis by (simp add: bind_def)
  qed
qed

lemma stable_mapM:
  assumes "\<And>x. stable yf (f x)"
  shows "stable yf (mapM f xs)"
proof (induction xs)
  case Nil
  show ?case by simp
next
  case (Cons x xs)
  show ?case
    unfolding mapM.simps
    by (intro stable_bind assms Cons.IH stable_ret)
qed

lemma stable_foldM:
  assumes "\<And>x s. stable yf (f x s)"
  shows "stable yf (foldM f xs s)"
proof (induction xs arbitrary: s)
  case Nil
  show ?case by simp
next
  case (Cons x xs)
  show ?case
    unfolding foldM.simps
    by (intro stable_bind assms Cons.IH)
qed


lemma stable_add_missing:
  "known_info yf (snd (add_missing_ticker_to_cache yf t w)) = known_info yf w"
  by (auto simp: add_missing_ticker_to_cache_def known_info_def Let_def fun_eq_iff
           split: option.splits)

lemma stable_get_ticker_info [intro!, simp]: "stable yf (get_ticker_info yf ticker)"
proof (rule stableI)
  fix w
  show "known_info yf (snd (get_ticker_info yf ticker w)) = known_info yf w"
    by (auto simp: get_ticker_info_def ret_def bind_def add_missing_ticker_to_cache_def
                   known_info_def Let_def fun_eq_iff
             split: option.splits)
next
  fix w1 w2
  assume eq: "known_info yf w1 = known_info yf w2"
  have val: "fst (get_ticker_info yf (Some t) w) = Inr (Some (known_info yf w (upper t)))"
    if "t \<noteq> []" "upper t \<noteq> ''NONE''" "upper t \<noteq> ''NAN''" for t w
    using that
    by (auto simp: get_ticker_info_def ret_def bind_def add_missing_ticker_to_cache_def
                   known_info_def Let_def
             split: option.splits)
  show "fst (get_ticker_info yf ticker w1) = fst (get_ticker_info yf ticker w2)"
  proof (cases ticker)
    case None
    then show ?thesis by (simp add: get_ticker_info_def ret_def)
  next
    case (Some t)
    show ?thesis
    proof (cases "t \<noteq> [] \<and> upper t \<noteq> ''NONE'' \<and> upper t \<noteq> ''NAN''")
      case True
      with Some val [of t w1] val [of t w2] eq show ?thesis by simp
    next
      case False
      with Some show ?thesis by (auto simp: get_ticker_info_def ret_def Let_def)
    qed
  qed
qed

lemma stable_normalize_ticker [intro!, simp]: "stable yf (normalize_ticker yf ticker)"
  by (auto simp: normalize_ticker_def intro!: stable_bind split: option.splits)

lemma stable_get_conversion_ratio [intro!, simp]: "stable yf (get_conversion_ratio yf ticker)"
  by (auto simp: get_conversion_ratio_def intro!: stable_bind split: option.splits)

lemma stable_is_etf [intro!, simp]: "stable yf (is_etf yf ticker)"
  by (auto simp: is_etf_def intro!: stable_bind split: option.splits)

lemma stable_is_active [intro!, simp]: "stable yf (is_active yf ticker)"
  by (auto simp: is_active_def intro!: stable_bind split: option.splits)

lemma stable_get_domicile [intro!, simp]: "stable yf (get_domicile yf ticker)"
  by (auto simp: get_domicile_def intro!: stable_bind split: option.splits)

lemma stable_replay_transaction [intro!, simp]:
  "stable yf (replay_transaction yf ticker etf atype txn st)"
  by (auto simp: replay_transaction_def intro!: stable_bind split: trans_type.splits)

lemma stable_replay [intro!, simp]: "stable yf (replay yf ticker etf atype txns st)"
  by (auto simp: replay_def intro!: stable_foldM)

lemma stable_deemed [intro!, simp]:
  "stable yf (calculate_deemed_disposal_liability yf current_date ticker txns)"
  by (auto simp: calculate_deemed_disposal_liability_def Let_def intro!: stable_bind split: prod.splits)

lemma stable_if: "stable yf a \<Longrightarrow> stable yf b \<Longrightarrow> stable yf (if c then a else b)"
  by simp

lemma stable_Let: "(\<And>x. stable yf (f x)) \<Longrightarrow> stable yf (Let a f)"
  by (simp add: Let_def)

lemma stable_case_prod: "(\<And>a b. stable yf (f a b)) \<Longrightarrow> stable yf (case_prod f p)"
  by (cases p) simp

lemma stable_case_option:
  "stable yf a \<Longrightarrow> (\<And>x. stable yf (f x)) \<Longrightarrow> stable yf (case_option a f x)"
  by (cases x) simp_all

lemmas stable_intros =
  stable_bind stable_mapM stable_foldM stable_if stable_Let stable_case_prod stable_case_option
  stable_ret stable_raise stable_lift stable_get_ticker_info stable_normalize_ticker
  stable_get_conversion_ratio stable_is_etf stable_is_active stable_get_domicile
  stable_replay stable_deemed

lemma stable_process_ticker: "stable (yfinance e) (process_ticker e relevant_df ticker rs)"
  unfolding process_ticker_def by (intro stable_intros)

lemma stable_merger_step: "stable yf (merger_step yf rt s)"
  unfolding merger_step_def by (intro stable_intros)

lemma stable_classify_transfer: "stable yf (classify_transfer yf s rt)"
  unfolding classify_transfer_def by (intro stable_intros)

lemma stable_process_transactions: "stable (yfinance e) (process_transactions e df)"
  unfolding process_transactions_def
  by (intro stable_intros stable_merger_step stable_classify_transfer stable_process_ticker)

section \<open>The sell loop\<close>

text \<open>The loop, one turn at a time.\<close>

lemma sell_loop_stop: "\<not> (0 < r \<and> q \<noteq> []) \<Longrightarrow> sell_loop r b q s c = (r, b, q, s, c)"
  by (subst sell_loop.simps) auto

lemma sell_loop_full:
  "0 < r \<Longrightarrow> quantity lot \<le> r \<Longrightarrow>
   sell_loop r b (lot # rest) s c =
     sell_loop (r - quantity lot) (b + quantity lot * price_per_share_eur lot) rest
       (s - quantity lot) (c - quantity lot * price_per_share_eur lot)"
  by (subst sell_loop.simps) (simp add: Let_def)

lemma sell_loop_partial:
  "0 < r \<Longrightarrow> r < quantity lot \<Longrightarrow>
   sell_loop r b (lot # rest) s c =
     (0, b + r * price_per_share_eur lot, lot\<lparr>quantity := quantity lot - r\<rparr> # rest,
      s - r, c - r * price_per_share_eur lot)"
  by (subst sell_loop.simps) (simp add: Let_def sell_loop_stop)

lemma remove_loop_stop: "\<not> (0 < r \<and> q \<noteq> []) \<Longrightarrow> remove_loop r q s c = (r, q, s, c)"
  by (subst remove_loop.simps) auto

lemma remove_loop_full:
  "0 < r \<Longrightarrow> quantity lot \<le> r \<Longrightarrow>
   remove_loop r (lot # rest) s c =
     remove_loop (r - quantity lot) rest
       (s - quantity lot) (c - quantity lot * price_per_share_eur lot)"
  by (subst remove_loop.simps) (simp add: Let_def)

lemma remove_loop_partial:
  "0 < r \<Longrightarrow> r < quantity lot \<Longrightarrow>
   remove_loop r (lot # rest) s c =
     (0, lot\<lparr>quantity := quantity lot - r\<rparr> # rest, s - r, c - r * price_per_share_eur lot)"
  by (subst remove_loop.simps) (simp add: Let_def remove_loop_stop)

lemma remove_loop_sell_loop:
  "remove_loop r q s c = (case sell_loop r b q s c of (r', b', q', s', c') \<Rightarrow> (r', q', s', c'))"
proof (induction q arbitrary: r b s c)
  case Nil
  show ?case by (simp add: sell_loop_stop remove_loop_stop)
next
  case (Cons lot rest)
  consider (stop) "r \<le> 0" | (full) "0 < r" "quantity lot \<le> r" | (partial) "0 < r" "r < quantity lot"
    by fastforce
  then show ?case
  proof cases
    case stop
    then show ?thesis by (simp add: sell_loop_stop remove_loop_stop)
  next
    case full
    then show ?thesis
      using Cons.IH [of "r - quantity lot" "s - quantity lot"
                        "c - quantity lot * price_per_share_eur lot"
                        "b + quantity lot * price_per_share_eur lot"]
      by (simp add: sell_loop_full remove_loop_full)
  next
    case partial
    then show ?thesis by (simp add: sell_loop_partial remove_loop_partial)
  qed
qed

lemma sell_loop_account:
  "sell_loop r b q s c = (r', b', q', s', c') \<Longrightarrow>
   s' - queue_shares q' = s - queue_shares q \<and> c' - queue_cost q' = c - queue_cost q
   \<and> b' - b = c - c' \<and> r - r' = s - s'"
proof (induction q arbitrary: r b s c)
  case Nil
  then show ?case by (simp add: sell_loop_stop)
next
  case (Cons lot rest)
  consider (stop) "r \<le> 0" | (full) "0 < r" "quantity lot \<le> r" | (partial) "0 < r" "r < quantity lot"
    by fastforce
  then show ?case
  proof cases
    case stop
    with Cons.prems show ?thesis by (simp add: sell_loop_stop)
  next
    case full
    with Cons.prems have "sell_loop (r - quantity lot) (b + quantity lot * price_per_share_eur lot) rest
       (s - quantity lot) (c - quantity lot * price_per_share_eur lot) = (r', b', q', s', c')"
      by (simp add: sell_loop_full)
    from Cons.IH [OF this] show ?thesis
      by (simp add: queue_shares_def queue_cost_def)
  next
    case partial
    with Cons.prems show ?thesis
      by (auto simp: sell_loop_partial queue_shares_def queue_cost_def algebra_simps)
  qed
qed

lemma sell_loop_lots:
  "sell_loop r b q s c = (r', b', q', s', c') \<Longrightarrow>
   (list_all (\<lambda>x. 0 \<le> quantity x) q \<longrightarrow> list_all (\<lambda>x. 0 \<le> quantity x) q')
   \<and> (list_all (\<lambda>x. 0 < quantity x) q \<longrightarrow> list_all (\<lambda>x. 0 < quantity x) q')"
proof (induction q arbitrary: r b s c)
  case Nil
  then show ?case by (simp add: sell_loop_stop)
next
  case (Cons lot rest)
  consider (stop) "r \<le> 0" | (full) "0 < r" "quantity lot \<le> r" | (partial) "0 < r" "r < quantity lot"
    by fastforce
  then show ?case
  proof cases
    case stop
    with Cons.prems show ?thesis by (simp add: sell_loop_stop)
  next
    case full
    with Cons.prems have "sell_loop (r - quantity lot) (b + quantity lot * price_per_share_eur lot) rest
       (s - quantity lot) (c - quantity lot * price_per_share_eur lot) = (r', b', q', s', c')"
      by (simp add: sell_loop_full)
    from Cons.IH [OF this] show ?thesis by simp
  next
    case partial
    with Cons.prems show ?thesis by (auto simp: sell_loop_partial)
  qed
qed

lemma sell_loop_exact:
  "0 \<le> r \<Longrightarrow> r \<le> queue_shares q \<Longrightarrow> sell_loop r b q s c = (r', b', q', s', c') \<Longrightarrow> r' = 0"
proof (induction q arbitrary: r b s c)
  case Nil
  then show ?case by (simp add: sell_loop_stop queue_shares_def)
next
  case (Cons lot rest)
  consider (stop) "r \<le> 0" | (full) "0 < r" "quantity lot \<le> r" | (partial) "0 < r" "r < quantity lot"
    by fastforce
  then show ?case
  proof cases
    case stop
    with Cons.prems show ?thesis by (simp add: sell_loop_stop)
  next
    case full
    with Cons.prems have run: "sell_loop (r - quantity lot) (b + quantity lot * price_per_share_eur lot) rest
       (s - quantity lot) (c - quantity lot * price_per_share_eur lot) = (r', b', q', s', c')"
      by (simp add: sell_loop_full)
    from full Cons.prems have "0 \<le> r - quantity lot" "r - quantity lot \<le> queue_shares rest"
      by (simp_all add: queue_shares_def)
    from Cons.IH [OF this run] show ?thesis .
  next
    case partial
    with Cons.prems show ?thesis by (simp add: sell_loop_partial)
  qed
qed

lemma sell_loop_oversold:
  "list_all (\<lambda>x. 0 \<le> quantity x) q \<Longrightarrow> queue_shares q < r \<Longrightarrow>
   sell_loop r b q s c = (r - queue_shares q, b + queue_cost q, [], s - queue_shares q, c - queue_cost q)"
proof (induction q arbitrary: r b s c)
  case Nil
  then show ?case by (simp add: sell_loop_stop queue_shares_def queue_cost_def)
next
  case (Cons lot rest)
  from Cons.prems have lot: "0 \<le> quantity lot" and rest: "list_all (\<lambda>x. 0 \<le> quantity x) rest"
    and r: "quantity lot + queue_shares rest < r"
    by (simp_all add: queue_shares_def)
  have "0 \<le> queue_shares rest"
    using rest unfolding queue_shares_def by (induction rest) auto
  with lot r have pos: "0 < r" and le: "quantity lot \<le> r" and rest_lt: "queue_shares rest < r - quantity lot"
    by simp_all
  show ?case
    by (simp add: sell_loop_full [OF pos le] Cons.IH [OF rest rest_lt] queue_shares_def queue_cost_def)
qed

lemma sell_loop_emptied:
  "sell_loop r b q s c = (r', b', [], s', c') \<Longrightarrow>
   r' = r - queue_shares q \<and> b' = b + queue_cost q \<and> s' = s - queue_shares q \<and> c' = c - queue_cost q"
proof (induction q arbitrary: r b s c)
  case Nil
  then show ?case by (simp add: sell_loop_stop queue_shares_def queue_cost_def)
next
  case (Cons lot rest)
  consider (stop) "r \<le> 0" | (full) "0 < r" "quantity lot \<le> r" | (partial) "0 < r" "r < quantity lot"
    by fastforce
  then show ?case
  proof cases
    case stop
    with Cons.prems show ?thesis by (simp add: sell_loop_stop)
  next
    case full
    with Cons.prems have "sell_loop (r - quantity lot) (b + quantity lot * price_per_share_eur lot) rest
       (s - quantity lot) (c - quantity lot * price_per_share_eur lot) = (r', b', [], s', c')"
      by (simp add: sell_loop_full)
    from Cons.IH [OF this] show ?thesis by (simp add: queue_shares_def queue_cost_def)
  next
    case partial
    with Cons.prems show ?thesis by (simp add: sell_loop_partial)
  qed
qed

text \<open>
  The loop in closed form: it takes the first \<open>k\<close> lots in full, each of them no larger
  than what was left to sell when its turn came, and then \<open>part\<close> of the next lot.
\<close>

lemma sell_loop_fifo:
  "\<exists>k part. k \<le> length q \<and> 0 \<le> part
     \<and> (part = 0 \<or> (k < length q \<and> part < quantity (q ! k)))
     \<and> (\<forall>i < k. quantity (q ! i) \<le> r - queue_shares (take i q) \<and> 0 < r - queue_shares (take i q))
     \<and> sell_loop r b q s c =
         (if part = 0 then r - queue_shares (take k q) else 0,
          b + consumed_cost k part q,
          (if part = 0 then drop k q
           else (q ! k)\<lparr>quantity := quantity (q ! k) - part\<rparr> # drop (Suc k) q),
          s - queue_shares (take k q) - part,
          c - consumed_cost k part q)
     \<and> (part = 0 \<longrightarrow> k = length q \<or> r - queue_shares (take k q) \<le> 0)
     \<and> (part \<noteq> 0 \<longrightarrow> part = r - queue_shares (take k q))"
proof (induction q arbitrary: r b s c)
  case Nil
  show ?case
    by (rule exI [of _ 0], rule exI [of _ 0])
       (simp add: sell_loop_stop queue_shares_def queue_cost_def consumed_cost_def)
next
  case (Cons lot rest)
  consider (stop) "r \<le> 0" | (full) "0 < r" "quantity lot \<le> r" | (partial) "0 < r" "r < quantity lot"
    by fastforce
  then show ?case
  proof cases
    case stop
    then show ?thesis
      by (intro exI [of _ 0] exI [of _ "0::real"])
         (simp add: sell_loop_stop queue_shares_def queue_cost_def consumed_cost_def)
  next
    case partial
    then show ?thesis
      by (intro exI [of _ 0] exI [of _ r])
         (simp add: sell_loop_partial queue_shares_def queue_cost_def consumed_cost_def)
  next
    case full
    from Cons.IH [of "r - quantity lot" "b + quantity lot * price_per_share_eur lot"
                     "s - quantity lot" "c - quantity lot * price_per_share_eur lot"]
    obtain k part where k: "k \<le> length rest" and part0: "0 \<le> part"
      and part: "part = 0 \<or> (k < length rest \<and> part < quantity (rest ! k))"
      and before: "\<forall>i < k. quantity (rest ! i) \<le> r - quantity lot - queue_shares (take i rest)
                          \<and> 0 < r - quantity lot - queue_shares (take i rest)"
      and run: "sell_loop (r - quantity lot) (b + quantity lot * price_per_share_eur lot) rest
                  (s - quantity lot) (c - quantity lot * price_per_share_eur lot) =
         (if part = 0 then r - quantity lot - queue_shares (take k rest) else 0,
          b + quantity lot * price_per_share_eur lot + consumed_cost k part rest,
          (if part = 0 then drop k rest
           else (rest ! k)\<lparr>quantity := quantity (rest ! k) - part\<rparr> # drop (Suc k) rest),
          s - quantity lot - queue_shares (take k rest) - part,
          c - quantity lot * price_per_share_eur lot - consumed_cost k part rest)"
      and fin: "part = 0 \<longrightarrow> k = length rest \<or> r - quantity lot - queue_shares (take k rest) \<le> 0"
      and rest_part: "part \<noteq> 0 \<longrightarrow> part = r - quantity lot - queue_shares (take k rest)"
      by blast
    have before': "\<forall>i < Suc k. quantity ((lot # rest) ! i) \<le> r - queue_shares (take i (lot # rest))
                       \<and> 0 < r - queue_shares (take i (lot # rest))"
    proof (intro allI impI)
      fix i assume i: "i < Suc k"
      show "quantity ((lot # rest) ! i) \<le> r - queue_shares (take i (lot # rest))
             \<and> 0 < r - queue_shares (take i (lot # rest))"
      proof (cases i)
        case 0
        with full show ?thesis by (simp add: queue_shares_def)
      next
        case (Suc j)
        with i before show ?thesis by (simp add: queue_shares_def algebra_simps)
      qed
    qed
    have eq: "sell_loop r b (lot # rest) s c =
         (if part = 0 then r - queue_shares (take (Suc k) (lot # rest)) else 0,
          b + consumed_cost (Suc k) part (lot # rest),
          (if part = 0 then drop (Suc k) (lot # rest)
           else ((lot # rest) ! Suc k)\<lparr>quantity := quantity ((lot # rest) ! Suc k) - part\<rparr>
                  # drop (Suc (Suc k)) (lot # rest)),
          s - queue_shares (take (Suc k) (lot # rest)) - part,
          c - consumed_cost (Suc k) part (lot # rest))"
      unfolding sell_loop_full [OF full] run
      by (simp add: queue_shares_def queue_cost_def consumed_cost_def algebra_simps)
    have shape: "Suc k \<le> length (lot # rest)
        \<and> (part = 0 \<or> (Suc k < length (lot # rest) \<and> part < quantity ((lot # rest) ! Suc k)))"
      using k part by auto
    have ending: "(part = 0 \<longrightarrow> Suc k = length (lot # rest)
                      \<or> r - queue_shares (take (Suc k) (lot # rest)) \<le> 0)
        \<and> (part \<noteq> 0 \<longrightarrow> part = r - queue_shares (take (Suc k) (lot # rest)))"
      using fin rest_part by (auto simp: queue_shares_def algebra_simps)
    from shape part0 before' eq ending show ?thesis
      by (intro exI [of _ "Suc k"] exI [of _ part]) blast
  qed
qed

section \<open>The branches and the replay\<close>

lemma process_sell_eq:
  "sell_loop (Quantity txn * ratio) 0 (buy_queue st) (total_shares st) (total_cost st)
     = (r', b', q', s', c') \<Longrightarrow>
   process_sell ticker atype ratio txn st =
     st\<lparr> buy_queue := q', total_shares := s', total_cost := c',
         results := book ticker atype RealizedGains (Year txn)
                      (PricePerShareEUR txn * Quantity txn - b') (results st) \<rparr>"
  by (simp add: process_sell_def Let_def)

lemma process_merger_eq:
  "Quantity txn < 0 \<Longrightarrow>
   sell_loop \<bar>Quantity txn\<bar> 0 (buy_queue st) (total_shares st) (total_cost st)
     = (r', b', q', s', c') \<Longrightarrow>
   process_merger txn st = st\<lparr> buy_queue := q', total_shares := s', total_cost := c' \<rparr>"
  by (simp add: process_merger_def Let_def remove_loop_sell_loop [of _ _ _ _ 0])

lemma sell_loop_conserved:
  assumes "sell_loop r b q s c = (r', b', q', s', c')"
  shows "s = queue_shares q \<Longrightarrow> s' = queue_shares q'"
    and "c = queue_cost q \<Longrightarrow> c' = queue_cost q'"
  using sell_loop_account [OF assms] by simp_all

lemma conserved_process_sell: "conserved st \<Longrightarrow> conserved (process_sell ticker atype ratio txn st)"
proof -
  assume c: "conserved st"
  obtain r' b' q' s' c' where run:
    "sell_loop (Quantity txn * ratio) 0 (buy_queue st) (total_shares st) (total_cost st)
       = (r', b', q', s', c')"
    by (metis prod_cases5)
  from c sell_loop_conserved [OF run] show ?thesis
    by (simp add: process_sell_eq [OF run] conserved_def)
qed

lemma conserved_process_merger: "conserved st \<Longrightarrow> conserved (process_merger txn st)"
proof (cases "Quantity txn < 0")
  case False
  assume "conserved st"
  with False show ?thesis by (simp add: process_merger_def)
next
  case True
  assume c: "conserved st"
  obtain r' b' q' s' c' where run:
    "sell_loop \<bar>Quantity txn\<bar> 0 (buy_queue st) (total_shares st) (total_cost st)
       = (r', b', q', s', c')"
    by (metis prod_cases5)
  from c sell_loop_conserved [OF run] show ?thesis
    by (simp add: process_merger_eq [OF True run] conserved_def)
qed

lemma conserved_process_buy:
  "conserved st \<Longrightarrow> 0 < ratio \<Longrightarrow> conserved (process_buy ticker etf ratio txn st)"
  by (simp add: conserved_def process_buy_def Let_def queue_shares_def queue_cost_def)

lemma conserved_process_transfer_merger:
  "conserved st \<Longrightarrow> conserved (process_transfer_merger ticker etf txn st)"
  by (simp add: conserved_def process_transfer_merger_def Let_def queue_shares_def queue_cost_def)

lemma conserved_process_dividend:
  "conserved st \<Longrightarrow> conserved (process_dividend ticker atype domicile txn st)"
  by (simp add: conserved_def process_dividend_def Let_def)

lemma conserved_process_merger_cash:
  "conserved st \<Longrightarrow> conserved (process_merger_cash ticker atype txn st)"
  by (simp add: conserved_def process_merger_cash_def Let_def)


lemma holdings_process_sell: "holdings_ok st \<Longrightarrow> holdings_ok (process_sell ticker atype ratio txn st)"
proof -
  assume h: "holdings_ok st"
  obtain r' b' q' s' c' where run:
    "sell_loop (Quantity txn * ratio) 0 (buy_queue st) (total_shares st) (total_cost st)
       = (r', b', q', s', c')"
    by (metis prod_cases5)
  from h sell_loop_conserved(1) [OF run] sell_loop_lots [OF run] show ?thesis
    by (simp add: process_sell_eq [OF run] holdings_ok_def)
qed

lemma holdings_process_merger: "holdings_ok st \<Longrightarrow> holdings_ok (process_merger txn st)"
proof (cases "Quantity txn < 0")
  case False
  assume "holdings_ok st"
  with False show ?thesis by (simp add: process_merger_def)
next
  case True
  assume h: "holdings_ok st"
  obtain r' b' q' s' c' where run:
    "sell_loop \<bar>Quantity txn\<bar> 0 (buy_queue st) (total_shares st) (total_cost st)
       = (r', b', q', s', c')"
    by (metis prod_cases5)
  from h sell_loop_conserved(1) [OF run] sell_loop_lots [OF run] show ?thesis
    by (simp add: process_merger_eq [OF True run] holdings_ok_def)
qed

lemma holdings_process_buy:
  "holdings_ok st \<Longrightarrow> 0 \<le> Quantity txn * ratio \<Longrightarrow> holdings_ok (process_buy ticker etf ratio txn st)"
  by (simp add: holdings_ok_def process_buy_def Let_def queue_shares_def)

lemma holdings_process_transfer_merger:
  "holdings_ok st \<Longrightarrow> holdings_ok (process_transfer_merger ticker etf txn st)"
  by (simp add: holdings_ok_def process_transfer_merger_def Let_def queue_shares_def)

lemma holdings_process_dividend:
  "holdings_ok st \<Longrightarrow> holdings_ok (process_dividend ticker atype domicile txn st)"
  by (simp add: holdings_ok_def process_dividend_def Let_def)

lemma holdings_process_merger_cash:
  "holdings_ok st \<Longrightarrow> holdings_ok (process_merger_cash ticker atype txn st)"
  by (simp add: holdings_ok_def process_merger_cash_def Let_def)

lemma holdings_nonneg: "holdings_ok st \<Longrightarrow> 0 \<le> total_shares st"
proof -
  have "list_all (\<lambda>b. 0 \<le> quantity b) q \<Longrightarrow> 0 \<le> queue_shares q" for q :: "lot list"
    unfolding queue_shares_def by (induction q) auto
  then show "holdings_ok st \<Longrightarrow> 0 \<le> total_shares st"
    by (simp add: holdings_ok_def)
qed


lemma bind_Inr:
  "bind m f w = (Inr y, w') \<Longrightarrow> \<exists>x w1. m w = (Inr x, w1) \<and> f x w1 = (Inr y, w')"
  by (auto simp: bind_def split: prod.splits sum.splits)

lemma ret_Inr: "ret x w = (Inr y, w') \<Longrightarrow> y = x \<and> w' = w"
  by (simp add: ret_def)

lemma replay_transaction_Inr:
  assumes "replay_transaction yf ticker etf atype txn st w = (Inr st', w')"
  shows "case TransactionType txn of
           Buy \<Rightarrow> \<exists>ratio. fst (get_conversion_ratio yf (Ticker txn) w) = Inr ratio
                     \<and> st' = process_buy ticker etf ratio txn st
         | Sell \<Rightarrow> \<exists>ratio. fst (get_conversion_ratio yf (Ticker txn) w) = Inr ratio
                     \<and> st' = process_sell ticker atype ratio txn st
         | Dividend \<Rightarrow> \<exists>domicile. st' = process_dividend ticker atype domicile txn st
         | MergerStock \<Rightarrow> st' = process_merger txn st
         | Merger \<Rightarrow> st' = process_merger txn st
         | MergerCash \<Rightarrow> st' = process_merger_cash ticker atype txn st
         | TransferMerger \<Rightarrow> st' = process_transfer_merger ticker etf txn st
         | _ \<Rightarrow> st' = st"
  using assms
  by (cases "TransactionType txn")
     (auto simp: replay_transaction_def dest!: bind_Inr ret_Inr)

lemma replay_Cons_Inr:
  assumes "replay yf ticker etf atype (txn # txns) st w = (Inr st', w')"
  shows "\<exists>s1 w1. replay_transaction yf ticker etf atype txn st w = (Inr s1, w1)
           \<and> known_info yf w1 = known_info yf w
           \<and> replay yf ticker etf atype txns s1 w1 = (Inr st', w')"
proof -
  from assms obtain s1 w1 where step: "replay_transaction yf ticker etf atype txn st w = (Inr s1, w1)"
    and rest: "replay yf ticker etf atype txns s1 w1 = (Inr st', w')"
    by (auto simp: replay_def dest!: bind_Inr)
  from stable_view [OF stable_replay_transaction, of yf ticker etf atype txn st w] step
  have "known_info yf w1 = known_info yf w" by simp
  with step rest show ?thesis by blast
qed

lemma replay_Nil_Inr: "replay yf ticker etf atype [] st w = (Inr st', w') \<Longrightarrow> st' = st"
  by (simp add: replay_def ret_def)

lemma ratio_same_view:
  "known_info yf w1 = known_info yf w \<Longrightarrow>
   fst (get_conversion_ratio yf t w1) = fst (get_conversion_ratio yf t w)"
  by (rule stable_value [OF stable_get_conversion_ratio])

lemma step_conserved:
  assumes "conserved st" and "TransactionType txn = Buy \<longrightarrow> positive_ratio yf w txn"
    and "replay_transaction yf ticker etf atype txn st w = (Inr st', w')"
  shows "conserved st'"
proof (cases "TransactionType txn")
  case Buy
  with replay_transaction_Inr [OF assms(3)] obtain ratio where
    r: "fst (get_conversion_ratio yf (Ticker txn) w) = Inr ratio"
    and st': "st' = process_buy ticker etf ratio txn st" by auto
  from Buy assms(2) r have "0 < ratio" by (simp add: positive_ratio_def)
  with st' assms(1) show ?thesis by (simp add: conserved_process_buy)
next
  case Sell
  with replay_transaction_Inr [OF assms(3)] assms(1) show ?thesis
    by (auto simp: conserved_process_sell)
next
  case Dividend
  with replay_transaction_Inr [OF assms(3)] assms(1) show ?thesis
    by (auto simp: conserved_process_dividend)
next
  case MergerStock
  with replay_transaction_Inr [OF assms(3)] assms(1) show ?thesis
    by (simp add: conserved_process_merger)
next
  case MergerCash
  with replay_transaction_Inr [OF assms(3)] assms(1) show ?thesis
    by (simp add: conserved_process_merger_cash)
next
  case Merger
  with replay_transaction_Inr [OF assms(3)] assms(1) show ?thesis
    by (simp add: conserved_process_merger)
next
  case TransferBroker
  with replay_transaction_Inr [OF assms(3)] assms(1) show ?thesis by simp
next
  case TransferMerger
  with replay_transaction_Inr [OF assms(3)] assms(1) show ?thesis
    by (simp add: conserved_process_transfer_merger)
next
  case Ignore
  with replay_transaction_Inr [OF assms(3)] assms(1) show ?thesis by simp
qed

lemma replay_conserved:
  assumes "conserved st"
    and "\<forall>txn \<in> set txns. TransactionType txn = Buy \<longrightarrow> positive_ratio yf w txn"
    and "replay yf ticker etf atype txns st w = (Inr st', w')"
  shows "conserved st'"
  using assms
proof (induction txns arbitrary: st w)
  case Nil
  then show ?case by (auto dest: replay_Nil_Inr)
next
  case (Cons txn txns)
  from replay_Cons_Inr [OF Cons.prems(3)] obtain s1 w1 where
    step: "replay_transaction yf ticker etf atype txn st w = (Inr s1, w1)"
    and view: "known_info yf w1 = known_info yf w"
    and rest: "replay yf ticker etf atype txns s1 w1 = (Inr st', w')"
    by blast
  from Cons.prems(2) have "TransactionType txn = Buy \<longrightarrow> positive_ratio yf w txn" by simp
  from step_conserved [OF Cons.prems(1) this step] have s1: "conserved s1" .
  from Cons.prems(2) view
  have "\<forall>txn \<in> set txns. TransactionType txn = Buy \<longrightarrow> positive_ratio yf w1 txn"
    by (simp add: positive_ratio_def ratio_same_view [OF view])
  from Cons.IH [OF s1 this rest] show ?case .
qed

lemma step_holdings:
  assumes "holdings_ok st" and "TransactionType txn = Buy \<longrightarrow> 0 \<le> converted_quantity yf w txn"
    and "replay_transaction yf ticker etf atype txn st w = (Inr st', w')"
  shows "holdings_ok st'"
proof (cases "TransactionType txn")
  case Buy
  with replay_transaction_Inr [OF assms(3)] obtain ratio where
    r: "fst (get_conversion_ratio yf (Ticker txn) w) = Inr ratio"
    and st': "st' = process_buy ticker etf ratio txn st" by auto
  from Buy assms(2) r have "0 \<le> Quantity txn * ratio" by (simp add: converted_quantity_def)
  with st' assms(1) show ?thesis by (simp add: holdings_process_buy)
next
  case Sell
  with replay_transaction_Inr [OF assms(3)] assms(1) show ?thesis
    by (auto simp: holdings_process_sell)
next
  case Dividend
  with replay_transaction_Inr [OF assms(3)] assms(1) show ?thesis
    by (auto simp: holdings_process_dividend)
next
  case MergerStock
  with replay_transaction_Inr [OF assms(3)] assms(1) show ?thesis
    by (simp add: holdings_process_merger)
next
  case MergerCash
  with replay_transaction_Inr [OF assms(3)] assms(1) show ?thesis
    by (simp add: holdings_process_merger_cash)
next
  case Merger
  with replay_transaction_Inr [OF assms(3)] assms(1) show ?thesis
    by (simp add: holdings_process_merger)
next
  case TransferBroker
  with replay_transaction_Inr [OF assms(3)] assms(1) show ?thesis by simp
next
  case TransferMerger
  with replay_transaction_Inr [OF assms(3)] assms(1) show ?thesis
    by (simp add: holdings_process_transfer_merger)
next
  case Ignore
  with replay_transaction_Inr [OF assms(3)] assms(1) show ?thesis by simp
qed

lemma replay_holdings:
  assumes "holdings_ok st"
    and "\<forall>txn \<in> set txns. TransactionType txn = Buy \<longrightarrow> 0 \<le> converted_quantity yf w txn"
    and "replay yf ticker etf atype txns st w = (Inr st', w')"
  shows "holdings_ok st'"
  using assms
proof (induction txns arbitrary: st w)
  case Nil
  then show ?case by (auto dest: replay_Nil_Inr)
next
  case (Cons txn txns)
  from replay_Cons_Inr [OF Cons.prems(3)] obtain s1 w1 where
    step: "replay_transaction yf ticker etf atype txn st w = (Inr s1, w1)"
    and view: "known_info yf w1 = known_info yf w"
    and rest: "replay yf ticker etf atype txns s1 w1 = (Inr st', w')"
    by blast
  from Cons.prems(2) have "TransactionType txn = Buy \<longrightarrow> 0 \<le> converted_quantity yf w txn" by simp
  from step_holdings [OF Cons.prems(1) this step] have s1: "holdings_ok s1" .
  from Cons.prems(2) view
  have "\<forall>txn \<in> set txns. TransactionType txn = Buy \<longrightarrow> 0 \<le> converted_quantity yf w1 txn"
    by (simp add: converted_quantity_def ratio_same_view [OF view])
  from Cons.IH [OF s1 this rest] show ?case .
qed

lemma converted_same_view:
  "known_info yf w1 = known_info yf w \<Longrightarrow> converted_quantity yf w1 = converted_quantity yf w"
proof (rule ext)
  fix txn
  assume view: "known_info yf w1 = known_info yf w"
  show "converted_quantity yf w1 txn = converted_quantity yf w txn"
    unfolding converted_quantity_def ratio_same_view [OF view] ..
qed

lemma process_buy_shares:
  "total_shares (process_buy ticker etf ratio txn st) = total_shares st + Quantity txn * ratio
   \<and> queue_shares (buy_queue (process_buy ticker etf ratio txn st))
       = queue_shares (buy_queue st) + Quantity txn * ratio"
  by (simp add: process_buy_def Let_def queue_shares_def)

lemma process_sell_exact:
  assumes "total_shares st = queue_shares (buy_queue st)"
    and "0 \<le> Quantity txn * ratio" and "Quantity txn * ratio \<le> total_shares st"
  shows "total_shares (process_sell ticker atype ratio txn st) = total_shares st - Quantity txn * ratio
   \<and> queue_shares (buy_queue (process_sell ticker atype ratio txn st))
       = queue_shares (buy_queue st) - Quantity txn * ratio"
proof -
  obtain r' b' q' s' c' where run:
    "sell_loop (Quantity txn * ratio) 0 (buy_queue st) (total_shares st) (total_cost st)
       = (r', b', q', s', c')"
    by (metis prod_cases5)
  from sell_loop_exact [OF assms(2) _ run] assms(1,3) have "r' = 0" by simp
  with sell_loop_account [OF run] assms(1) show ?thesis
    by (simp add: process_sell_eq [OF run])
qed

lemma replay_residual:
  assumes "total_shares st = queue_shares (buy_queue st)"
    and "no_oversell (converted_quantity yf w) (total_shares st) txns"
    and "replay yf ticker etf atype txns st w = (Inr st', w')"
  shows "total_shares st' = queue_shares (buy_queue st')
         \<and> queue_shares (buy_queue st')
             = queue_shares (buy_queue st) + bought (converted_quantity yf w) txns
                 - sold (converted_quantity yf w) txns"
  using assms
proof (induction txns arbitrary: st w)
  case Nil
  then show ?case by (auto simp: bought_def sold_def dest: replay_Nil_Inr)
next
  case (Cons txn txns)
  from replay_Cons_Inr [OF Cons.prems(3)] obtain s1 w1 where
    step: "replay_transaction yf ticker etf atype txn st w = (Inr s1, w1)"
    and view: "known_info yf w1 = known_info yf w"
    and rest: "replay yf ticker etf atype txns s1 w1 = (Inr st', w')"
    by blast
  note cq = converted_same_view [OF view]
  from Cons.prems(2) consider (buy) "TransactionType txn = Buy" | (sell) "TransactionType txn = Sell"
    by (cases "TransactionType txn") auto
  then show ?case
  proof cases
    case buy
    with replay_transaction_Inr [OF step] obtain ratio where
      r: "fst (get_conversion_ratio yf (Ticker txn) w) = Inr ratio"
      and s1: "s1 = process_buy ticker etf ratio txn st" by auto
    from r have q: "converted_quantity yf w txn = Quantity txn * ratio"
      by (simp add: converted_quantity_def)
    from s1 process_buy_shares [of ticker etf ratio txn st] Cons.prems(1) q
    have a: "total_shares s1 = queue_shares (buy_queue s1)"
      and b: "total_shares s1 = total_shares st + converted_quantity yf w txn"
      and c: "queue_shares (buy_queue s1) = queue_shares (buy_queue st) + converted_quantity yf w txn"
      by simp_all
    from Cons.prems(2) buy b have "no_oversell (converted_quantity yf w1) (total_shares s1) txns"
      by (simp add: cq)
    from Cons.IH [OF a this rest] c buy show ?thesis
      by (simp add: cq bought_def sold_def)
  next
    case sell
    with replay_transaction_Inr [OF step] obtain ratio where
      r: "fst (get_conversion_ratio yf (Ticker txn) w) = Inr ratio"
      and s1: "s1 = process_sell ticker atype ratio txn st" by auto
    from r have q: "converted_quantity yf w txn = Quantity txn * ratio"
      by (simp add: converted_quantity_def)
    from Cons.prems(2) sell q have bounds: "0 \<le> Quantity txn * ratio" "Quantity txn * ratio \<le> total_shares st"
      by simp_all
    from s1 process_sell_exact [OF Cons.prems(1) bounds, of ticker atype] Cons.prems(1) q
    have a: "total_shares s1 = queue_shares (buy_queue s1)"
      and b: "total_shares s1 = total_shares st - converted_quantity yf w txn"
      and c: "queue_shares (buy_queue s1) = queue_shares (buy_queue st) - converted_quantity yf w txn"
      by simp_all
    from Cons.prems(2) sell b have "no_oversell (converted_quantity yf w1) (total_shares s1) txns"
      by (simp add: cq)
    from Cons.IH [OF a this rest] c sell show ?thesis
      by (simp add: cq bought_def sold_def)
  qed
qed

section \<open>The rounded replay\<close>

subsection \<open>The loops, one turn at a time\<close>

lemma sell_loop_fl_stop:
  "\<not> (0 < r \<and> q \<noteq> []) \<Longrightarrow> sell_loop_fl rnd r b q s c = (r, b, q, s, c)"
  by (subst sell_loop_fl.simps) auto

lemma sell_loop_fl_full:
  "0 < r \<Longrightarrow> quantity lot \<le> r \<Longrightarrow>
   sell_loop_fl rnd r b (lot # rest) s c =
     sell_loop_fl rnd (rnd (r - quantity lot))
       (rnd (b + rnd (quantity lot * price_per_share_eur lot))) rest
       (rnd (s - quantity lot)) (rnd (c - rnd (quantity lot * price_per_share_eur lot)))"
  by (subst sell_loop_fl.simps) (simp add: Let_def)

lemma sell_loop_fl_partial:
  "0 < r \<Longrightarrow> r < quantity lot \<Longrightarrow>
   sell_loop_fl rnd r b (lot # rest) s c =
     (0, rnd (b + rnd (r * price_per_share_eur lot)),
      lot\<lparr>quantity := rnd (quantity lot - r)\<rparr> # rest,
      rnd (s - r), rnd (c - rnd (r * price_per_share_eur lot)))"
  by (subst sell_loop_fl.simps) (simp add: Let_def sell_loop_fl_stop)

lemma remove_loop_fl_stop:
  "\<not> (0 < r \<and> q \<noteq> []) \<Longrightarrow> remove_loop_fl rnd r q s c = (r, q, s, c)"
  by (subst remove_loop_fl.simps) auto

lemma remove_loop_fl_full:
  "0 < r \<Longrightarrow> quantity lot \<le> r \<Longrightarrow>
   remove_loop_fl rnd r (lot # rest) s c =
     remove_loop_fl rnd (rnd (r - quantity lot)) rest
       (rnd (s - quantity lot)) (rnd (c - rnd (quantity lot * price_per_share_eur lot)))"
  by (subst remove_loop_fl.simps) (simp add: Let_def)

lemma remove_loop_fl_partial:
  "0 < r \<Longrightarrow> r < quantity lot \<Longrightarrow>
   remove_loop_fl rnd r (lot # rest) s c =
     (0, lot\<lparr>quantity := rnd (quantity lot - r)\<rparr> # rest,
      rnd (s - r), rnd (c - rnd (r * price_per_share_eur lot)))"
  by (subst remove_loop_fl.simps) (simp add: Let_def remove_loop_fl_stop)

subsection \<open>With the identity for the rounding, the exact replay\<close>

lemma sell_loop_fl_exact: "sell_loop_fl (\<lambda>x. x) r b q s c = sell_loop r b q s c"
proof (induction q arbitrary: r b s c)
  case Nil
  show ?case by (simp add: sell_loop_stop sell_loop_fl_stop)
next
  case (Cons lot rest)
  consider (stop) "r \<le> 0" | (full) "0 < r" "quantity lot \<le> r" | (partial) "0 < r" "r < quantity lot"
    by fastforce
  then show ?case
  proof cases
    case stop
    then show ?thesis by (simp add: sell_loop_stop sell_loop_fl_stop)
  next
    case full
    then show ?thesis by (simp add: sell_loop_full sell_loop_fl_full Cons.IH)
  next
    case partial
    then show ?thesis by (simp add: sell_loop_partial sell_loop_fl_partial)
  qed
qed

lemma remove_loop_fl_exact: "remove_loop_fl (\<lambda>x. x) r q s c = remove_loop r q s c"
proof (induction q arbitrary: r s c)
  case Nil
  show ?case by (simp add: remove_loop_stop remove_loop_fl_stop)
next
  case (Cons lot rest)
  consider (stop) "r \<le> 0" | (full) "0 < r" "quantity lot \<le> r" | (partial) "0 < r" "r < quantity lot"
    by fastforce
  then show ?case
  proof cases
    case stop
    then show ?thesis by (simp add: remove_loop_stop remove_loop_fl_stop)
  next
    case full
    then show ?thesis by (simp add: remove_loop_full remove_loop_fl_full Cons.IH)
  next
    case partial
    then show ?thesis by (simp add: remove_loop_partial remove_loop_fl_partial)
  qed
qed

lemma add_gain_fl_exact: "add_gain_fl (\<lambda>x. x) key yr amount g = add_gain key yr amount g"
  by (cases key) (simp_all add: add_gain_fl_def add_gain_def dd_add_fl_def dd_add_def)

lemma book_fl_exact: "book_fl (\<lambda>x. x) ticker atype key yr amount rs = book ticker atype key yr amount rs"
  by (cases atype)
     (simp_all add: book_fl_def book_def detail_add_def summary_add_def add_gain_fl_exact [abs_def])

lemma process_fl_exact:
  "process_dividend_fl (\<lambda>x. x) ticker atype domicile txn st = process_dividend ticker atype domicile txn st"
  "process_buy_fl (\<lambda>x. x) ticker etf ratio txn st = process_buy ticker etf ratio txn st"
  "process_sell_fl (\<lambda>x. x) ticker atype ratio txn st = process_sell ticker atype ratio txn st"
  "process_merger_fl (\<lambda>x. x) txn st = process_merger txn st"
  "process_merger_cash_fl (\<lambda>x. x) ticker atype txn st = process_merger_cash ticker atype txn st"
  "process_transfer_merger_fl (\<lambda>x. x) ticker etf txn st = process_transfer_merger ticker etf txn st"
  by (simp_all add: process_dividend_fl_def process_dividend_def process_buy_fl_def process_buy_def
                process_sell_fl_def process_sell_def process_merger_fl_def process_merger_def
                process_merger_cash_fl_def process_merger_cash_def
                process_transfer_merger_fl_def process_transfer_merger_def
                sell_loop_fl_exact remove_loop_fl_exact book_fl_exact Let_def)

lemma replay_transaction_fl_exact:
  "replay_transaction_fl (\<lambda>x. x) yf ticker etf atype txn st = replay_transaction yf ticker etf atype txn st"
  by (cases "TransactionType txn")
     (simp_all add: replay_transaction_fl_def replay_transaction_def process_fl_exact)

lemma replay_fl_exact:
  "replay_fl (\<lambda>x. x) yf ticker etf atype txns st = replay yf ticker etf atype txns st"
  by (simp add: replay_fl_def replay_def replay_transaction_fl_exact [abs_def])

subsection \<open>No lot becomes negative\<close>

lemma rounded_nonneg: "mono rnd \<Longrightarrow> rnd 0 = 0 \<Longrightarrow> 0 \<le> x \<Longrightarrow> 0 \<le> rnd (x :: real)"
  using monoD [of rnd 0 x] by simp

lemma sell_loop_fl_lots:
  assumes rnd: "mono rnd" "rnd 0 = 0"
  shows "list_all (\<lambda>x. 0 \<le> quantity x) q \<Longrightarrow>
         sell_loop_fl rnd r b q s c = (r', b', q', s', c') \<Longrightarrow>
         list_all (\<lambda>x. 0 \<le> quantity x) q'"
proof (induction q arbitrary: r b s c)
  case Nil
  then show ?case by (simp add: sell_loop_fl_stop)
next
  case (Cons lot rest)
  consider (stop) "r \<le> 0" | (full) "0 < r" "quantity lot \<le> r" | (partial) "0 < r" "r < quantity lot"
    by fastforce
  then show ?case
  proof cases
    case stop
    with Cons.prems show ?thesis by (auto simp: sell_loop_fl_stop)
  next
    case full
    with Cons.prems(2) have run: "sell_loop_fl rnd (rnd (r - quantity lot))
       (rnd (b + rnd (quantity lot * price_per_share_eur lot))) rest
       (rnd (s - quantity lot)) (rnd (c - rnd (quantity lot * price_per_share_eur lot)))
        = (r', b', q', s', c')"
      by (simp add: sell_loop_fl_full)
    from Cons.prems(1) have "list_all (\<lambda>x. 0 \<le> quantity x) rest" by simp
    from Cons.IH [OF this run] show ?thesis .
  next
    case partial
    then have "0 \<le> rnd (quantity lot - r)" using rounded_nonneg [OF rnd, of "quantity lot - r"] by simp
    with partial Cons.prems show ?thesis by (auto simp: sell_loop_fl_partial)
  qed
qed

lemma remove_loop_fl_lots:
  assumes rnd: "mono rnd" "rnd 0 = 0"
  shows "list_all (\<lambda>x. 0 \<le> quantity x) q \<Longrightarrow>
         remove_loop_fl rnd r q s c = (r', q', s', c') \<Longrightarrow>
         list_all (\<lambda>x. 0 \<le> quantity x) q'"
proof (induction q arbitrary: r s c)
  case Nil
  then show ?case by (simp add: remove_loop_fl_stop)
next
  case (Cons lot rest)
  consider (stop) "r \<le> 0" | (full) "0 < r" "quantity lot \<le> r" | (partial) "0 < r" "r < quantity lot"
    by fastforce
  then show ?case
  proof cases
    case stop
    with Cons.prems show ?thesis by (auto simp: remove_loop_fl_stop)
  next
    case full
    with Cons.prems(2) have run: "remove_loop_fl rnd (rnd (r - quantity lot)) rest
       (rnd (s - quantity lot)) (rnd (c - rnd (quantity lot * price_per_share_eur lot)))
        = (r', q', s', c')"
      by (simp add: remove_loop_fl_full)
    from Cons.prems(1) have "list_all (\<lambda>x. 0 \<le> quantity x) rest" by simp
    from Cons.IH [OF this run] show ?thesis .
  next
    case partial
    then have "0 \<le> rnd (quantity lot - r)" using rounded_nonneg [OF rnd, of "quantity lot - r"] by simp
    with partial Cons.prems show ?thesis by (auto simp: remove_loop_fl_partial)
  qed
qed

lemma process_sell_fl_lots:
  assumes "mono rnd" "rnd 0 = 0" "list_all (\<lambda>x. 0 \<le> quantity x) (buy_queue st)"
  shows "list_all (\<lambda>x. 0 \<le> quantity x) (buy_queue (process_sell_fl rnd ticker atype ratio txn st))"
proof -
  obtain r' b' q' s' c' where run:
    "sell_loop_fl rnd (rnd (Quantity txn * ratio)) 0 (buy_queue st) (total_shares st) (total_cost st)
       = (r', b', q', s', c')"
    by (metis prod_cases5)
  from sell_loop_fl_lots [OF assms run] show ?thesis
    by (simp add: process_sell_fl_def run Let_def)
qed

lemma process_merger_fl_lots:
  assumes "mono rnd" "rnd 0 = 0" "list_all (\<lambda>x. 0 \<le> quantity x) (buy_queue st)"
  shows "list_all (\<lambda>x. 0 \<le> quantity x) (buy_queue (process_merger_fl rnd txn st))"
proof (cases "Quantity txn < 0")
  case False
  with assms(3) show ?thesis by (simp add: process_merger_fl_def)
next
  case True
  obtain r' q' s' c' where run:
    "remove_loop_fl rnd \<bar>Quantity txn\<bar> (buy_queue st) (total_shares st) (total_cost st)
       = (r', q', s', c')"
    by (metis prod_cases4)
  from True have "\<bar>Quantity txn\<bar> = - Quantity txn" by simp
  with run have "remove_loop_fl rnd (- Quantity txn) (buy_queue st) (total_shares st) (total_cost st)
       = (r', q', s', c')" by simp
  with remove_loop_fl_lots [OF assms run] True show ?thesis
    by (simp add: process_merger_fl_def Let_def)
qed

lemma process_buy_fl_lots:
  assumes "mono rnd" "rnd 0 = 0" "list_all (\<lambda>x. 0 \<le> quantity x) (buy_queue st)"
    and "0 \<le> Quantity txn * ratio"
  shows "list_all (\<lambda>x. 0 \<le> quantity x) (buy_queue (process_buy_fl rnd ticker etf ratio txn st))"
  using assms(3) rounded_nonneg [OF assms(1,2,4)]
  by (simp add: process_buy_fl_def Let_def)



lemma replay_transaction_fl_Inr:
  assumes "replay_transaction_fl rnd yf ticker etf atype txn st w = (Inr st', w')"
  shows "case TransactionType txn of
           Buy \<Rightarrow> \<exists>ratio. fst (get_conversion_ratio yf (Ticker txn) w) = Inr ratio
                     \<and> st' = process_buy_fl rnd ticker etf ratio txn st
         | Sell \<Rightarrow> \<exists>ratio. fst (get_conversion_ratio yf (Ticker txn) w) = Inr ratio
                     \<and> st' = process_sell_fl rnd ticker atype ratio txn st
         | Dividend \<Rightarrow> \<exists>domicile. st' = process_dividend_fl rnd ticker atype domicile txn st
         | MergerStock \<Rightarrow> st' = process_merger_fl rnd txn st
         | Merger \<Rightarrow> st' = process_merger_fl rnd txn st
         | MergerCash \<Rightarrow> st' = process_merger_cash_fl rnd ticker atype txn st
         | TransferMerger \<Rightarrow> st' = process_transfer_merger_fl rnd ticker etf txn st
         | _ \<Rightarrow> st' = st"
  using assms
  by (cases "TransactionType txn")
     (auto simp: replay_transaction_fl_def dest!: bind_Inr ret_Inr)



lemma stable_replay_transaction_fl:
  "stable yf (replay_transaction_fl rnd yf ticker etf atype txn st)"
  by (cases "TransactionType txn")
     (auto simp: replay_transaction_fl_def intro!: stable_bind)


lemma step_fl_lots:
  assumes rnd: "mono rnd" "rnd 0 = 0"
    and lots: "list_all (\<lambda>x. 0 \<le> quantity x) (buy_queue st)"
    and buy: "TransactionType txn = Buy \<longrightarrow> 0 \<le> converted_quantity yf w txn"
    and step: "replay_transaction_fl rnd yf ticker etf atype txn st w = (Inr st', w')"
  shows "list_all (\<lambda>x. 0 \<le> quantity x) (buy_queue st')"
proof (cases "TransactionType txn")
  case Buy
  with replay_transaction_fl_Inr [OF step] obtain ratio where
    r: "fst (get_conversion_ratio yf (Ticker txn) w) = Inr ratio"
    and st': "st' = process_buy_fl rnd ticker etf ratio txn st" by auto
  from Buy buy r have "0 \<le> Quantity txn * ratio" by (simp add: converted_quantity_def)
  from process_buy_fl_lots [OF rnd lots this] st' show ?thesis by simp
next
  case Sell
  with replay_transaction_fl_Inr [OF step] process_sell_fl_lots [OF rnd lots] show ?thesis by auto
next
  case Dividend
  with replay_transaction_fl_Inr [OF step] lots show ?thesis
    by (auto simp: process_dividend_fl_def Let_def)
next
  case MergerStock
  with replay_transaction_fl_Inr [OF step] process_merger_fl_lots [OF rnd lots] show ?thesis by simp
next
  case MergerCash
  with replay_transaction_fl_Inr [OF step] lots show ?thesis
    by (simp add: process_merger_cash_fl_def Let_def)
next
  case Merger
  with replay_transaction_fl_Inr [OF step] process_merger_fl_lots [OF rnd lots] show ?thesis by simp
next
  case TransferBroker
  with replay_transaction_fl_Inr [OF step] lots show ?thesis by simp
next
  case TransferMerger
  with replay_transaction_fl_Inr [OF step] lots show ?thesis
    by (simp add: process_transfer_merger_fl_def Let_def)
next
  case Ignore
  with replay_transaction_fl_Inr [OF step] lots show ?thesis by simp
qed

lemma replay_fl_lots:
  assumes rnd: "mono rnd" "rnd 0 = 0"
  shows "list_all (\<lambda>x. 0 \<le> quantity x) (buy_queue st) \<Longrightarrow>
         \<forall>txn \<in> set txns. TransactionType txn = Buy \<longrightarrow> 0 \<le> converted_quantity yf w txn \<Longrightarrow>
         replay_fl rnd yf ticker etf atype txns st w = (Inr st', w') \<Longrightarrow>
         list_all (\<lambda>x. 0 \<le> quantity x) (buy_queue st')"
proof (induction txns arbitrary: st w)
  case Nil
  then show ?case by (simp add: replay_fl_def ret_def)
next
  case (Cons txn txns)
  from Cons.prems(3) obtain s1 w1 where
    step: "replay_transaction_fl rnd yf ticker etf atype txn st w = (Inr s1, w1)"
    and rest: "replay_fl rnd yf ticker etf atype txns s1 w1 = (Inr st', w')"
    by (auto simp: replay_fl_def dest!: bind_Inr)
  from stable_view [OF stable_replay_transaction_fl, of yf rnd ticker etf atype txn st w] step
  have view: "known_info yf w1 = known_info yf w" by simp
  from Cons.prems(2) have "TransactionType txn = Buy \<longrightarrow> 0 \<le> converted_quantity yf w txn" by simp
  from step_fl_lots [OF rnd Cons.prems(1) this step]
  have s1: "list_all (\<lambda>x. 0 \<le> quantity x) (buy_queue s1)" .
  from Cons.prems(2)
  have "\<forall>txn \<in> set txns. TransactionType txn = Buy \<longrightarrow> 0 \<le> converted_quantity yf w1 txn"
    by (simp add: converted_same_view [OF view])
  from Cons.IH [OF s1 this rest] show ?case .
qed

section \<open>The rounding of binary64 is monotone\<close>

lemma binary64_zero: "binary64 0 = 0"
  by (simp add: binary64_def)

lemma round_half_even_of_int: "round_half_even (of_int n) = n"
  by (simp add: round_half_even_def)

lemma round_half_even_bounds: "\<lfloor>x\<rfloor> \<le> round_half_even x" "round_half_even x \<le> \<lfloor>x\<rfloor> + 1"
  by (simp_all add: round_half_even_def Let_def)

lemma round_half_even_mono:
  assumes "x \<le> y"
  shows "round_half_even x \<le> round_half_even y"
proof (cases "\<lfloor>x\<rfloor> = \<lfloor>y\<rfloor>")
  case True
  with assms show ?thesis by (simp add: round_half_even_def Let_def)
next
  case False
  with assms have "\<lfloor>x\<rfloor> < \<lfloor>y\<rfloor>" using floor_mono [of x y] by linarith
  with round_half_even_bounds(2) [of x] round_half_even_bounds(1) [of y] show ?thesis by linarith
qed

lemma round_half_even_minus: "round_half_even (- x) = - round_half_even x"
proof (cases "x = of_int \<lfloor>x\<rfloor>")
  case True
  then obtain n where "x = of_int n" ..
  then have "- x = of_int (- n)" by simp
  with \<open>x = of_int n\<close> show ?thesis by (simp only: round_half_even_of_int)
next
  case False
  then have lt: "of_int \<lfloor>x\<rfloor> < x" using of_int_floor_le [of x] by linarith
  have ub: "x < of_int \<lfloor>x\<rfloor> + 1" by linarith
  have a: "of_int (- \<lfloor>x\<rfloor> - 1) = - of_int \<lfloor>x\<rfloor> - (1::real)" by simp
  have "of_int (- \<lfloor>x\<rfloor> - 1) \<le> - x" "- x < of_int (- \<lfloor>x\<rfloor> - 1) + 1"
    unfolding a using lt ub by linarith+
  then have fl: "\<lfloor>- x\<rfloor> = - \<lfloor>x\<rfloor> - 1" by (rule floor_unique)
  show ?thesis
    unfolding round_half_even_def Let_def fl by (auto simp: algebra_simps)
qed

lemma log_binade:
  assumes "0 < x"
  shows "2 powr of_int \<lfloor>log 2 x\<rfloor> \<le> x" "x < 2 powr (of_int \<lfloor>log 2 x\<rfloor> + 1)"
proof -
  have "of_int \<lfloor>log 2 x\<rfloor> \<le> log 2 x" by simp
  with le_log_iff [of 2 x "of_int \<lfloor>log 2 x\<rfloor>"] assms
  show "2 powr of_int \<lfloor>log 2 x\<rfloor> \<le> x" by linarith
  have "log 2 x < of_int \<lfloor>log 2 x\<rfloor> + 1" by linarith
  with log_less_iff [of 2 x "of_int \<lfloor>log 2 x\<rfloor> + 1"] assms
  show "x < 2 powr (of_int \<lfloor>log 2 x\<rfloor> + 1)" by linarith
qed

lemma binade_log:
  assumes "2 powr of_int e \<le> x" "x < 2 powr (of_int e + 1)"
  shows "\<lfloor>log 2 x\<rfloor> = e"
proof -
  have pos: "0 < x" using assms(1) powr_gt_zero [of 2 "of_int e"] by linarith
  with assms have "of_int e \<le> log 2 x" "log 2 x < of_int e + 1"
    by (simp_all add: le_log_iff log_less_iff)
  then show ?thesis by (intro floor_unique)
qed

lemma binary64_binade:
  assumes "2 powr of_int e \<le> \<bar>x\<bar>" "\<bar>x\<bar> < 2 powr (of_int e + 1)"
  shows "binary64 x = of_int (round_half_even (x / 2 powr (of_int e - 52))) * 2 powr (of_int e - 52)"
proof -
  have "0 < \<bar>x\<bar>" using assms(1) powr_gt_zero [of 2 "of_int e"] by linarith
  then have "x \<noteq> 0" by simp
  with binade_log [OF assms] show ?thesis by (simp add: binary64_def)
qed

lemma binary64_minus: "binary64 (- x) = - binary64 x"
  by (simp add: binary64_def Let_def round_half_even_minus)

lemma binary64_pos_bounds:
  assumes "0 < x"
  shows "2 powr of_int \<lfloor>log 2 x\<rfloor> \<le> binary64 x"
    and "binary64 x \<le> 2 powr (of_int \<lfloor>log 2 x\<rfloor> + 1)"
proof -
  define e where "e = \<lfloor>log 2 x\<rfloor>"
  define u :: real where "u = 2 powr (of_int e - 52)"
  have u: "0 < u" by (simp add: u_def)
  have lo: "2 powr of_int e = of_int (2 ^ 52) * u"
    by (simp add: u_def powr_diff)
  have hi: "2 powr (of_int e + 1) = of_int (2 ^ 53) * u"
    by (simp add: u_def powr_diff powr_add)
  from log_binade [OF assms] have "of_int (2 ^ 52) * u \<le> x" "x < of_int (2 ^ 53) * u"
    unfolding e_def [symmetric] lo hi by simp_all
  with u have "of_int (2 ^ 52) \<le> x / u" "x / u \<le> of_int (2 ^ 53)"
    by (simp_all add: pos_le_divide_eq pos_divide_le_eq)
  from round_half_even_mono [OF this(1)] round_half_even_mono [OF this(2)]
  have "2 ^ 52 \<le> round_half_even (x / u)" "round_half_even (x / u) \<le> 2 ^ 53"
    by (simp_all only: round_half_even_of_int)
  then have "of_int (2 ^ 52) \<le> (of_int (round_half_even (x / u)) :: real)"
    "(of_int (round_half_even (x / u)) :: real) \<le> of_int (2 ^ 53)"
    by (simp_all only: of_int_le_iff)
  with u have b: "of_int (2 ^ 52) * u \<le> of_int (round_half_even (x / u)) * u"
    "of_int (round_half_even (x / u)) * u \<le> of_int (2 ^ 53) * u"
    by (simp_all only: mult_le_cancel_right_pos)
  have eq: "binary64 x = of_int (round_half_even (x / u)) * u"
    using assms by (simp add: binary64_def e_def u_def Let_def)
  from b show "2 powr of_int \<lfloor>log 2 x\<rfloor> \<le> binary64 x"
    "binary64 x \<le> 2 powr (of_int \<lfloor>log 2 x\<rfloor> + 1)"
    unfolding e_def [symmetric] lo hi eq by simp_all
qed

lemma binary64_pos_mono:
  assumes "0 < x" "x \<le> y"
  shows "binary64 x \<le> binary64 y"
proof -
  from assms have y: "0 < y" by simp
  from assms have "log 2 x \<le> log 2 y" by simp
  then have le: "\<lfloor>log 2 x\<rfloor> \<le> \<lfloor>log 2 y\<rfloor>" by (rule floor_mono)
  show ?thesis
  proof (cases "\<lfloor>log 2 x\<rfloor> = \<lfloor>log 2 y\<rfloor>")
    case True
    define u :: real where "u = 2 powr (of_int \<lfloor>log 2 y\<rfloor> - 52)"
    have u: "0 < u" by (simp add: u_def)
    with assms(2) have "x / u \<le> y / u" by (simp add: divide_right_mono)
    from round_half_even_mono [OF this] u
    have "of_int (round_half_even (x / u)) * u \<le> of_int (round_half_even (y / u)) * u"
      by simp
    with assms y True show ?thesis by (simp add: binary64_def u_def Let_def)
  next
    case False
    with le have "\<lfloor>log 2 x\<rfloor> + 1 \<le> \<lfloor>log 2 y\<rfloor>" by simp
    then have "(of_int \<lfloor>log 2 x\<rfloor> :: real) + 1 \<le> of_int \<lfloor>log 2 y\<rfloor>"
      by (metis of_int_1 of_int_add of_int_le_iff)
    then have "(2::real) powr (of_int \<lfloor>log 2 x\<rfloor> + 1) \<le> 2 powr of_int \<lfloor>log 2 y\<rfloor>"
      by simp
    with binary64_pos_bounds(2) [OF assms(1)] binary64_pos_bounds(1) [OF y]
    show ?thesis by linarith
  qed
qed

lemma binary64_nonneg: "0 \<le> x \<Longrightarrow> 0 \<le> binary64 x"
proof (cases "x = 0")
  case True
  then show ?thesis by (simp add: binary64_zero)
next
  case False
  assume "0 \<le> x"
  with False have "0 < x" by simp
  from binary64_pos_bounds(1) [OF this] powr_gt_zero [of 2 "of_int \<lfloor>log 2 x\<rfloor>"]
  show ?thesis by linarith
qed

lemma mono_binary64: "mono binary64"
proof (rule monoI)
  fix x y :: real
  assume le: "x \<le> y"
  consider (pos) "0 < x" | (mid) "x \<le> 0" "0 \<le> y" | (neg) "y < 0" by linarith
  then show "binary64 x \<le> binary64 y"
  proof cases
    case pos
    from binary64_pos_mono [OF pos le] show ?thesis .
  next
    case mid
    from binary64_nonneg [of "- x"] mid(1) have "binary64 x \<le> 0" by (simp add: binary64_minus)
    with binary64_nonneg [OF mid(2)] show ?thesis by linarith
  next
    case neg
    with le have "0 < - y" "- y \<le> - x" by simp_all
    from binary64_pos_mono [OF this] show ?thesis by (simp add: binary64_minus)
  qed
qed

section \<open>The example data\<close>

lemma example_row_fields:
  "TransactionType (example_row ty qty price yr) = ty"
  "Quantity (example_row ty qty price yr) = qty"
  "PricePerShareEUR (example_row ty qty price yr) = price"
  "Year (example_row ty qty price yr) = yr"
  "Ticker (example_row ty qty price yr) = Some ''ACME''"
  by (simp_all add: example_row_def)

lemma example_ratio:
  "get_conversion_ratio example_yf (Some ''ACME'') example_world = (Inr 1, example_world)"
  by (simp add: get_conversion_ratio_def get_ticker_info_def upper_def bind_def ret_def
                example_world_def example_info_def Let_def)

lemma example_replay:
  "replay example_yf ''ACME'' False Stocks (example_buys @ [example_row Sell 2 50 2023])
     example_start example_world
   = (Inr \<lparr> buy_queue = [\<lparr>quantity = 1, price_per_share_eur = 30, year = 2022\<rparr>],
            total_shares = 1, total_cost = 30,
            results = book ''ACME'' Stocks RealizedGains 2023 (50 * 2 - 30) empty_results \<rparr>,
      example_world)"
  by (simp add: replay_def replay_transaction_def example_buys_def example_row_def example_ratio
                bind_def ret_def process_buy_def process_sell_def example_start_def Let_def
                sell_loop_full sell_loop_partial sell_loop_stop)

lemma example_converted:
  "converted_quantity example_yf example_world (example_row ty qty price yr) = qty"
  "positive_ratio example_yf example_world (example_row ty qty price yr)"
  by (simp_all add: converted_quantity_def positive_ratio_def example_row_def example_ratio)

lemma example_sell_ratio:
  "get_conversion_ratio example_yf (Ticker (example_row Sell 3 50 2023)) example_world
     = (Inr 1, example_world)"
  by (simp add: example_row_def example_ratio)

lemma upper_newco: "upper ''newco'' = ''NEWCO''" "upper ''NEWCO'' = ''NEWCO''"
  by code_simp+

lemma newco_first:
  "get_ticker_info example_yf (Some ''NEWCO'') empty_world = (Inr (Some example_new_info), example_world_after)"
  by (simp add: get_ticker_info_def upper_newco empty_world_def example_world_after_def
                example_new_info_def bind_def add_missing_ticker_to_cache_def Let_def)

lemma newco_later:
  "get_ticker_info example_yf (Some ''NEWCO'') example_world_after = (Inr (Some example_new_info), example_world_after)"
  "get_ticker_info example_yf (Some ''newco'') example_world_after = (Inr (Some example_new_info), example_world_after)"
  by (simp_all add: get_ticker_info_def upper_newco example_world_after_def Let_def)

lemma newco_fields:
  "info_merged_into example_new_info = None"
  "info_type example_new_info = Some ''stock''"
  "info_active example_new_info = Some True"
  "info_conversion_ratio example_new_info = Some 1"
  "info_currency example_new_info = Some ''USD''"
  by (simp_all add: example_new_info_def ticker_from_yfinance_def example_yf_def upper_def Let_def)

lemma example_types:
  "classify_transaction_type (Some ''BUY - MARKET'') = Buy"
  "classify_transaction_type (Some ''SELL - MARKET'') = Sell"
  by (simp_all add: classify_transaction_type_def upper_def Let_def)

lemma example_amounts:
  "parse_amount ascii_decimal (Some [8364, 49, 48]) = Inr 10"
  "parse_amount ascii_decimal (Some [8364, 49, 53]) = Inr 15"
  by (simp_all add: parse_amount_def sub_currency_symbols_def euro_match_length_def hex_match_length_def
     number_at_def py_float_def unsigned_float_def digits_value_def is_digit_def ascii_decimal_def Let_def)

lemma process_transactions_example:
  "process_transactions example_env example_frame empty_world = (Inr example_results, example_world_after)"
  by (simp add: process_transactions_def example_env_def example_frame_def example_types
        merger_step_def classify_transfer_def relevant_types_def normalize_ticker_def upper_newco
        newco_first newco_later newco_fields is_etf_def is_active_def get_conversion_ratio_def
        example_amounts convert_to_eur_def build_row_def
        process_ticker_def replay_def replay_transaction_def process_buy_def process_sell_def
        sell_loop_full sell_loop_partial sell_loop_stop store_cost_basis_def example_results_def
        bind_def ret_def lift_def raise_def Let_def)

lemma example_replay_split:
  "replay example_yf ''ACME'' False Stocks (example_buys @ [example_row Sell (3 / 2) 50 2023])
     example_start example_world
   = (Inr \<lparr> buy_queue = [\<lparr>quantity = 1 / 2, price_per_share_eur = 20, year = 2021\<rparr>,
                         \<lparr>quantity = 1, price_per_share_eur = 30, year = 2022\<rparr>],
            total_shares = 3 / 2, total_cost = 40,
            results = book ''ACME'' Stocks RealizedGains 2023 (50 * (3 / 2) - 20) empty_results \<rparr>,
      example_world)"
  by (simp add: replay_def replay_transaction_def example_buys_def example_row_def example_ratio
                bind_def ret_def process_buy_def process_sell_def example_start_def Let_def
                sell_loop_full sell_loop_partial sell_loop_stop)

text \<open>The rounding of binary64 on the numbers of the examples, and the examples replayed with it.\<close>

lemma binary64_oversell_values:
  "binary64 (3602879701896397 / 18014398509481984) = 3602879701896397 / 18014398509481984"
  "binary64 (1 / 2) = 1 / 2"
  "binary64 (12610078956637389 / 18014398509481984) = 3152519739159347 / 4503599627370496"
  "binary64 (7656119366529843 / 4503599627370496) = 7656119366529843 / 4503599627370496"
  "binary64 (27021597764222975 / 18014398509481984) = 3 / 2"
  "binary64 (9007199254740991 / 18014398509481984) = 9007199254740991 / 18014398509481984"
  "binary64 1 = 1"
  "binary64 (- (1 / 18014398509481984)) = - (1 / 18014398509481984)"
  using binary64_binade [of "- 3" "3602879701896397 / 18014398509481984"]
        binary64_binade [of "- 1" "1 / 2"]
        binary64_binade [of "- 1" "12610078956637389 / 18014398509481984"]
        binary64_binade [of 0 "7656119366529843 / 4503599627370496"]
        binary64_binade [of 0 "27021597764222975 / 18014398509481984"]
        binary64_binade [of "- 2" "9007199254740991 / 18014398509481984"]
        binary64_binade [of 0 1]
        binary64_binade [of "- 54" "- (1 / 18014398509481984)"]
  by (simp_all add: round_half_even_def Let_def powr_neg_numeral)

lemma example_float_oversell_replay:
  "replay_fl binary64 example_yf ''ACME'' False Stocks example_float_oversell
     example_start example_world
   = (Inr \<lparr> buy_queue = [], total_shares = - (1 / 2 ^ 54), total_cost = 0,
            results = book_fl binary64 ''ACME'' Stocks RealizedGains 2023 0 empty_results \<rparr>,
      example_world)"
  by (simp add: replay_fl_def replay_transaction_fl_def example_float_oversell_def
                example_row_fields example_ratio
                bind_def ret_def process_buy_fl_def process_sell_fl_def example_start_def Let_def
                sell_loop_fl_full sell_loop_fl_partial sell_loop_fl_stop
                binary64_zero binary64_oversell_values)

lemma binary64_trades_values:
  "binary64 (3602879701896397 / 36028797018963968) = 3602879701896397 / 36028797018963968"
  "binary64 (5404319552844595 / 18014398509481984) = 5404319552844595 / 18014398509481984"
  "binary64 (10808639105689191 / 36028797018963968) = 1351079888211149 / 4503599627370496"
  "binary64 (7205759403792793 / 36028797018963968) = 7205759403792793 / 36028797018963968"
  "binary64 (7205759403792795 / 36028797018963968) = 7205759403792795 / 36028797018963968"
  "binary64 (1 / 36028797018963968) = 1 / 36028797018963968"
  "binary64 (1 / 18014398509481984) = 1 / 18014398509481984"
  "binary64 10 = 10"
  using binary64_binade [of "- 4" "3602879701896397 / 36028797018963968"]
        binary64_binade [of "- 2" "5404319552844595 / 18014398509481984"]
        binary64_binade [of "- 2" "10808639105689191 / 36028797018963968"]
        binary64_binade [of "- 3" "7205759403792793 / 36028797018963968"]
        binary64_binade [of "- 3" "7205759403792795 / 36028797018963968"]
        binary64_binade [of "- 55" "1 / 36028797018963968"]
        binary64_binade [of "- 54" "1 / 18014398509481984"]
        binary64_binade [of 3 10]
  by (simp_all add: round_half_even_def Let_def powr_neg_numeral)

lemma example_float_trades_replay:
  "replay_fl binary64 example_yf ''ACME'' False Stocks example_float_trades
     example_start example_world
   = (Inr \<lparr> buy_queue = [\<lparr>quantity = 1 / 2 ^ 55, price_per_share_eur = 1, year = 2021\<rparr>],
            total_shares = 1 / 2 ^ 54, total_cost = 1 / 2 ^ 54,
            results = book_fl binary64 ''ACME'' Stocks RealizedGains 2023 0 empty_results \<rparr>,
      example_world)"
  by (simp add: replay_fl_def replay_transaction_fl_def example_float_trades_def
                example_row_fields example_ratio
                bind_def ret_def process_buy_fl_def process_sell_fl_def example_start_def Let_def
                sell_loop_fl_full sell_loop_fl_partial sell_loop_fl_stop
                binary64_zero binary64_oversell_values binary64_trades_values)

lemma example_zero_buy_fl:
  "replay_transaction_fl binary64 example_yf ''ACME'' False Stocks (example_row Buy 0 10 2020)
     example_start example_world
   = (Inr \<lparr> buy_queue = [\<lparr>quantity = 0, price_per_share_eur = 10, year = 2020\<rparr>],
            total_shares = 0, total_cost = 0, results = empty_results \<rparr>, example_world)"
  by (simp add: replay_transaction_fl_def example_row_fields example_ratio bind_def ret_def
                process_buy_fl_def example_start_def Let_def binary64_zero binary64_trades_values)

lemma binary64_small_values:
  "binary64 2 = 2" "binary64 3 = 3" "binary64 20 = 20" "binary64 30 = 30" "binary64 50 = 50"
  "binary64 60 = 60" "binary64 70 = 70" "binary64 100 = 100"
  using binary64_binade [of 1 2] binary64_binade [of 1 3] binary64_binade [of 4 20]
        binary64_binade [of 4 30] binary64_binade [of 5 50] binary64_binade [of 5 60]
        binary64_binade [of 6 70] binary64_binade [of 6 100]
  by (simp_all add: round_half_even_def Let_def powr_neg_numeral)

lemma example_replay_fl:
  "replay_fl binary64 example_yf ''ACME'' False Stocks (example_buys @ [example_row Sell 2 50 2023])
     example_start example_world
   = (Inr \<lparr> buy_queue = [\<lparr>quantity = 1, price_per_share_eur = 30, year = 2022\<rparr>],
            total_shares = 1, total_cost = 30,
            results = book_fl binary64 ''ACME'' Stocks RealizedGains 2023 70 empty_results \<rparr>,
      example_world)"
  by (simp add: replay_fl_def replay_transaction_fl_def example_buys_def example_row_fields example_ratio
                bind_def ret_def process_buy_fl_def process_sell_fl_def example_start_def Let_def
                sell_loop_fl_full sell_loop_fl_partial sell_loop_fl_stop
                binary64_zero binary64_oversell_values binary64_trades_values binary64_small_values)

lemma example_partial_sell:
  "process_sell ''ACME'' Stocks 1 (example_row Sell 3 50 2023)
     \<lparr> buy_queue = [\<lparr>quantity = 5, price_per_share_eur = 10, year = 2020\<rparr>],
       total_shares = 5, total_cost = 50, results = empty_results \<rparr>
   = \<lparr> buy_queue = [\<lparr>quantity = 2, price_per_share_eur = 10, year = 2020\<rparr>],
       total_shares = 2, total_cost = 20,
       results = book ''ACME'' Stocks RealizedGains 2023 (50 * 3 - 30) empty_results \<rparr>"
  by (simp add: process_sell_def example_row_fields Let_def sell_loop_partial sell_loop_stop)

section \<open>First in, first out\<close>

lemma replay_transaction_sell:
  "TransactionType txn = Sell \<Longrightarrow> fst (get_conversion_ratio yf (Ticker txn) w) = Inr ratio \<Longrightarrow>
   fst (replay_transaction yf ticker etf atype txn st w) = Inr (process_sell ticker atype ratio txn st)"
  by (cases "get_conversion_ratio yf (Ticker txn) w")
     (simp add: replay_transaction_def bind_def ret_def)

lemma book_realized:
  "dd_get (realized_gains (stocks (summary (book ticker Stocks RealizedGains yr g rs)))) yr
     = dd_get (realized_gains (stocks (summary rs))) yr + g"
  "dd_get (realized_gains (etfs (summary (book ticker Etfs RealizedGains yr g rs)))) yr
     = dd_get (realized_gains (etfs (summary rs))) yr + g"
  "dd_get (realized_gains (detail_of (book ticker atype RealizedGains yr g rs) ticker)) yr
     = dd_get (realized_gains (detail_of rs ticker)) yr + g"
  by (cases atype;
      simp add: book_def detail_add_def summary_add_def update_detail_def add_gain_def
                dd_add_def dd_get_def detail_of_def)+

lemma process_sell_runs_loop:
  "process_sell ticker atype ratio txn st =
     (case sell_loop (Quantity txn * ratio) 0 (buy_queue st) (total_shares st) (total_cost st) of
        (remaining_to_sell, total_cost_basis, queue, shares, cost) \<Rightarrow>
          st\<lparr> buy_queue := queue, total_shares := shares, total_cost := cost,
              results := book ticker atype RealizedGains (Year txn)
                           (PricePerShareEUR txn * Quantity txn - total_cost_basis) (results st) \<rparr>)"
  by (simp add: process_sell_def Let_def split: prod.splits)

lemma process_sell_closed:
  "\<exists>k part. k \<le> length (buy_queue st) \<and> 0 \<le> part
     \<and> (part = 0 \<or> (k < length (buy_queue st) \<and> part < quantity (buy_queue st ! k)))
     \<and> (\<forall>i < k. quantity (buy_queue st ! i) \<le> Quantity txn * ratio - queue_shares (take i (buy_queue st))
                  \<and> 0 < Quantity txn * ratio - queue_shares (take i (buy_queue st)))
     \<and> (part = 0 \<longrightarrow> k = length (buy_queue st)
                       \<or> Quantity txn * ratio - queue_shares (take k (buy_queue st)) \<le> 0)
     \<and> (part \<noteq> 0 \<longrightarrow> part = Quantity txn * ratio - queue_shares (take k (buy_queue st)))
     \<and> process_sell ticker atype ratio txn st =
         st\<lparr> buy_queue :=
               (if part = 0 then drop k (buy_queue st)
                else (buy_queue st ! k)\<lparr>quantity := quantity (buy_queue st ! k) - part\<rparr>
                       # drop (Suc k) (buy_queue st)),
             total_shares := total_shares st - queue_shares (take k (buy_queue st)) - part,
             total_cost := total_cost st - consumed_cost k part (buy_queue st),
             results := book ticker atype RealizedGains (Year txn)
                          (PricePerShareEUR txn * Quantity txn - consumed_cost k part (buy_queue st))
                          (results st) \<rparr>"
proof -
  from sell_loop_fifo [of "buy_queue st" "Quantity txn * ratio" 0 "total_shares st" "total_cost st"]
  obtain k part where k: "k \<le> length (buy_queue st)" "0 \<le> part"
      "part = 0 \<or> (k < length (buy_queue st) \<and> part < quantity (buy_queue st ! k))"
      "\<forall>i < k. quantity (buy_queue st ! i) \<le> Quantity txn * ratio - queue_shares (take i (buy_queue st))
                  \<and> 0 < Quantity txn * ratio - queue_shares (take i (buy_queue st))"
      "part = 0 \<longrightarrow> k = length (buy_queue st)
                       \<or> Quantity txn * ratio - queue_shares (take k (buy_queue st)) \<le> 0"
      "part \<noteq> 0 \<longrightarrow> part = Quantity txn * ratio - queue_shares (take k (buy_queue st))"
    and run: "sell_loop (Quantity txn * ratio) 0 (buy_queue st) (total_shares st) (total_cost st) =
         (if part = 0 then Quantity txn * ratio - queue_shares (take k (buy_queue st)) else 0,
          0 + consumed_cost k part (buy_queue st),
          (if part = 0 then drop k (buy_queue st)
           else (buy_queue st ! k)\<lparr>quantity := quantity (buy_queue st ! k) - part\<rparr>
                  # drop (Suc k) (buy_queue st)),
          total_shares st - queue_shares (take k (buy_queue st)) - part,
          total_cost st - consumed_cost k part (buy_queue st))"
    by blast
  have "process_sell ticker atype ratio txn st =
         st\<lparr> buy_queue :=
               (if part = 0 then drop k (buy_queue st)
                else (buy_queue st ! k)\<lparr>quantity := quantity (buy_queue st ! k) - part\<rparr>
                       # drop (Suc k) (buy_queue st)),
             total_shares := total_shares st - queue_shares (take k (buy_queue st)) - part,
             total_cost := total_cost st - consumed_cost k part (buy_queue st),
             results := book ticker atype RealizedGains (Year txn)
                          (PricePerShareEUR txn * Quantity txn - consumed_cost k part (buy_queue st))
                          (results st) \<rparr>"
    by (simp add: process_sell_eq [OF run])
  with k show ?thesis by blast
qed

text \<open>
  C1. A sell runs the loop on the converted quantity of the row, from a cost basis of
  zero, over the queue and the two running totals, and takes the queue, the totals and
  the cost basis the loop ends with. While something remains to sell and the queue is not
  empty, a front lot no larger than what remains is removed and its cost added to the
  cost basis; a larger front lot is reduced by what remains, and nothing remains. So the
  loop takes the first \<open>k\<close> lots in full, each no larger than what remained when its
  turn came, and then either stops, because nothing remains or the queue is empty, or
  takes from the next lot, which is larger, exactly what remains (\<open>part\<close>): the queue
  after the sell is the queue before without its first \<open>k\<close> lots and with \<open>part\<close>
  taken off the next one, the totals are reduced by the shares and the cost of exactly
  these, and the gain booked is the unit price times the quantity of the row less their
  cost. The gain is added under the year of the row, in the summary of the asset class
  and in the detail of the ticker. Buys at 10, 20 and 30 and a sale of two: the cost
  basis is 30 and the lot at 30 stays, in exact arithmetic and with the rounding of
  binary64 alike; a sale of one and a half splits the lot at 20.
\<close>

theorem sell_consumes_oldest_first:
  fixes lot :: lot
  shows
  "(\<not> (0 < r \<and> q \<noteq> []) \<longrightarrow> sell_loop r b q s c = (r, b, q, s, c))
   \<and> (0 < r \<and> quantity lot \<le> r \<longrightarrow>
        sell_loop r b (lot # rest) s c =
          sell_loop (r - quantity lot) (b + quantity lot * price_per_share_eur lot) rest
            (s - quantity lot) (c - quantity lot * price_per_share_eur lot))
   \<and> (0 < r \<and> r < quantity lot \<longrightarrow>
        sell_loop r b (lot # rest) s c =
          (0, b + r * price_per_share_eur lot, lot\<lparr>quantity := quantity lot - r\<rparr> # rest,
           s - r, c - r * price_per_share_eur lot))
   \<and> process_sell ticker atype ratio txn st =
       (case sell_loop (Quantity txn * ratio) 0 (buy_queue st) (total_shares st) (total_cost st) of
          (remaining_to_sell, total_cost_basis, queue, shares, cost) \<Rightarrow>
            st\<lparr> buy_queue := queue, total_shares := shares, total_cost := cost,
                results := book ticker atype RealizedGains (Year txn)
                             (PricePerShareEUR txn * Quantity txn - total_cost_basis) (results st) \<rparr>)
   \<and> (\<exists>k part. k \<le> length (buy_queue st) \<and> 0 \<le> part
         \<and> (part = 0 \<or> (k < length (buy_queue st) \<and> part < quantity (buy_queue st ! k)))
         \<and> (\<forall>i < k. quantity (buy_queue st ! i)
                         \<le> Quantity txn * ratio - queue_shares (take i (buy_queue st))
                      \<and> 0 < Quantity txn * ratio - queue_shares (take i (buy_queue st)))
         \<and> (part = 0 \<longrightarrow> k = length (buy_queue st)
                           \<or> Quantity txn * ratio - queue_shares (take k (buy_queue st)) \<le> 0)
         \<and> (part \<noteq> 0 \<longrightarrow> part = Quantity txn * ratio - queue_shares (take k (buy_queue st)))
         \<and> process_sell ticker atype ratio txn st =
             st\<lparr> buy_queue :=
                   (if part = 0 then drop k (buy_queue st)
                    else (buy_queue st ! k)\<lparr>quantity := quantity (buy_queue st ! k) - part\<rparr>
                           # drop (Suc k) (buy_queue st)),
                 total_shares := total_shares st - queue_shares (take k (buy_queue st)) - part,
                 total_cost := total_cost st - consumed_cost k part (buy_queue st),
                 results := book ticker atype RealizedGains (Year txn)
                              (PricePerShareEUR txn * Quantity txn
                                 - consumed_cost k part (buy_queue st))
                              (results st) \<rparr>)
   \<and> (TransactionType txn = Sell \<and> fst (get_conversion_ratio yf (Ticker txn) w) = Inr ratio \<longrightarrow>
        fst (replay_transaction yf ticker etf atype txn st w)
          = Inr (process_sell ticker atype ratio txn st))
   \<and> dd_get (realized_gains (stocks (summary (book ticker Stocks RealizedGains yr g rs)))) yr
        = dd_get (realized_gains (stocks (summary rs))) yr + g
   \<and> dd_get (realized_gains (etfs (summary (book ticker Etfs RealizedGains yr g rs)))) yr
        = dd_get (realized_gains (etfs (summary rs))) yr + g
   \<and> dd_get (realized_gains (detail_of (book ticker atype RealizedGains yr g rs) ticker)) yr
        = dd_get (realized_gains (detail_of rs ticker)) yr + g
   \<and> replay example_yf ''ACME'' False Stocks (example_buys @ [example_row Sell 2 50 2023])
        example_start example_world
      = (Inr \<lparr> buy_queue = [\<lparr>quantity = 1, price_per_share_eur = 30, year = 2022\<rparr>],
               total_shares = 1, total_cost = 30,
               results = book ''ACME'' Stocks RealizedGains 2023 (50 * 2 - 30) empty_results \<rparr>,
         example_world)
   \<and> replay_fl binary64 example_yf ''ACME'' False Stocks
        (example_buys @ [example_row Sell 2 50 2023]) example_start example_world
      = (Inr \<lparr> buy_queue = [\<lparr>quantity = 1, price_per_share_eur = 30, year = 2022\<rparr>],
               total_shares = 1, total_cost = 30,
               results = book_fl binary64 ''ACME'' Stocks RealizedGains 2023 70 empty_results \<rparr>,
         example_world)
   \<and> replay example_yf ''ACME'' False Stocks (example_buys @ [example_row Sell (3 / 2) 50 2023])
        example_start example_world
      = (Inr \<lparr> buy_queue = [\<lparr>quantity = 1 / 2, price_per_share_eur = 20, year = 2021\<rparr>,
                            \<lparr>quantity = 1, price_per_share_eur = 30, year = 2022\<rparr>],
               total_shares = 3 / 2, total_cost = 40,
               results = book ''ACME'' Stocks RealizedGains 2023 (50 * (3 / 2) - 20) empty_results \<rparr>,
         example_world)"
proof -
  note loop = sell_loop_stop [of r q b s c] sell_loop_full [of r lot b rest s c]
    sell_loop_partial [of r lot b rest s c]
  note runs = process_sell_runs_loop [of ticker atype ratio txn st]
  note sell = process_sell_closed [of st txn ratio ticker atype]
  note step = replay_transaction_sell [of txn yf w ratio ticker etf atype st]
  from loop runs sell step book_realized example_replay example_replay_fl example_replay_split
  show ?thesis by blast
qed

theorem sell_consumes_oldest_first_witness:
  "(0::real) < 2 \<and> quantity \<lparr>quantity = 1, price_per_share_eur = 10, year = 2020\<rparr> \<le> (2::real)
   \<and> sell_loop 2 0 [\<lparr>quantity = 1, price_per_share_eur = 10, year = 2020\<rparr>,
                     \<lparr>quantity = 1, price_per_share_eur = 20, year = 2021\<rparr>,
                     \<lparr>quantity = 1, price_per_share_eur = 30, year = 2022\<rparr>] 3 60
       = sell_loop 1 10 [\<lparr>quantity = 1, price_per_share_eur = 20, year = 2021\<rparr>,
                         \<lparr>quantity = 1, price_per_share_eur = 30, year = 2022\<rparr>] 2 50
   \<and> sell_loop 1 10 [\<lparr>quantity = 1, price_per_share_eur = 20, year = 2021\<rparr>,
                       \<lparr>quantity = 1, price_per_share_eur = 30, year = 2022\<rparr>] 2 50
       = sell_loop 0 30 [\<lparr>quantity = 1, price_per_share_eur = 30, year = 2022\<rparr>] 1 30
   \<and> sell_loop 0 30 [\<lparr>quantity = 1, price_per_share_eur = 30, year = 2022\<rparr>] 1 30
       = (0, 30, [\<lparr>quantity = 1, price_per_share_eur = 30, year = 2022\<rparr>], 1, 30)
   \<and> (0::real) < 3 \<and> (3::real) < quantity \<lparr>quantity = 5, price_per_share_eur = 10, year = 2020\<rparr>
   \<and> sell_loop 3 0 [\<lparr>quantity = 5, price_per_share_eur = 10, year = 2020\<rparr>] 5 50
       = (0, 30, [\<lparr>quantity = 2, price_per_share_eur = 10, year = 2020\<rparr>], 2, 20)
   \<and> TransactionType (example_row Sell 3 50 2023) = Sell
   \<and> fst (get_conversion_ratio example_yf (Ticker (example_row Sell 3 50 2023)) example_world) = Inr 1
   \<and> fst (replay_transaction example_yf ''ACME'' False Stocks (example_row Sell 3 50 2023)
            \<lparr> buy_queue = [\<lparr>quantity = 5, price_per_share_eur = 10, year = 2020\<rparr>],
              total_shares = 5, total_cost = 50, results = empty_results \<rparr> example_world)
       = Inr \<lparr> buy_queue = [\<lparr>quantity = 2, price_per_share_eur = 10, year = 2020\<rparr>],
               total_shares = 2, total_cost = 20,
               results = book ''ACME'' Stocks RealizedGains 2023 (50 * 3 - 30) empty_results \<rparr>"
  using sell_consumes_oldest_first
          [of 2 "[\<lparr>quantity = 1, price_per_share_eur = 10, year = 2020\<rparr>]" 0 3 60
              "\<lparr>quantity = 1, price_per_share_eur = 10, year = 2020\<rparr>"
              "[\<lparr>quantity = 1, price_per_share_eur = 20, year = 2021\<rparr>,
                \<lparr>quantity = 1, price_per_share_eur = 30, year = 2022\<rparr>]"]
        sell_consumes_oldest_first
          [of 1 "[\<lparr>quantity = 1, price_per_share_eur = 10, year = 2020\<rparr>]" 10 2 50
              "\<lparr>quantity = 1, price_per_share_eur = 20, year = 2021\<rparr>"
              "[\<lparr>quantity = 1, price_per_share_eur = 30, year = 2022\<rparr>]"]
        sell_consumes_oldest_first
          [of 0 "[\<lparr>quantity = 1, price_per_share_eur = 30, year = 2022\<rparr>]" 30 1 30]
        sell_consumes_oldest_first
          [of 3 "[\<lparr>quantity = 5, price_per_share_eur = 10, year = 2020\<rparr>]" 0 5 50
              "\<lparr>quantity = 5, price_per_share_eur = 10, year = 2020\<rparr>" "[]"
              "''ACME''" Stocks 1 "example_row Sell 3 50 2023"
              "\<lparr> buy_queue = [\<lparr>quantity = 5, price_per_share_eur = 10, year = 2020\<rparr>],
                 total_shares = 5, total_cost = 50, results = empty_results \<rparr>"
              example_yf example_world False]
        example_sell_ratio example_partial_sell
  by (simp add: example_row_fields)

section \<open>Selling more than is held\<close>

lemma process_sell_oversold:
  assumes "list_all (\<lambda>b. 0 \<le> quantity b) (buy_queue st)"
    and "queue_shares (buy_queue st) < Quantity txn * ratio"
  shows "process_sell ticker atype ratio txn st =
           st\<lparr> buy_queue := [],
               total_shares := total_shares st - queue_shares (buy_queue st),
               total_cost := total_cost st - queue_cost (buy_queue st),
               results := book ticker atype RealizedGains (Year txn)
                            (PricePerShareEUR txn * Quantity txn - queue_cost (buy_queue st))
                            (results st) \<rparr>"
  using process_sell_eq [OF sell_loop_oversold [OF assms, of 0 "total_shares st" "total_cost st"]]
  by simp

lemma process_merger_oversold:
  assumes "list_all (\<lambda>b. 0 \<le> quantity b) (buy_queue st)"
    and "Quantity txn < 0" and "queue_shares (buy_queue st) < \<bar>Quantity txn\<bar>"
  shows "process_merger txn st =
           st\<lparr> buy_queue := [],
               total_shares := total_shares st - queue_shares (buy_queue st),
               total_cost := total_cost st - queue_cost (buy_queue st) \<rparr>"
  using process_merger_eq [OF assms(2) sell_loop_oversold [OF assms(1,3), of 0 "total_shares st" "total_cost st"]]
  by simp

text \<open>
  C6. When the queue is empty at the end of the loop and something still remains to
  sell, the cost basis is the cost of the lots that were in the queue and no more. That is
  what happens to every sell whose converted quantity is above what the queue holds (the
  lots of the queue being not negative): the loop ends with the rest unsold, the step
  returns a state and no error, and that state is the old one with the queue empty, the
  totals reduced and one gain booked, the proceeds less the cost of the lots that were
  there. Nothing else is recorded.
\<close>

theorem oversold_sell_is_silent:
  "(sell_loop r 0 q s c = (r', b', [], s', c') \<and> 0 < r' \<longrightarrow>
      b' = queue_cost q \<and> r' = r - queue_shares q \<and> queue_shares q < r)
   \<and> (list_all (\<lambda>b. 0 \<le> quantity b) (buy_queue st)
        \<and> queue_shares (buy_queue st) < Quantity txn * ratio \<longrightarrow>
        sell_loop (Quantity txn * ratio) 0 (buy_queue st) (total_shares st) (total_cost st)
          = (Quantity txn * ratio - queue_shares (buy_queue st), queue_cost (buy_queue st), [],
             total_shares st - queue_shares (buy_queue st),
             total_cost st - queue_cost (buy_queue st))
        \<and> process_sell ticker atype ratio txn st =
            st\<lparr> buy_queue := [],
                total_shares := total_shares st - queue_shares (buy_queue st),
                total_cost := total_cost st - queue_cost (buy_queue st),
                results := book ticker atype RealizedGains (Year txn)
                             (PricePerShareEUR txn * Quantity txn - queue_cost (buy_queue st))
                             (results st) \<rparr>)
   \<and> (TransactionType txn = Sell \<and> fst (get_conversion_ratio yf (Ticker txn) w) = Inr ratio \<longrightarrow>
        fst (replay_transaction yf ticker etf atype txn st w)
          = Inr (process_sell ticker atype ratio txn st))"
proof -
  have a: "b' = queue_cost q \<and> r' = r - queue_shares q \<and> queue_shares q < r"
    if "sell_loop r 0 q s c = (r', b', [], s', c')" "0 < r'"
    using sell_loop_emptied [OF that(1)] that(2) by simp
  have b: "sell_loop (Quantity txn * ratio) 0 (buy_queue st) (total_shares st) (total_cost st)
          = (Quantity txn * ratio - queue_shares (buy_queue st), queue_cost (buy_queue st), [],
             total_shares st - queue_shares (buy_queue st),
             total_cost st - queue_cost (buy_queue st))"
    if "list_all (\<lambda>b. 0 \<le> quantity b) (buy_queue st)"
       "queue_shares (buy_queue st) < Quantity txn * ratio"
    using sell_loop_oversold [OF that, of 0 "total_shares st" "total_cost st"] by simp
  note c = process_sell_oversold [of st txn ratio ticker atype]
  note d = replay_transaction_sell [of txn yf w ratio ticker etf atype st]
  from a b c d show ?thesis by blast
qed

theorem oversold_sell_is_silent_witness:
  "list_all (\<lambda>b. 0 \<le> quantity b) (buy_queue (process_buy ''ACME'' False 1 (example_row Buy 1 10 2020) example_start))
   \<and> queue_shares (buy_queue (process_buy ''ACME'' False 1 (example_row Buy 1 10 2020) example_start))
       < Quantity (example_row Sell 3 50 2023) * 1
   \<and> TransactionType (example_row Sell 3 50 2023) = Sell
   \<and> fst (replay_transaction example_yf ''ACME'' False Stocks (example_row Sell 3 50 2023)
            (process_buy ''ACME'' False 1 (example_row Buy 1 10 2020) example_start) example_world)
       = Inr \<lparr> buy_queue = [], total_shares = 0, total_cost = 0,
               results = book ''ACME'' Stocks RealizedGains 2023 (50 * 3 - 10) empty_results \<rparr>"
  using oversold_sell_is_silent
          [of 3 "[]" 0 0 3 0 0 0 "process_buy ''ACME'' False 1 (example_row Buy 1 10 2020) example_start"
              "example_row Sell 3 50 2023" 1 "''ACME''" Stocks example_yf example_world False]
        example_sell_ratio
  by (simp add: process_buy_def example_row_def example_start_def queue_shares_def queue_cost_def Let_def)

section \<open>Conservation\<close>

text \<open>
  C3, as the claim states it, fails in three places. After one buy the totals agree with
  the queue; the handling of an inactive ticker then sets the totals to zero and leaves
  the lot in the queue. A buy under a conversion ratio of zero adds its cost to the total
  and a lot of no cost to the queue. And under a conversion ratio of two the queue holds
  twice the quantity bought.
\<close>

theorem conservation_counterexample:
  "conserved (process_buy ''ACME'' False 1 (example_row Buy 1 10 2020) example_start)
   \<and> \<not> conserved (write_off_inactive ''ACME'' Stocks 2024
                     (process_buy ''ACME'' False 1 (example_row Buy 1 10 2020) example_start))
   \<and> \<not> conserved (process_buy ''ACME'' False 0 (example_row Buy 1 10 2020) example_start)
   \<and> queue_shares (buy_queue (process_buy ''ACME'' False 2 (example_row Buy 1 10 2020) example_start))
       \<noteq> Quantity (example_row Buy 1 10 2020)"
  by (simp add: conserved_def write_off_inactive_def process_buy_def example_row_def
                example_start_def queue_shares_def queue_cost_def Let_def)

text \<open>
  C3, amended. A replay that starts with totals that agree with the queue, as the empty
  ledger does, and in which every buy has a positive conversion ratio, ends with totals
  that agree with the queue; this holds for every sequence of rows, so after every row.
  For buys and sells with no oversell the quantity in the queue at the end is the quantity
  at the start plus the converted quantities bought less the converted quantities sold.
  The handling of an inactive ticker sets both totals to zero.
\<close>

theorem ledger_conservation:
  "(conserved st
      \<and> (\<forall>txn \<in> set txns. TransactionType txn = Buy \<longrightarrow> positive_ratio yf w txn)
      \<and> replay yf ticker etf atype txns st w = (Inr st', w') \<longrightarrow> conserved st')
   \<and> (total_shares st = queue_shares (buy_queue st)
        \<and> no_oversell (converted_quantity yf w) (total_shares st) txns
        \<and> replay yf ticker etf atype txns st w = (Inr st', w') \<longrightarrow>
        total_shares st' = queue_shares (buy_queue st')
        \<and> queue_shares (buy_queue st')
            = queue_shares (buy_queue st) + bought (converted_quantity yf w) txns
                - sold (converted_quantity yf w) txns)
   \<and> conserved \<lparr> buy_queue = [], total_shares = 0, total_cost = 0, results = rs \<rparr>
   \<and> total_shares (write_off_inactive ticker atype yr st) = 0
   \<and> total_cost (write_off_inactive ticker atype yr st) = 0"
proof -
  note a = replay_conserved [of st txns yf w ticker etf atype st' w']
  note b = replay_residual [of st yf w txns ticker etf atype st' w']
  have c: "conserved \<lparr> buy_queue = [], total_shares = 0, total_cost = 0, results = rs \<rparr>"
    by (simp add: conserved_def queue_shares_def queue_cost_def)
  have d: "total_shares (write_off_inactive ticker atype yr st) = 0
           \<and> total_cost (write_off_inactive ticker atype yr st) = 0"
    by (simp add: write_off_inactive_def Let_def)
  from a b c d show ?thesis by blast
qed

theorem ledger_conservation_witness:
  "conserved example_start
   \<and> (\<forall>txn \<in> set example_trades. TransactionType txn = Buy \<longrightarrow> positive_ratio example_yf example_world txn)
   \<and> no_oversell (converted_quantity example_yf example_world) (total_shares example_start) example_trades
   \<and> fst (replay example_yf ''ACME'' False Stocks example_trades example_start example_world)
       = Inr \<lparr> buy_queue = [\<lparr>quantity = 1, price_per_share_eur = 30, year = 2022\<rparr>],
               total_shares = 1, total_cost = 30,
               results = book ''ACME'' Stocks RealizedGains 2023 (50 * 2 - 30) empty_results \<rparr>
   \<and> conserved \<lparr> buy_queue = [\<lparr>quantity = 1, price_per_share_eur = 30, year = 2022\<rparr>],
                 total_shares = 1, total_cost = 30,
                 results = book ''ACME'' Stocks RealizedGains 2023 (50 * 2 - 30) empty_results \<rparr>
   \<and> bought (converted_quantity example_yf example_world) example_trades
       - sold (converted_quantity example_yf example_world) example_trades = 1"
  using ledger_conservation
          [of example_start example_trades example_yf example_world "''ACME''" False Stocks
              "\<lparr> buy_queue = [\<lparr>quantity = 1, price_per_share_eur = 30, year = 2022\<rparr>],
                 total_shares = 1, total_cost = 30,
                 results = book ''ACME'' Stocks RealizedGains 2023 (50 * 2 - 30) empty_results \<rparr>"
              example_world empty_results 2024]
        example_replay
  by (simp add: example_trades_def example_buys_def example_converted example_row_fields
                bought_def sold_def example_start_def conserved_def queue_shares_def queue_cost_def)

section \<open>Holdings are never negative\<close>

text \<open>
  C10, as the claim states it, fails, in two ways. A buy of quantity zero, which is not
  negative, leaves a lot of quantity zero in the queue, not a positive one. And the share
  total can end below zero: with the rounding of binary64, buys of 0.2 and of 0.5 followed
  by a sale of 1.7 empty the queue and leave \<^verbatim>\<open>total_shares\<close> at \<open>- (1 / 2 ^ 54)\<close>. The total
  after the two buys is the rounded sum, 0.7, and taking 0.2 and then 0.5 off it does not
  give back zero.
\<close>

theorem negative_holdings_counterexample:
  "fst (replay_transaction_fl binary64 example_yf ''ACME'' False Stocks
          (example_row Buy 0 10 2020) example_start example_world)
     = Inr \<lparr> buy_queue = [\<lparr>quantity = 0, price_per_share_eur = 10, year = 2020\<rparr>],
             total_shares = 0, total_cost = 0, results = empty_results \<rparr>
   \<and> fst (replay_fl binary64 example_yf ''ACME'' False Stocks example_float_oversell
            example_start example_world)
       = Inr \<lparr> buy_queue = [], total_shares = - (1 / 2 ^ 54), total_cost = 0,
               results = book_fl binary64 ''ACME'' Stocks RealizedGains 2023 0 empty_results \<rparr>
   \<and> - (1 / 2 ^ 54) < (0 :: real)"
  by (simp add: example_zero_buy_fl example_float_oversell_replay)

text \<open>
  C10, amended. Under every rounding that is monotone and keeps zero, and so under the
  rounding of binary64, when the converted quantity of every buy is not negative, no lot
  of the queue is negative after any number \<open>n\<close> of rows. Nothing is said of
  \<^verbatim>\<open>total_shares\<close>, which rounding can leave above or below the sum of the lots.
\<close>

theorem lots_never_negative:
  assumes "mono rnd" and "rnd 0 = 0"
    and "list_all (\<lambda>b. 0 \<le> quantity b) (buy_queue st)"
    and "\<forall>txn \<in> set txns. TransactionType txn = Buy \<longrightarrow> 0 \<le> converted_quantity yf w txn"
    and "replay_fl rnd yf ticker etf atype (take n txns) st w = (Inr st', w')"
  shows "list_all (\<lambda>b. 0 \<le> quantity b) (buy_queue st')"
proof -
  from assms(4) have "\<forall>txn \<in> set (take n txns).
      TransactionType txn = Buy \<longrightarrow> 0 \<le> converted_quantity yf w txn"
    by (meson in_set_takeD)
  from replay_fl_lots [OF assms(1,2,3) this assms(5)] show ?thesis .
qed

theorem lots_never_negative_witness:
  "mono binary64 \<and> binary64 0 = 0
   \<and> list_all (\<lambda>b. 0 \<le> quantity b) (buy_queue example_start)
   \<and> 0 \<le> converted_quantity example_yf example_world (example_row Buy (3602879701896397 / 2 ^ 55) 1 2020)
   \<and> 0 \<le> converted_quantity example_yf example_world (example_row Buy (3602879701896397 / 2 ^ 54) 1 2021)
   \<and> replay_fl binary64 example_yf ''ACME'' False Stocks (take 3 example_float_trades)
        example_start example_world
       = (Inr \<lparr> buy_queue = [\<lparr>quantity = 1 / 2 ^ 55, price_per_share_eur = 1, year = 2021\<rparr>],
                total_shares = 1 / 2 ^ 54, total_cost = 1 / 2 ^ 54,
                results = book_fl binary64 ''ACME'' Stocks RealizedGains 2023 0 empty_results \<rparr>,
          example_world)
   \<and> list_all (\<lambda>b. 0 \<le> quantity b)
        [\<lparr>quantity = 1 / 2 ^ 55, price_per_share_eur = 1, year = 2021\<rparr>]"
  using lots_never_negative
          [of binary64 example_start example_float_trades example_yf example_world
              "''ACME''" False Stocks 3
              "\<lparr> buy_queue = [\<lparr>quantity = 1 / 2 ^ 55, price_per_share_eur = 1, year = 2021\<rparr>],
                 total_shares = 1 / 2 ^ 54, total_cost = 1 / 2 ^ 54,
                 results = book_fl binary64 ''ACME'' Stocks RealizedGains 2023 0 empty_results \<rparr>"
              example_world]
        mono_binary64 binary64_zero example_float_trades_replay
  by (simp add: example_float_trades_def example_converted example_row_fields example_start_def)

section \<open>Running twice\<close>

text \<open>
  C8. \<open>process_transactions\<close> starts from empty results and reads the state only
  through the ticker cache, to which a run can only add the entries its lookups end with.
  So two runs over the same frame, with the same answers of \<^verbatim>\<open>yfinance\<close> and the same
  date, give the same results (or the same error) whenever the two states describe every
  ticker alike; in particular a second run in the state the first run leaves gives what
  the first gave.
\<close>

theorem rerun_same_results:
  "fst (process_transactions e df (snd (process_transactions e df w)))
     = fst (process_transactions e df w)
   \<and> (known_info (yfinance e) w1 = known_info (yfinance e) w2 \<longrightarrow>
        fst (process_transactions e df w1) = fst (process_transactions e df w2))"
  using stable_process_transactions [of e df]
  unfolding stable_def by blast

theorem rerun_same_results_witness:
  "process_transactions example_env example_frame empty_world
     = (Inr example_results, example_world_after)
   \<and> fst (process_transactions example_env example_frame example_world_after)
       = Inr example_results"
  using rerun_same_results [of example_env example_frame empty_world]
        process_transactions_example
  by simp

end
